theory Spec2Isabelle
  imports Complex_Main "HOL-Library.Sublist" "HOL-Library.Multiset"
begin

section \<open>Values of the host language\<close>

text \<open>
  Python floats are modelled by the reals extended with the two infinities and NaN: the
  arithmetic on finite values is exact (no rounding, no overflow), the three special
  values are kept because \<open>float\<close> accepts them and every comparison with NaN is false.
\<close>

datatype pyfloat = Fin real | PInf | NInf | NaN

fun fle :: "pyfloat \<Rightarrow> pyfloat \<Rightarrow> bool" where
  "fle NaN _ = False"
| "fle _ NaN = False"
| "fle NInf _ = True"
| "fle _ PInf = True"
| "fle (Fin a) (Fin b) = (a \<le> b)"
| "fle (Fin a) NInf = False"
| "fle PInf (Fin b) = False"
| "fle PInf NInf = False"

text \<open>A decoded JSON document; an object is the association list of its members.\<close>

datatype json =
    JNull
  | JBool bool
  | JInt int
  | JNum pyfloat
  | JStr string
  | JArr "json list"
  | JObj "(string \<times> json) list"

datatype exn = TypeError | ValueError | KeyError | AttributeError | OverflowError

text \<open>Truth value of a decoded document, as \<open>not data\<close> tests it.\<close>

fun truthy :: "json \<Rightarrow> bool" where
  "truthy JNull = False"
| "truthy (JBool b) = b"
| "truthy (JInt i) = (i \<noteq> 0)"
| "truthy (JNum x) = (x \<noteq> Fin 0)"
| "truthy (JStr s) = (s \<noteq> [])"
| "truthy (JArr xs) = (xs \<noteq> [])"
| "truthy (JObj kvs) = (kvs \<noteq> [])"

text \<open>
  \<open>k in data\<close>: key membership for an object, element membership for an array, substring
  test for a string, and a \<open>TypeError\<close> for the values that are not containers.
\<close>

fun py_in :: "string \<Rightarrow> json \<Rightarrow> exn + bool" where
  "py_in k (JObj kvs) = Inr (k \<in> set (map fst kvs))"
| "py_in k (JArr xs) = Inr (JStr k \<in> set xs)"
| "py_in k (JStr s) = Inr (sublist k s)"
| "py_in k JNull = Inl TypeError"
| "py_in k (JBool b) = Inl TypeError"
| "py_in k (JInt i) = Inl TypeError"
| "py_in k (JNum x) = Inl TypeError"

text \<open>\<open>all(k in data for k in keys)\<close>: left to right, stopping at the first miss.\<close>

fun all_in :: "string list \<Rightarrow> json \<Rightarrow> exn + bool" where
  "all_in [] d = Inr True"
| "all_in (k # ks) d =
     (case py_in k d of
        Inl e \<Rightarrow> Inl e
      | Inr b \<Rightarrow> if b then all_in ks d else Inr False)"

text \<open>\<open>data[k]\<close> with a string key: only an object can be subscripted by a string.\<close>

fun getitem :: "json \<Rightarrow> string \<Rightarrow> exn + json" where
  "getitem (JObj kvs) k = (case map_of kvs k of None \<Rightarrow> Inl KeyError | Some v \<Rightarrow> Inr v)"
| "getitem JNull k = Inl TypeError"
| "getitem (JBool b) k = Inl TypeError"
| "getitem (JInt i) k = Inl TypeError"
| "getitem (JNum x) k = Inl TypeError"
| "getitem (JStr s) k = Inl TypeError"
| "getitem (JArr xs) k = Inl TypeError"

definition bind_exn :: "exn + 'a \<Rightarrow> ('a \<Rightarrow> exn + 'b) \<Rightarrow> exn + 'b" where
  "bind_exn m f = (case m of Inl e \<Rightarrow> Inl e | Inr x \<Rightarrow> f x)"

section \<open>Dates\<close>

text \<open>A calendar date (year, month, day); dates compare chronologically.\<close>

type_synonym date = "nat \<times> nat \<times> nat"

fun date_less :: "date \<Rightarrow> date \<Rightarrow> bool" where
  "date_less (y1, m1, d1) (y2, m2, d2) =
     (y1 < y2 \<or> (y1 = y2 \<and> (m1 < m2 \<or> (m1 = m2 \<and> d1 < d2))))"

fun digits :: "nat \<Rightarrow> nat \<Rightarrow> string" where
  "digits 0 n = []"
| "digits (Suc w) n = digits w (n div 10) @ [char_of (48 + n mod 10)]"

text \<open>\<open>date.isoformat()\<close>: \<open>YYYY-MM-DD\<close>, zero padded.\<close>

fun isoformat :: "date \<Rightarrow> string" where
  "isoformat (y, m, d) =
     digits (Suc (Suc (Suc (Suc 0)))) y @ ''-'' @ digits (Suc (Suc 0)) m @ ''-'' @ digits (Suc (Suc 0)) d"

section \<open>The environment of a request\<close>

text \<open>
  What the handlers take from outside the repository: the library's conversion of a string
  to a float (\<open>None\<close> is its \<open>ValueError\<close>), the library's
  \<open>strptime(s, '%Y-%m-%d').date()\<close> (\<open>None\<close> is its \<open>ValueError\<close>), the storage
  layer's reading of a bound value as an integer key (\<open>None\<close> when it matches no row),
  the storage layer's writing of a value that is not a string to a text column (the text
  that the row holds afterwards, \<open>None\<close> when the storage layer refuses the value with an
  error of its own, an exception when its driver raises one), whether the commit of this
  request succeeds, and the text of the storage error when it does not.
\<close>

record env =
  float_str :: "string \<Rightarrow> pyfloat option"
  strptime :: "string \<Rightarrow> date option"
  as_key :: "json \<Rightarrow> int option"
  as_text :: "json \<Rightarrow> exn + string option"
  commit_ok :: bool
  db_error :: string

text \<open>
  \<open>float(v)\<close> for a value of a decoded document. An integer beyond the range of a double
  (one that rounds to \<open>2 ^ 1024\<close> or above) raises an \<open>OverflowError\<close>.
\<close>

fun py_float :: "env \<Rightarrow> json \<Rightarrow> exn + pyfloat" where
  "py_float E (JNum x) = Inr x"
| "py_float E (JInt i) =
     (if \<bar>i\<bar> < 2 ^ 1024 - 2 ^ 970 then Inr (Fin (of_int i)) else Inl OverflowError)"
| "py_float E (JBool b) = Inr (Fin (if b then 1 else 0))"
| "py_float E (JStr s) = (case float_str E s of None \<Rightarrow> Inl ValueError | Some x \<Rightarrow> Inr x)"
| "py_float E JNull = Inl TypeError"
| "py_float E (JArr xs) = Inl TypeError"
| "py_float E (JObj kvs) = Inl TypeError"

fun py_strptime :: "env \<Rightarrow> json \<Rightarrow> exn + date" where
  "py_strptime E (JStr s) = (case strptime E s of None \<Rightarrow> Inl ValueError | Some d \<Rightarrow> Inr d)"
| "py_strptime E JNull = Inl TypeError"
| "py_strptime E (JBool b) = Inl TypeError"
| "py_strptime E (JInt i) = Inl TypeError"
| "py_strptime E (JNum x) = Inl TypeError"
| "py_strptime E (JArr xs) = Inl TypeError"
| "py_strptime E (JObj kvs) = Inl TypeError"

text \<open>
  A value written to a column of type \<open>String\<close>, and the value that the row holds
  afterwards: a string is stored as it is, \<open>None\<close> is refused by the column, which is
  declared \<open>nullable=False\<close>, and the storage layer decides on the other values.
\<close>

fun column_text :: "env \<Rightarrow> json \<Rightarrow> exn + json option" where
  "column_text E (JStr s) = Inr (Some (JStr s))"
| "column_text E JNull = Inr None"
| "column_text E (JBool b) = map_sum id (map_option JStr) (as_text E (JBool b))"
| "column_text E (JInt i) = map_sum id (map_option JStr) (as_text E (JInt i))"
| "column_text E (JNum x) = map_sum id (map_option JStr) (as_text E (JNum x))"
| "column_text E (JArr xs) = map_sum id (map_option JStr) (as_text E (JArr xs))"
| "column_text E (JObj kvs) = map_sum id (map_option JStr) (as_text E (JObj kvs))"

text \<open>
  The text column \<open>k\<close> of a row at the commit of an update: it is written when the body
  has set it, to the value \<open>v\<close> that the row was given.
\<close>

definition text_set :: "env \<Rightarrow> json \<Rightarrow> string \<Rightarrow> json \<Rightarrow> exn + json option" where
  "text_set E data k v =
     bind_exn (py_in k data) (\<lambda>has. if has then column_text E v else Inr (Some v))"

section \<open>The data model (models.py)\<close>

record trip =
  t_id :: int
  t_destination :: json
  t_start_date :: date
  t_end_date :: date
  t_user_id :: int

record location =
  l_id :: int
  l_name :: json
  l_latitude :: real
  l_longitude :: real
  l_trip_id :: int

text \<open>The two tables, each in the order its rows are retrieved.\<close>

record db =
  trips :: "trip list"
  locations :: "location list"

text \<open>The key of a new row of an integer primary key: one more than the largest key.\<close>

definition next_id :: "int list \<Rightarrow> int" where
  "next_id ks = foldr max ks 0 + 1"

text \<open>
  The answer of a handler: a status with a JSON body, or an exception that no handler of
  the route catches (the framework answers it with status 500).
\<close>

datatype outcome = Reply nat json | Raised exn

fun status :: "outcome \<Rightarrow> nat" where
  "status (Reply s b) = s"
| "status (Raised e) = 500"

definition err :: "string \<Rightarrow> json" where
  "err msg = JObj [(''error'', JStr msg)]"

subsection \<open>Queries\<close>

text \<open>
  The storage holds a key as a signed integer of 64 bits, and its driver binds no other
  integer to a query: the query of a handler that is given one raises an
  \<open>OverflowError\<close>, which is no error of the storage layer and which no handler catches.
  \<open>get_trip\<close> and \<open>get_location\<close>, whose answer to every key is a property below, have
  this branch; the handlers that write are given for the keys that the driver binds.
\<close>

definition storable :: "int \<Rightarrow> bool" where
  "storable k = (- (2 ^ 63) \<le> k \<and> k < 2 ^ 63)"

definition bound_key :: "int \<Rightarrow> exn + int" where
  "bound_key k = (if storable k then Inr k else Inl OverflowError)"

text \<open>\<open>Trip.query.filter_by(id=trip_id, user_id=current_user.id).first()\<close>\<close>

definition owned_trip :: "db \<Rightarrow> int \<Rightarrow> int \<Rightarrow> trip option" where
  "owned_trip d uid tid = find (\<lambda>t. t_id t = tid \<and> t_user_id t = uid) (trips d)"

text \<open>The join of a location with its trip, filtered on the trip's owner.\<close>

definition owned_by :: "db \<Rightarrow> int \<Rightarrow> location \<Rightarrow> bool" where
  "owned_by d uid l = list_ex (\<lambda>t. t_id t = l_trip_id l \<and> t_user_id t = uid) (trips d)"

text \<open>\<open>Location.query.join(Trip).filter(Location.id == location_id, Trip.user_id == current_user.id).first()\<close>\<close>

definition owned_location :: "db \<Rightarrow> int \<Rightarrow> int \<Rightarrow> location option" where
  "owned_location d uid lid = find (\<lambda>l. l_id l = lid \<and> owned_by d uid l) (locations d)"

text \<open>\<open>Location.query.join(Trip).filter(Trip.user_id == current_user.id).all()\<close>\<close>

definition user_locations :: "db \<Rightarrow> int \<Rightarrow> location list" where
  "user_locations d uid = filter (owned_by d uid) (locations d)"

text \<open>The relationship \<open>trip.locations\<close>.\<close>

definition trip_locations :: "db \<Rightarrow> trip \<Rightarrow> location list" where
  "trip_locations d t = filter (\<lambda>l. l_trip_id l = t_id t) (locations d)"

definition location_brief :: "location \<Rightarrow> json" where
  "location_brief l = JObj
     [(''id'', JInt (l_id l)), (''name'', l_name l),
      (''latitude'', JNum (Fin (l_latitude l))), (''longitude'', JNum (Fin (l_longitude l)))]"

definition location_full :: "location \<Rightarrow> json" where
  "location_full l = JObj
     [(''id'', JInt (l_id l)), (''name'', l_name l),
      (''latitude'', JNum (Fin (l_latitude l))), (''longitude'', JNum (Fin (l_longitude l))),
      (''trip_id'', JInt (l_trip_id l))]"

section \<open>Trips (trip.py)\<close>

definition trip_not_found :: outcome where
  "trip_not_found = Reply 404 (err ''Trip not found or access denied'')"

definition storage_failure :: "env \<Rightarrow> outcome" where
  "storage_failure E = Reply 500 (err (''Database error: '' @ db_error E))"

text \<open>
  The body of the \<open>try\<close> of \<open>create_trip\<close>. A handler answers with the database it
  leaves behind: only a commit that succeeds changes it, what a request adds to its
  session and does not commit is gone with the request.
\<close>

definition create_trip_try :: "env \<Rightarrow> db \<Rightarrow> int \<Rightarrow> json \<Rightarrow> exn + (outcome \<times> db)" where
  "create_trip_try E d uid data =
     bind_exn (getitem data ''start_date'') (\<lambda>sv.
     bind_exn (py_strptime E sv) (\<lambda>start_date.
     bind_exn (getitem data ''end_date'') (\<lambda>ev.
     bind_exn (py_strptime E ev) (\<lambda>end_date.
       if date_less end_date start_date
       then Inr (Reply 400 (err ''End date cannot be before start date''), d)
       else
         bind_exn (getitem data ''destination'') (\<lambda>dest.
           let t = \<lparr>t_id = next_id (map t_id (trips d)), t_destination = dest,
                    t_start_date = start_date, t_end_date = end_date, t_user_id = uid\<rparr>
           in if commit_ok E
              then Inr (Reply 201 (JObj
                     [(''message'', JStr ''Trip created successfully''),
                      (''trip_id'', JInt (t_id t)),
                      (''destination'', t_destination t),
                      (''start_date'', JStr (isoformat (t_start_date t))),
                      (''end_date'', JStr (isoformat (t_end_date t)))]),
                    d\<lparr>trips := trips d @ [t]\<rparr>)
              else Inr (storage_failure E, d))))))"

definition create_trip :: "env \<Rightarrow> db \<Rightarrow> int \<Rightarrow> json \<Rightarrow> outcome \<times> db" where
  "create_trip E d uid data =
     (if \<not> truthy data then (Reply 400 (err ''Missing required trip fields''), d)
      else case all_in [''destination'', ''start_date'', ''end_date''] data of
        Inl e \<Rightarrow> (Raised e, d)
      | Inr b \<Rightarrow>
          if \<not> b then (Reply 400 (err ''Missing required trip fields''), d)
          else (case create_trip_try E d uid data of
                  Inr r \<Rightarrow> r
                | Inl e \<Rightarrow>
                    if e = ValueError
                    then (Reply 400 (err ''Invalid date format. Use YYYY-MM-DD''), d)
                    else (Raised e, d)))"

definition get_trip :: "db \<Rightarrow> int \<Rightarrow> int \<Rightarrow> outcome" where
  "get_trip d uid tid =
     (case bound_key tid of
        Inl e \<Rightarrow> Raised e
      | Inr k \<Rightarrow>
         (case owned_trip d uid k of
            None \<Rightarrow> trip_not_found
          | Some t \<Rightarrow> Reply 200 (JObj
              [(''id'', JInt (t_id t)),
               (''destination'', t_destination t),
               (''start_date'', JStr (isoformat (t_start_date t))),
               (''end_date'', JStr (isoformat (t_end_date t))),
               (''locations'', JArr (map location_brief (trip_locations d t)))])))"

text \<open>
  The body of the \<open>try\<close> of \<open>update_trip\<close>: the fields present in the body are set on
  the loaded row one after the other (\<open>set_trip_fields\<close>), then the two dates of the row
  are compared, then the row is written back (\<open>UPDATE ... WHERE id = ...\<close>), and the
  answer is read from the row as it is stored.
\<close>

definition write_trip :: "trip \<Rightarrow> db \<Rightarrow> db" where
  "write_trip t d = d\<lparr>trips := map (\<lambda>x. if t_id x = t_id t then t else x) (trips d)\<rparr>"

definition set_trip_fields :: "env \<Rightarrow> trip \<Rightarrow> json \<Rightarrow> exn + trip" where
  "set_trip_fields E t data =
     bind_exn (py_in ''destination'' data) (\<lambda>has_dest.
     bind_exn (if has_dest
               then bind_exn (getitem data ''destination'') (\<lambda>v. Inr (t\<lparr>t_destination := v\<rparr>))
               else Inr t) (\<lambda>t1.
     bind_exn (py_in ''start_date'' data) (\<lambda>has_start.
     bind_exn (if has_start
               then bind_exn (getitem data ''start_date'') (\<lambda>v.
                    bind_exn (py_strptime E v) (\<lambda>x. Inr (t1\<lparr>t_start_date := x\<rparr>)))
               else Inr t1) (\<lambda>t2.
     bind_exn (py_in ''end_date'' data) (\<lambda>has_end.
              (if has_end
               then bind_exn (getitem data ''end_date'') (\<lambda>v.
                    bind_exn (py_strptime E v) (\<lambda>x. Inr (t2\<lparr>t_end_date := x\<rparr>)))
               else Inr t2))))))"

definition updated_trip_body :: "trip \<Rightarrow> json" where
  "updated_trip_body t = JObj
     [(''message'', JStr ''Trip updated successfully''),
      (''trip'', JObj
         [(''id'', JInt (t_id t)),
          (''destination'', t_destination t),
          (''start_date'', JStr (isoformat (t_start_date t))),
          (''end_date'', JStr (isoformat (t_end_date t)))])]"

definition update_trip_try :: "env \<Rightarrow> db \<Rightarrow> trip \<Rightarrow> json \<Rightarrow> exn + (outcome \<times> db)" where
  "update_trip_try E d t data =
     bind_exn (set_trip_fields E t data) (\<lambda>t3.
       if date_less (t_end_date t3) (t_start_date t3)
       then Inr (Reply 400 (err ''End date cannot be before start date''), d)
       else
         bind_exn (text_set E data ''destination'' (t_destination t3)) (\<lambda>stored.
           case stored of
             None \<Rightarrow> Inr (storage_failure E, d)
           | Some dest \<Rightarrow>
               let t4 = t3\<lparr>t_destination := dest\<rparr>
               in if commit_ok E
                  then Inr (Reply 200 (updated_trip_body t4), write_trip t4 d)
                  else Inr (storage_failure E, d)))"

definition update_trip :: "env \<Rightarrow> db \<Rightarrow> int \<Rightarrow> int \<Rightarrow> json \<Rightarrow> outcome \<times> db" where
  "update_trip E d uid tid data =
     (case owned_trip d uid tid of
        None \<Rightarrow> (trip_not_found, d)
      | Some t \<Rightarrow>
          if \<not> truthy data then (Reply 400 (err ''No data provided''), d)
          else (case update_trip_try E d t data of
                  Inr r \<Rightarrow> r
                | Inl e \<Rightarrow>
                    if e = ValueError
                    then (Reply 400 (err ''Invalid date format. Use YYYY-MM-DD''), d)
                    else (Raised e, d)))"

text \<open>\<open>db.session.delete(row)\<close>: the row of that primary key is deleted.\<close>

definition delete_location_row :: "location \<Rightarrow> db \<Rightarrow> db" where
  "delete_location_row l d = d\<lparr>locations := filter (\<lambda>x. l_id x \<noteq> l_id l) (locations d)\<rparr>"

definition delete_trip_row :: "trip \<Rightarrow> db \<Rightarrow> db" where
  "delete_trip_row t d = d\<lparr>trips := filter (\<lambda>x. t_id x \<noteq> t_id t) (trips d)\<rparr>"

definition delete_trip :: "env \<Rightarrow> db \<Rightarrow> int \<Rightarrow> int \<Rightarrow> outcome \<times> db" where
  "delete_trip E d uid tid =
     (case owned_trip d uid tid of
        None \<Rightarrow> (trip_not_found, d)
      | Some t \<Rightarrow>
          let d1 = fold delete_location_row (trip_locations d t) d;
              d2 = delete_trip_row t d1
          in if commit_ok E
             then (Reply 200 (JObj
                     [(''message'', JStr ''Trip and all associated locations deleted successfully'')]),
                   d2)
             else (storage_failure E, d))"

section \<open>Locations (locations.py)\<close>

definition location_not_found :: outcome where
  "location_not_found = Reply 404 (err ''Location not found or access denied'')"

text \<open>
  \<open>lo <= x <= hi\<close> for a float \<open>x\<close>: true only of a finite value within the bounds, which
  is then the coordinate that is stored.
\<close>

fun finite_in :: "real \<Rightarrow> real \<Rightarrow> pyfloat \<Rightarrow> real option" where
  "finite_in lo hi (Fin r) = (if lo \<le> r \<and> r \<le> hi then Some r else None)"
| "finite_in lo hi PInf = None"
| "finite_in lo hi NInf = None"
| "finite_in lo hi NaN = None"

definition new_location :: "db \<Rightarrow> json \<Rightarrow> real \<Rightarrow> real \<Rightarrow> int \<Rightarrow> location" where
  "new_location d name lat lng tid =
     \<lparr>l_id = next_id (map l_id (locations d)), l_name = name,
      l_latitude = lat, l_longitude = lng, l_trip_id = tid\<rparr>"

text \<open>
  The body of the \<open>try\<close> of \<open>create_location\<close> and of \<open>add_location_to_trip\<close>, which
  differ in the message and in the fields of the location they echo.
\<close>

definition store_location_try ::
  "env \<Rightarrow> db \<Rightarrow> json \<Rightarrow> int \<Rightarrow> string \<Rightarrow> (location \<Rightarrow> json) \<Rightarrow> exn + (outcome \<times> db)" where
  "store_location_try E d data tid msg render =
     bind_exn (getitem data ''latitude'') (\<lambda>v.
     bind_exn (py_float E v) (\<lambda>lat.
     bind_exn (getitem data ''longitude'') (\<lambda>w.
     bind_exn (py_float E w) (\<lambda>lng.
       case finite_in (- 90) 90 lat of
         None \<Rightarrow> Inr (Reply 400 (err ''Invalid coordinates''), d)
       | Some la \<Rightarrow>
          (case finite_in (- 180) 180 lng of
             None \<Rightarrow> Inr (Reply 400 (err ''Invalid coordinates''), d)
           | Some lo \<Rightarrow>
               bind_exn (getitem data ''name'') (\<lambda>name.
                 let l = new_location d name la lo tid
                 in if commit_ok E
                    then Inr (Reply 201 (JObj [(''message'', JStr msg), (''location'', render l)]),
                              d\<lparr>locations := locations d @ [l]\<rparr>)
                    else Inr (storage_failure E, d)))))))"

definition catch_value_error :: "string \<Rightarrow> db \<Rightarrow> exn + (outcome \<times> db) \<Rightarrow> outcome \<times> db" where
  "catch_value_error msg d r =
     (case r of
        Inr x \<Rightarrow> x
      | Inl e \<Rightarrow> if e = ValueError then (Reply 400 (err msg), d) else (Raised e, d))"

definition create_location :: "env \<Rightarrow> db \<Rightarrow> int \<Rightarrow> json \<Rightarrow> outcome \<times> db" where
  "create_location E d uid data =
     (if \<not> truthy data then (Reply 400 (err ''Missing required location fields''), d)
      else case all_in [''name'', ''latitude'', ''longitude'', ''trip_id''] data of
        Inl e \<Rightarrow> (Raised e, d)
      | Inr b \<Rightarrow>
          if \<not> b then (Reply 400 (err ''Missing required location fields''), d)
          else (case getitem data ''trip_id'' of
                  Inl e \<Rightarrow> (Raised e, d)
                | Inr tv \<Rightarrow>
                   (case (case as_key E tv of None \<Rightarrow> None | Some k \<Rightarrow> owned_trip d uid k) of
                      None \<Rightarrow> (trip_not_found, d)
                    | Some t \<Rightarrow>
                        catch_value_error ''Invalid coordinate format'' d
                          (store_location_try E d data (t_id t)
                             ''Location created successfully'' location_full))))"

definition add_location_to_trip :: "env \<Rightarrow> db \<Rightarrow> int \<Rightarrow> int \<Rightarrow> json \<Rightarrow> outcome \<times> db" where
  "add_location_to_trip E d uid tid data =
     (case owned_trip d uid tid of
        None \<Rightarrow> (trip_not_found, d)
      | Some t \<Rightarrow>
          if \<not> truthy data then (Reply 400 (err ''Missing required location fields''), d)
          else (case all_in [''name'', ''latitude'', ''longitude''] data of
                  Inl e \<Rightarrow> (Raised e, d)
                | Inr b \<Rightarrow>
                    if \<not> b then (Reply 400 (err ''Missing required location fields''), d)
                    else catch_value_error ''Invalid coordinate format'' d
                           (store_location_try E d data tid
                              ''Location added successfully'' location_brief)))"

text \<open>
  \<open>get_location\<close>: the location is looked up through the join with its trip; the trip is
  then fetched by its key for the answer.
\<close>

definition get_location :: "db \<Rightarrow> int \<Rightarrow> int \<Rightarrow> outcome" where
  "get_location d uid lid =
     (case bound_key lid of
        Inl e \<Rightarrow> Raised e
      | Inr k \<Rightarrow>
         (case owned_location d uid k of
            None \<Rightarrow> location_not_found
          | Some l \<Rightarrow>
             (case find (\<lambda>t. t_id t = l_trip_id l) (trips d) of
                None \<Rightarrow> Raised AttributeError
              | Some t \<Rightarrow> Reply 200 (JObj
                  [(''id'', JInt (l_id l)), (''name'', l_name l),
                   (''latitude'', JNum (Fin (l_latitude l))),
                   (''longitude'', JNum (Fin (l_longitude l))),
                   (''trip'', JObj [(''id'', JInt (t_id t)),
                                    (''destination'', t_destination t)])]))))"

definition write_location :: "location \<Rightarrow> db \<Rightarrow> db" where
  "write_location l d =
     d\<lparr>locations := map (\<lambda>x. if l_id x = l_id l then l else x) (locations d)\<rparr>"

text \<open>
  The body of the \<open>try\<close> of \<open>update_location\<close>. The name, the latitude and the
  longitude are set on the loaded row in this order, each only when the body has it
  (\<open>set_location_fields\<close>); a coordinate out of range returns at once the message of its
  answer 400. Then the row is written back, and the answer is read from the row as it is
  stored.
\<close>

definition set_location_fields :: "env \<Rightarrow> location \<Rightarrow> json \<Rightarrow> exn + (string + location)" where
  "set_location_fields E l data =
     bind_exn (py_in ''name'' data) (\<lambda>has_name.
     bind_exn (if has_name
               then bind_exn (getitem data ''name'') (\<lambda>v. Inr (l\<lparr>l_name := v\<rparr>))
               else Inr l) (\<lambda>l1.
     bind_exn (py_in ''latitude'' data) (\<lambda>has_lat.
     bind_exn (if has_lat
               then bind_exn (getitem data ''latitude'') (\<lambda>v.
                    bind_exn (py_float E v) (\<lambda>lat.
                      Inr (map_option (\<lambda>r. l1\<lparr>l_latitude := r\<rparr>) (finite_in (- 90) 90 lat))))
               else Inr (Some l1)) (\<lambda>after_lat.
       case after_lat of
         None \<Rightarrow> Inr (Inl ''Invalid latitude'')
       | Some l2 \<Rightarrow>
     bind_exn (py_in ''longitude'' data) (\<lambda>has_lng.
     bind_exn (if has_lng
               then bind_exn (getitem data ''longitude'') (\<lambda>v.
                    bind_exn (py_float E v) (\<lambda>lng.
                      Inr (map_option (\<lambda>r. l2\<lparr>l_longitude := r\<rparr>) (finite_in (- 180) 180 lng))))
               else Inr (Some l2)) (\<lambda>after_lng.
       case after_lng of
         None \<Rightarrow> Inr (Inl ''Invalid longitude'')
       | Some l3 \<Rightarrow> Inr (Inr l3)))))))"

definition updated_location_body :: "location \<Rightarrow> json" where
  "updated_location_body l = JObj
     [(''message'', JStr ''Location updated successfully''),
      (''location'', location_brief l)]"

definition update_location_try :: "env \<Rightarrow> db \<Rightarrow> location \<Rightarrow> json \<Rightarrow> exn + (outcome \<times> db)" where
  "update_location_try E d l data =
     bind_exn (set_location_fields E l data) (\<lambda>x.
       case x of
         Inl msg \<Rightarrow> Inr (Reply 400 (err msg), d)
       | Inr l3 \<Rightarrow>
           bind_exn (text_set E data ''name'' (l_name l3)) (\<lambda>stored.
             case stored of
               None \<Rightarrow> Inr (storage_failure E, d)
             | Some name \<Rightarrow>
                 let l4 = l3\<lparr>l_name := name\<rparr>
                 in if commit_ok E
                    then Inr (Reply 200 (updated_location_body l4), write_location l4 d)
                    else Inr (storage_failure E, d)))"

definition update_location :: "env \<Rightarrow> db \<Rightarrow> int \<Rightarrow> int \<Rightarrow> json \<Rightarrow> outcome \<times> db" where
  "update_location E d uid lid data =
     (case owned_location d uid lid of
        None \<Rightarrow> (location_not_found, d)
      | Some l \<Rightarrow>
          if \<not> truthy data then (Reply 400 (err ''No data provided''), d)
          else catch_value_error ''Invalid coordinate format'' d (update_location_try E d l data))"

definition delete_location :: "env \<Rightarrow> db \<Rightarrow> int \<Rightarrow> int \<Rightarrow> outcome \<times> db" where
  "delete_location E d uid lid =
     (case owned_location d uid lid of
        None \<Rightarrow> (location_not_found, d)
      | Some l \<Rightarrow>
          if commit_ok E
          then (Reply 200 (JObj [(''message'', JStr ''Location deleted successfully'')]),
                delete_location_row l d)
          else (storage_failure E, d))"

subsection \<open>The distance\<close>

definition radians :: "real \<Rightarrow> real" where
  "radians x = x * (pi / 180)"

text \<open>
  \<open>haversine_distance\<close>. \<open>math.sqrt\<close> raises a \<open>ValueError\<close> below 0 and \<open>math.asin\<close>
  outside of \<open>[-1, 1]\<close>; both are branches here.
\<close>

definition haversine_a :: "real \<Rightarrow> real \<Rightarrow> real \<Rightarrow> real \<Rightarrow> real" where
  "haversine_a lat1 lon1 lat2 lon2 =
     (let r1 = radians lat1; n1 = radians lon1; r2 = radians lat2; n2 = radians lon2;
          dlon = n2 - n1; dlat = r2 - r1
      in (sin (dlat / 2))\<^sup>2 + cos r1 * cos r2 * (sin (dlon / 2))\<^sup>2)"

definition haversine_km :: "real \<Rightarrow> real \<Rightarrow> real \<Rightarrow> real \<Rightarrow> real" where
  "haversine_km lat1 lon1 lat2 lon2 =
     (let a = haversine_a lat1 lon1 lat2 lon2;
          c = 2 * arcsin (sqrt a);
          r = 6371
      in c * r)"

definition haversine_distance :: "real \<Rightarrow> real \<Rightarrow> real \<Rightarrow> real \<Rightarrow> exn + real" where
  "haversine_distance lat1 lon1 lat2 lon2 =
     (let a = haversine_a lat1 lon1 lat2 lon2
      in if a < 0 then Inl ValueError
         else if 1 < sqrt a then Inl ValueError
         else Inr (haversine_km lat1 lon1 lat2 lon2))"

text \<open>\<open>round(x, 2)\<close>: to the nearest hundredth, a tie to the even one.\<close>

definition py_round2 :: "real \<Rightarrow> real" where
  "py_round2 x =
     (let y = x * 100; f = \<lfloor>y\<rfloor>; r = y - of_int f
      in (if r < 1 / 2 then of_int f
          else if 1 / 2 < r then of_int (f + 1)
          else if even f then of_int f else of_int (f + 1)) / 100)"

subsection \<open>The search around a point\<close>

text \<open>An entry of \<open>nearby\<close>: the location with its rounded distance.\<close>

type_synonym nearby_entry = "location \<times> real"

definition entry_json :: "nearby_entry \<Rightarrow> json" where
  "entry_json e = JObj
     [(''id'', JInt (l_id (fst e))), (''name'', l_name (fst e)),
      (''latitude'', JNum (Fin (l_latitude (fst e)))),
      (''longitude'', JNum (Fin (l_longitude (fst e)))),
      (''distance'', JNum (Fin (snd e))),
      (''trip_id'', JInt (l_trip_id (fst e)))]"

text \<open>The loop over the user's locations, which keeps those within the radius.\<close>

fun nearby_scan :: "real \<Rightarrow> real \<Rightarrow> pyfloat \<Rightarrow> location list \<Rightarrow> exn + nearby_entry list" where
  "nearby_scan lat lng radius [] = Inr []"
| "nearby_scan lat lng radius (l # ls) =
     bind_exn (haversine_distance lat lng (l_latitude l) (l_longitude l)) (\<lambda>distance.
     bind_exn (nearby_scan lat lng radius ls) (\<lambda>rest.
       Inr (if fle (Fin distance) radius then (l, py_round2 distance) # rest else rest)))"

text \<open>\<open>float(request.args.get(name))\<close>: a parameter that is absent is \<open>float(None)\<close>.\<close>

definition arg_float :: "env \<Rightarrow> string option \<Rightarrow> exn + pyfloat" where
  "arg_float E v =
     (case v of
        None \<Rightarrow> Inl TypeError
      | Some s \<Rightarrow> (case float_str E s of None \<Rightarrow> Inl ValueError | Some x \<Rightarrow> Inr x))"

definition nearby_invalid :: outcome where
  "nearby_invalid = Reply 400 (err ''Invalid coordinates or radius'')"

definition nearby_try :: "env \<Rightarrow> db \<Rightarrow> int \<Rightarrow> (string \<times> string) list \<Rightarrow> exn + outcome" where
  "nearby_try E d uid args =
     bind_exn (arg_float E (map_of args ''latitude'')) (\<lambda>lat.
     bind_exn (arg_float E (map_of args ''longitude'')) (\<lambda>lng.
     bind_exn (case map_of args ''radius'' of
                 None \<Rightarrow> Inr (Fin 10)
               | Some s \<Rightarrow> arg_float E (Some s)) (\<lambda>radius.
       case finite_in (- 90) 90 lat of
         None \<Rightarrow> Inr nearby_invalid
       | Some la \<Rightarrow>
          (case finite_in (- 180) 180 lng of
             None \<Rightarrow> Inr nearby_invalid
           | Some lo \<Rightarrow>
               if fle radius (Fin 0) then Inr nearby_invalid
               else
                 bind_exn (nearby_scan la lo radius (user_locations d uid)) (\<lambda>nearby.
                   let nearby = sort_key snd nearby
                   in Inr (Reply 200 (JObj
                        [(''center'', JObj [(''latitude'', JNum (Fin la)),
                                            (''longitude'', JNum (Fin lo))]),
                         (''radius'', JNum radius),
                         (''locations'', JArr (map entry_json nearby)),
                         (''count'', JInt (int (length nearby)))])))))))"

definition get_nearby_locations :: "env \<Rightarrow> db \<Rightarrow> int \<Rightarrow> (string \<times> string) list \<Rightarrow> outcome" where
  "get_nearby_locations E d uid args =
     (case nearby_try E d uid args of
        Inr r \<Rightarrow> r
      | Inl e \<Rightarrow>
          if e = ValueError \<or> e = TypeError then Reply 400 (err ''Invalid parameters'')
          else Raised e)"

subsection \<open>Adding several locations\<close>

fun str_nat :: "nat \<Rightarrow> string" where
  "str_nat n =
     (if n < 10 then [char_of (48 + n)] else str_nat (n div 10) @ [char_of (48 + n mod 10)])"

text \<open>
  One turn of the loop of \<open>bulk_add_locations\<close>, on the session (the database with the
  rows added so far) and the list \<open>added_locations\<close>. Only a \<open>ValueError\<close> of the inner
  \<open>try\<close> is caught.
\<close>

definition bulk_item ::
  "env \<Rightarrow> int \<Rightarrow> json \<Rightarrow> db \<times> location list \<Rightarrow> exn + (db \<times> location list)" where
  "bulk_item E tid loc_data st =
     bind_exn (all_in [''name'', ''latitude'', ''longitude''] loc_data) (\<lambda>b.
       if \<not> b then Inr st
       else
         (case
            bind_exn (getitem loc_data ''latitude'') (\<lambda>v.
            bind_exn (py_float E v) (\<lambda>lat.
            bind_exn (getitem loc_data ''longitude'') (\<lambda>w.
            bind_exn (py_float E w) (\<lambda>lng.
              case finite_in (- 90) 90 lat of
                None \<Rightarrow> Inr st
              | Some la \<Rightarrow>
                 (case finite_in (- 180) 180 lng of
                    None \<Rightarrow> Inr st
                  | Some lo \<Rightarrow>
                      bind_exn (getitem loc_data ''name'') (\<lambda>name.
                        let l = new_location (fst st) name la lo tid
                        in Inr ((fst st)\<lparr>locations := locations (fst st) @ [l]\<rparr>,
                                snd st @ [l])))))))
          of
            Inr st' \<Rightarrow> Inr st'
          | Inl e \<Rightarrow> if e = ValueError then Inr st else Inl e))"

fun bulk_loop ::
  "env \<Rightarrow> int \<Rightarrow> json list \<Rightarrow> db \<times> location list \<Rightarrow> exn + (db \<times> location list)" where
  "bulk_loop E tid [] st = Inr st"
| "bulk_loop E tid (x # xs) st = bind_exn (bulk_item E tid x st) (bulk_loop E tid xs)"

definition bulk_commit :: "env \<Rightarrow> db \<Rightarrow> int \<Rightarrow> json list \<Rightarrow> outcome \<times> db" where
  "bulk_commit E d tid items =
     (case bulk_loop E tid items (d, []) of
        Inl e \<Rightarrow> (Raised e, d)
      | Inr st \<Rightarrow>
          if snd st = [] then (Reply 400 (err ''No valid locations provided''), d)
          else if commit_ok E
          then (Reply 201 (JObj
                  [(''message'', JStr (''Successfully added '' @ str_nat (length (snd st))
                                       @ '' locations'')),
                   (''locations'', JArr (map location_brief (snd st)))]),
                fst st)
          else (storage_failure E, d))"

definition bulk_bad_format :: outcome where
  "bulk_bad_format = Reply 400 (err ''Invalid data format. Expected list of locations'')"

definition bulk_add_locations :: "env \<Rightarrow> db \<Rightarrow> int \<Rightarrow> int \<Rightarrow> json \<Rightarrow> outcome \<times> db" where
  "bulk_add_locations E d uid tid data =
     (case owned_trip d uid tid of
        None \<Rightarrow> (trip_not_found, d)
      | Some t \<Rightarrow>
         (case data of
            JArr items \<Rightarrow> if items = [] then (bulk_bad_format, d) else bulk_commit E d tid items
          | _ \<Rightarrow> (bulk_bad_format, d)))"

section \<open>An environment and requests to run the handlers on\<close>

text \<open>
  The properties below hold for every environment. This one serves to run the handlers:
  it reads the zero-padded dates \<open>YYYY-MM-DD\<close> of the calendar and the plain decimal
  numbers as the library does, and refuses the other strings (of which the library
  accepts some); an integer is the only value it takes for a key; in a text column it
  writes an integer that it can bind in decimal notation and a truth value as 1 or 0, and
  refuses the other values that are no strings (of which the storage writes the floats).
\<close>

definition digit_of :: "char \<Rightarrow> nat option" where
  "digit_of c = (let n = (of_char c :: nat) in if 48 \<le> n \<and> n \<le> 57 then Some (n - 48) else None)"

fun number_of :: "string \<Rightarrow> nat \<Rightarrow> nat option" where
  "number_of [] acc = Some acc"
| "number_of (c # cs) acc =
     (case digit_of c of None \<Rightarrow> None | Some k \<Rightarrow> number_of cs (10 * acc + k))"

definition days_in_month :: "nat \<Rightarrow> nat \<Rightarrow> nat" where
  "days_in_month y m =
     (if m = 2 then (if y mod 4 = 0 \<and> (y mod 100 \<noteq> 0 \<or> y mod 400 = 0) then 29 else 28)
      else if m = 4 \<or> m = 6 \<or> m = 9 \<or> m = 11 then 30 else 31)"

definition sample_strptime :: "string \<Rightarrow> date option" where
  "sample_strptime s =
     (if length s = 10 \<and> s ! 4 = CHR ''-'' \<and> s ! 7 = CHR ''-''
      then (case number_of (take 4 s) 0 of
              None \<Rightarrow> None
            | Some y \<Rightarrow>
               (case number_of (take 2 (drop 5 s)) 0 of
                  None \<Rightarrow> None
                | Some m \<Rightarrow>
                   (case number_of (drop 8 s) 0 of
                      None \<Rightarrow> None
                    | Some dd \<Rightarrow>
                        if 1 \<le> y \<and> 1 \<le> m \<and> m \<le> 12 \<and> 1 \<le> dd \<and> dd \<le> days_in_month y m
                        then Some (y, m, dd) else None)))
      else None)"

definition sample_float :: "string \<Rightarrow> pyfloat option" where
  "sample_float s =
     (let neg = (s \<noteq> [] \<and> hd s = CHR ''-'');
          body = (if neg then tl s else s);
          ip = takeWhile (\<lambda>c. c \<noteq> CHR ''.'') body;
          fp = drop (Suc (length ip)) body
      in if ip = [] then None
         else (case number_of ip 0 of
                 None \<Rightarrow> None
               | Some i \<Rightarrow>
                  (case number_of fp 0 of
                     None \<Rightarrow> None
                   | Some f \<Rightarrow>
                       Some (Fin ((if neg then - 1 else 1)
                                  * (real i + real f / 10 ^ length fp))))))"

fun sample_key :: "json \<Rightarrow> int option" where
  "sample_key (JInt i) = Some i"
| "sample_key JNull = None"
| "sample_key (JBool b) = None"
| "sample_key (JNum x) = None"
| "sample_key (JStr s) = None"
| "sample_key (JArr xs) = None"
| "sample_key (JObj kvs) = None"

definition str_int :: "int \<Rightarrow> string" where
  "str_int i = (if i < 0 then CHR ''-'' # str_nat (nat (- i)) else str_nat (nat i))"

fun sample_text :: "json \<Rightarrow> exn + string option" where
  "sample_text (JInt i) = (if storable i then Inr (Some (str_int i)) else Inl OverflowError)"
| "sample_text (JBool b) = Inr (Some (if b then ''1'' else ''0''))"
| "sample_text JNull = Inr None"
| "sample_text (JNum x) = Inr None"
| "sample_text (JStr s) = Inr (Some s)"
| "sample_text (JArr xs) = Inr None"
| "sample_text (JObj kvs) = Inr None"

definition sample_env :: env where
  "sample_env = \<lparr>float_str = sample_float, strptime = sample_strptime, as_key = sample_key,
                  as_text = sample_text, commit_ok = True, db_error = []\<rparr>"

definition empty_db :: db where
  "empty_db = \<lparr>trips = [], locations = []\<rparr>"

text \<open>The trip to Kyoto of the scenarios, created by user 1 in the empty database.\<close>

definition kyoto_body :: json where
  "kyoto_body = JObj [(''destination'', JStr ''Kyoto''),
                      (''start_date'', JStr ''2024-05-01''), (''end_date'', JStr ''2024-05-10'')]"

definition kyoto_db :: db where
  "kyoto_db = \<lparr>trips = [\<lparr>t_id = 1, t_destination = JStr ''Kyoto'', t_start_date = (2024, 5, 1),
                          t_end_date = (2024, 5, 10), t_user_id = 1\<rparr>],
               locations = []\<rparr>"

text \<open>A location of that trip, at (35.0, 135.7).\<close>

definition kyoto_spot :: location where
  "kyoto_spot = \<lparr>l_id = 1, l_name = JStr ''Temple'', l_latitude = 35,
                  l_longitude = 1357 / 10, l_trip_id = 1\<rparr>"

definition kyoto_spot_db :: db where
  "kyoto_spot_db = kyoto_db\<lparr>locations := [kyoto_spot]\<rparr>"

section \<open>The states the handlers reach\<close>

text \<open>The invariant of the trips: no trip ends before it starts.\<close>

definition trips_valid :: "db \<Rightarrow> bool" where
  "trips_valid d = list_all (\<lambda>t. \<not> date_less (t_end_date t) (t_start_date t)) (trips d)"

text \<open>
  The databases that requests produce from the empty one: every handler that writes, with
  any environment, user and input.
\<close>

inductive reachable :: "db \<Rightarrow> bool" where
  start: "reachable empty_db"
| trip_created: "reachable d \<Longrightarrow> reachable (snd (create_trip E d uid data))"
| trip_updated: "reachable d \<Longrightarrow> reachable (snd (update_trip E d uid tid data))"
| trip_deleted: "reachable d \<Longrightarrow> reachable (snd (delete_trip E d uid tid))"
| location_created: "reachable d \<Longrightarrow> reachable (snd (create_location E d uid data))"
| location_added: "reachable d \<Longrightarrow> reachable (snd (add_location_to_trip E d uid tid data))"
| location_updated: "reachable d \<Longrightarrow> reachable (snd (update_location E d uid lid data))"
| location_deleted: "reachable d \<Longrightarrow> reachable (snd (delete_location E d uid lid))"
| locations_added: "reachable d \<Longrightarrow> reachable (snd (bulk_add_locations E d uid tid data))"

text \<open>Requests on the trip to Kyoto whose dates are out of order.\<close>

definition osaka_backwards :: json where
  "osaka_backwards = JObj [(''destination'', JStr ''Osaka''),
                           (''start_date'', JStr ''2024-06-10''), (''end_date'', JStr ''2024-06-01'')]"

definition end_before_start :: json where
  "end_before_start = JObj [(''end_date'', JStr ''2024-04-30'')]"

definition start_after_end :: json where
  "start_after_end = JObj [(''start_date'', JStr ''2024-05-11'')]"

definition kyoto_trip :: trip where
  "kyoto_trip = \<lparr>t_id = 1, t_destination = JStr ''Kyoto'', t_start_date = (2024, 5, 1),
                  t_end_date = (2024, 5, 10), t_user_id = 1\<rparr>"

text \<open>Two trips of user 1, the first with two locations and the second with one.\<close>

definition nara_trip :: trip where
  "nara_trip = \<lparr>t_id = 2, t_destination = JStr ''Nara'', t_start_date = (2024, 6, 1),
                 t_end_date = (2024, 6, 3), t_user_id = 1\<rparr>"

definition nara_spot :: location where
  "nara_spot = \<lparr>l_id = 2, l_name = JStr ''Park'', l_latitude = 347 / 10,
                 l_longitude = 1358 / 10, l_trip_id = 2\<rparr>"

definition kyoto_garden :: location where
  "kyoto_garden = \<lparr>l_id = 3, l_name = JStr ''Garden'', l_latitude = 3502 / 100,
                    l_longitude = 13575 / 100, l_trip_id = 1\<rparr>"

definition two_trips_db :: db where
  "two_trips_db = \<lparr>trips = [kyoto_trip, nara_trip],
                    locations = [kyoto_spot, nara_spot, kyoto_garden]\<rparr>"

text \<open>Updates with a field that is accepted before one that is refused, and with one field.\<close>

definition rename_and_misplace :: json where
  "rename_and_misplace = JObj [(''name'', JStr ''Shrine''), (''latitude'', JInt 200)]"

definition rename_only :: json where
  "rename_only = JObj [(''name'', JStr ''Shrine'')]"

definition retitle_and_shorten :: json where
  "retitle_and_shorten = JObj [(''destination'', JStr ''Tokyo''), (''end_date'', JStr ''2024-04-30'')]"

definition retitle_only :: json where
  "retitle_only = JObj [(''destination'', JStr ''Tokyo'')]"

text \<open>
  Updates that are accepted: of the name and the latitude of a location, of the destination
  and the end date of a trip, with a name that is a number, and with a body that is a list.
\<close>

definition rename_and_move :: json where
  "rename_and_move = JObj [(''name'', JStr ''Shrine''), (''latitude'', JInt 34)]"

definition retitle_and_extend :: json where
  "retitle_and_extend = JObj [(''destination'', JStr ''Osaka''), (''end_date'', JStr ''2024-06-05'')]"

definition rename_to_number :: json where
  "rename_to_number = JObj [(''name'', JInt 5)]"

definition list_body :: json where
  "list_body = JArr [JInt 1, JInt 2, JInt 3]"

definition moved_garden :: location where
  "moved_garden = \<lparr>l_id = 3, l_name = JStr ''Shrine'', l_latitude = 34,
                    l_longitude = 13575 / 100, l_trip_id = 1\<rparr>"

definition osaka_trip :: trip where
  "osaka_trip = \<lparr>t_id = 2, t_destination = JStr ''Osaka'', t_start_date = (2024, 6, 1),
                  t_end_date = (2024, 6, 5), t_user_id = 1\<rparr>"

text \<open>
  Bodies for the creation of a location under trip 1: with a latitude out of range, and
  the same without a name.
\<close>

definition misplaced_spot :: json where
  "misplaced_spot = JObj [(''name'', JStr ''Tower''), (''latitude'', JInt 200),
                          (''longitude'', JInt 0), (''trip_id'', JInt 1)]"

definition nameless_spot :: json where
  "nameless_spot = JObj [(''latitude'', JInt 200), (''longitude'', JInt 0), (''trip_id'', JInt 1)]"

text \<open>
  Items for \<open>bulk_add_locations\<close>: two that are valid, three that are not (a latitude
  and a longitude out of range, a name that is missing), and one whose latitude is null.
\<close>

definition item_tower :: json where
  "item_tower = JObj [(''name'', JStr ''Tower''), (''latitude'', JInt 35), (''longitude'', JInt 135)]"

definition item_gate :: json where
  "item_gate = JObj [(''name'', JStr ''Gate''), (''latitude'', JInt 34), (''longitude'', JInt 136)]"

definition item_lat200 :: json where
  "item_lat200 = JObj [(''name'', JStr ''Far''), (''latitude'', JInt 200), (''longitude'', JInt 135)]"

definition item_lon300 :: json where
  "item_lon300 = JObj [(''name'', JStr ''Wide''), (''latitude'', JInt 35), (''longitude'', JInt 300)]"

definition item_nameless :: json where
  "item_nameless = JObj [(''latitude'', JInt 35), (''longitude'', JInt 135)]"

definition item_null_latitude :: json where
  "item_null_latitude = JObj [(''name'', JStr ''Lost''), (''latitude'', JNull), (''longitude'', JInt 135)]"

definition tower_row :: location where
  "tower_row = \<lparr>l_id = 1, l_name = JStr ''Tower'', l_latitude = 35, l_longitude = 135,
                 l_trip_id = 1\<rparr>"

definition gate_row :: location where
  "gate_row = \<lparr>l_id = 2, l_name = JStr ''Gate'', l_latitude = 34, l_longitude = 136,
                l_trip_id = 1\<rparr>"

text \<open>
  Two locations of trip 1 on the equator, the first about 2.2 m and the second about
  1.1 m east of the point (0, 0), and the search around that point with the default
  radius.
\<close>

definition far_spot :: location where
  "far_spot = \<lparr>l_id = 1, l_name = JStr ''Far'', l_latitude = 0,
                l_longitude = 1 / 50000, l_trip_id = 1\<rparr>"

definition near_spot :: location where
  "near_spot = \<lparr>l_id = 2, l_name = JStr ''Near'', l_latitude = 0,
                 l_longitude = 1 / 100000, l_trip_id = 1\<rparr>"

definition equator_db :: db where
  "equator_db = kyoto_db\<lparr>locations := [far_spot, near_spot]\<rparr>"

definition origin_args :: "(string \<times> string) list" where
  "origin_args = [(''latitude'', ''0''), (''longitude'', ''0'')]"

text \<open>The search of the scenario: around (35.01, 135.71), within 5 km.\<close>

definition kyoto_args :: "(string \<times> string) list" where
  "kyoto_args = [(''latitude'', ''35.01''), (''longitude'', ''135.71''), (''radius'', ''5'')]"

section \<open>Properties\<close>

subsection \<open>Keys and lookups\<close>

lemma foldr_max_ge: "k \<in> set ks \<Longrightarrow> k \<le> foldr max ks (0::int)"
  by (induction ks) auto

lemma next_id_fresh: "k \<in> set ks \<Longrightarrow> k < next_id ks"
  using foldr_max_ge [of k ks] by (simp add: next_id_def)

lemma owned_trip_None:
  "(owned_trip d uid tid = None) = (\<forall>t\<in>set (trips d). t_id t = tid \<longrightarrow> t_user_id t \<noteq> uid)"
  by (auto simp: owned_trip_def find_None_iff)

lemma owned_trip_Some:
  "owned_trip d uid tid = Some t \<Longrightarrow> t \<in> set (trips d) \<and> t_id t = tid \<and> t_user_id t = uid"
  by (auto simp: owned_trip_def find_Some_iff)

lemma owned_location_None:
  "(owned_location d uid lid = None) =
   (\<forall>l\<in>set (locations d). l_id l = lid \<longrightarrow>
      (\<forall>t\<in>set (trips d). t_id t = l_trip_id l \<longrightarrow> t_user_id t \<noteq> uid))"
  by (auto simp: owned_location_def owned_by_def find_None_iff list_ex_iff)

lemma storable_small: "storable 1" "storable 3" "storable 7"
  by (simp_all add: storable_def)

lemma get_trip_bound: "storable tid \<Longrightarrow> owned_trip d uid tid = None \<Longrightarrow>
    get_trip d uid tid = Reply 404 (err ''Trip not found or access denied'')"
  by (simp add: get_trip_def bound_key_def trip_not_found_def)

lemma get_location_bound: "storable lid \<Longrightarrow> owned_location d uid lid = None \<Longrightarrow>
    get_location d uid lid = Reply 404 (err ''Location not found or access denied'')"
  by (simp add: get_location_def bound_key_def location_not_found_def)

lemma create_trip_cases:
  "create_trip E d uid data = (r, d') \<Longrightarrow>
     (d' = d \<and> (\<forall>b. r \<noteq> Reply 201 b)) \<or>
     (\<exists>t b. d' = d\<lparr>trips := trips d @ [t]\<rparr> \<and> r = Reply 201 b
         \<and> getitem b ''trip_id'' = Inr (JInt (t_id t))
         \<and> t_id t = next_id (map t_id (trips d)) \<and> t_user_id t = uid
         \<and> \<not> date_less (t_end_date t) (t_start_date t))"
  by (auto simp: create_trip_def create_trip_try_def bind_exn_def Let_def storage_failure_def
           split: if_splits sum.splits)

lemma kyoto_created: "create_trip sample_env empty_db 1 kyoto_body =
  (Reply 201 (JObj [(''message'', JStr ''Trip created successfully''), (''trip_id'', JInt 1),
     (''destination'', JStr ''Kyoto''), (''start_date'', JStr ''2024-05-01''),
     (''end_date'', JStr ''2024-05-10'')]), kyoto_db)"
  by code_simp

subsection \<open>An entity of another user is not found\<close>

text \<open>
  C2, as the code has it. A trip is looked up by its key and its owner at once, a location
  by its key and the owner of its trip. For a key that the storage binds (a signed integer
  of 64 bits, as every key of a row is): when no trip of that key belongs to the caller,
  which is the case both when the key is absent and when the trip is another user's,
  \<open>get_trip\<close> gives the one answer 404 with the one body, and so does \<open>get_location\<close>
  for a location; the caller cannot tell the two cases apart. In particular the trip a
  user has just created is not found by any other user.
\<close>

theorem not_found_hides_ownership:
  "(storable tid \<and> (\<forall>t\<in>set (trips d). t_id t = tid \<longrightarrow> t_user_id t \<noteq> uid) \<longrightarrow>
      get_trip d uid tid = Reply 404 (err ''Trip not found or access denied''))
   \<and> (storable lid
        \<and> (\<forall>l\<in>set (locations d). l_id l = lid \<longrightarrow>
             (\<forall>t\<in>set (trips d). t_id t = l_trip_id l \<longrightarrow> t_user_id t \<noteq> uid)) \<longrightarrow>
      get_location d uid lid = Reply 404 (err ''Location not found or access denied''))
   \<and> (create_trip E d0 a data = (Reply 201 body, d1)
        \<and> getitem body ''trip_id'' = Inr (JInt k) \<and> storable k \<and> b \<noteq> a \<longrightarrow>
      get_trip d1 b k = Reply 404 (err ''Trip not found or access denied''))"
proof (intro conjI impI)
  assume h: "storable tid \<and> (\<forall>t\<in>set (trips d). t_id t = tid \<longrightarrow> t_user_id t \<noteq> uid)"
  then have "owned_trip d uid tid = None"
    by (simp add: owned_trip_None)
  with h show "get_trip d uid tid = Reply 404 (err ''Trip not found or access denied'')"
    by (simp add: get_trip_bound)
next
  assume h: "storable lid
        \<and> (\<forall>l\<in>set (locations d). l_id l = lid \<longrightarrow>
             (\<forall>t\<in>set (trips d). t_id t = l_trip_id l \<longrightarrow> t_user_id t \<noteq> uid))"
  then have "owned_location d uid lid = None"
    by (simp add: owned_location_None)
  with h show "get_location d uid lid = Reply 404 (err ''Location not found or access denied'')"
    by (simp add: get_location_bound)
next
  assume h: "create_trip E d0 a data = (Reply 201 body, d1)
               \<and> getitem body ''trip_id'' = Inr (JInt k) \<and> storable k \<and> b \<noteq> a"
  from create_trip_cases [of E d0 a data "Reply 201 body" d1] h
  obtain t where t: "d1 = d0\<lparr>trips := trips d0 @ [t]\<rparr>" "k = t_id t"
      "t_id t = next_id (map t_id (trips d0))" "t_user_id t = a"
    by auto
  have "\<forall>x\<in>set (trips d1). t_id x = k \<longrightarrow> t_user_id x \<noteq> b"
  proof (intro ballI impI)
    fix x assume x: "x \<in> set (trips d1)" "t_id x = k"
    show "t_user_id x \<noteq> b"
    proof (cases "x = t")
      case True
      with t h show ?thesis by simp
    next
      case False
      with x t have "x \<in> set (trips d0)" by simp
      then have "t_id x < next_id (map t_id (trips d0))"
        by (intro next_id_fresh) simp
      with x t show ?thesis by simp
    qed
  qed
  then have "owned_trip d1 b k = None"
    by (simp add: owned_trip_None)
  with h show "get_trip d1 b k = Reply 404 (err ''Trip not found or access denied'')"
    by (simp add: get_trip_bound)
qed

theorem not_found_hides_ownership_witness:
  "get_trip kyoto_db 2 1 = Reply 404 (err ''Trip not found or access denied'')
   \<and> get_trip kyoto_db 2 7 = Reply 404 (err ''Trip not found or access denied'')
   \<and> get_location kyoto_spot_db 2 1 = Reply 404 (err ''Location not found or access denied'')
   \<and> get_location kyoto_spot_db 2 7 = Reply 404 (err ''Location not found or access denied'')
   \<and> get_trip (snd (create_trip sample_env empty_db 1 kyoto_body)) 2 1
       = Reply 404 (err ''Trip not found or access denied'')
   \<and> status (get_trip kyoto_db 1 1) = 200 \<and> status (get_location kyoto_spot_db 1 1) = 200"
proof -
  have foreign: "storable 1 \<and> (\<forall>t\<in>set (trips kyoto_db). t_id t = 1 \<longrightarrow> t_user_id t \<noteq> 2)"
    and absent: "storable 7 \<and> (\<forall>t\<in>set (trips kyoto_db). t_id t = 7 \<longrightarrow> t_user_id t \<noteq> 2)"
    by (simp_all add: kyoto_db_def storable_def)
  have lforeign: "storable 1 \<and> (\<forall>l\<in>set (locations kyoto_spot_db). l_id l = 1 \<longrightarrow>
          (\<forall>t\<in>set (trips kyoto_spot_db). t_id t = l_trip_id l \<longrightarrow> t_user_id t \<noteq> 2))"
    and labsent: "storable 7 \<and> (\<forall>l\<in>set (locations kyoto_spot_db). l_id l = 7 \<longrightarrow>
          (\<forall>t\<in>set (trips kyoto_spot_db). t_id t = l_trip_id l \<longrightarrow> t_user_id t \<noteq> 2))"
    by (simp_all add: kyoto_spot_db_def kyoto_db_def kyoto_spot_def storable_def)
  have created: "create_trip sample_env empty_db 1 kyoto_body
        = (Reply 201 (JObj [(''message'', JStr ''Trip created successfully''),
             (''trip_id'', JInt 1), (''destination'', JStr ''Kyoto''),
             (''start_date'', JStr ''2024-05-01''), (''end_date'', JStr ''2024-05-10'')]),
           kyoto_db)
      \<and> getitem (JObj [(''message'', JStr ''Trip created successfully''),
             (''trip_id'', JInt 1), (''destination'', JStr ''Kyoto''),
             (''start_date'', JStr ''2024-05-01''), (''end_date'', JStr ''2024-05-10'')])
           ''trip_id'' = Inr (JInt 1) \<and> storable 1 \<and> (2::int) \<noteq> 1"
    by (simp add: kyoto_created storable_def)
  have own: "status (get_trip kyoto_db 1 1) = 200"
    "status (get_location kyoto_spot_db 1 1) = 200"
    by (simp_all add: get_trip_def get_location_def bound_key_def storable_def owned_trip_def
          owned_location_def owned_by_def kyoto_spot_db_def kyoto_db_def kyoto_spot_def)
  note main = not_found_hides_ownership
  from main [where d = kyoto_db and tid = 1 and uid = 2, THEN conjunct1, THEN mp, OF foreign]
       main [where d = kyoto_db and tid = 7 and uid = 2, THEN conjunct1, THEN mp, OF absent]
       main [where d = kyoto_spot_db and lid = 1 and uid = 2,
            THEN conjunct2, THEN conjunct1, THEN mp, OF lforeign]
       main [where d = kyoto_spot_db and lid = 7 and uid = 2,
            THEN conjunct2, THEN conjunct1, THEN mp, OF labsent]
       main [where ?E = sample_env and ?d0.0 = empty_db and a = 1 and data = kyoto_body
              and ?d1.0 = kyoto_db and k = 1 and b = 2,
            THEN conjunct2, THEN conjunct2, THEN mp, OF created]
       own
  show ?thesis by (simp add: kyoto_created)
qed

text \<open>
  C2, as it is stated for every key, fails beyond the keys of the storage: the only trip
  is trip 1 and the only location is location 1, and user 2, who asks for the trip and for
  the location of key \<open>2 ^ 63\<close>, is not answered 404: the query raises an
  \<open>OverflowError\<close>, the answer has status 500.
\<close>

theorem not_found_fails_beyond_keys:
  "trips kyoto_spot_db = [kyoto_trip] \<and> t_id kyoto_trip = 1
   \<and> locations kyoto_spot_db = [kyoto_spot] \<and> l_id kyoto_spot = 1
   \<and> get_trip kyoto_spot_db 2 9223372036854775808 = Raised OverflowError
   \<and> status (get_trip kyoto_spot_db 2 9223372036854775808) = 500
   \<and> get_location kyoto_spot_db 2 9223372036854775808 = Raised OverflowError
   \<and> status (get_location kyoto_spot_db 2 9223372036854775808) = 500"
  by (simp add: get_trip_def get_location_def bound_key_def storable_def kyoto_spot_db_def
        kyoto_db_def kyoto_trip_def kyoto_spot_def)

subsection \<open>What a handler can do to the database\<close>

lemma bind_exn_InrE:
  assumes "bind_exn m f = Inr y"
  obtains x where "m = Inr x" "f x = Inr y"
  using assms by (cases m) (simp_all add: bind_exn_def)

lemma set_trip_fields_id:
  "set_trip_fields E t data = Inr t3 \<Longrightarrow> t_id t3 = t_id t \<and> t_user_id t3 = t_user_id t"
  unfolding set_trip_fields_def
  by (elim bind_exn_InrE) (auto elim!: bind_exn_InrE split: if_splits)

lemma update_trip_try_success:
  "update_trip_try E d t data = Inr (Reply 200 b, d') \<Longrightarrow>
     \<exists>t3 dest. set_trip_fields E t data = Inr t3
          \<and> text_set E data ''destination'' (t_destination t3) = Inr (Some dest)
          \<and> d' = write_trip (t3\<lparr>t_destination := dest\<rparr>) d
          \<and> b = updated_trip_body (t3\<lparr>t_destination := dest\<rparr>)
          \<and> \<not> date_less (t_end_date t3) (t_start_date t3)"
  unfolding update_trip_try_def storage_failure_def
  by (elim bind_exn_InrE)
     (auto simp: Let_def elim!: bind_exn_InrE split: if_splits option.splits
        simp del: date_less.simps)

lemma update_trip_try_failure:
  "update_trip_try E d t data = Inr (r, d') \<Longrightarrow> (\<forall>b. r \<noteq> Reply 200 b) \<Longrightarrow> d' = d"
  unfolding update_trip_try_def storage_failure_def
  by (elim bind_exn_InrE)
     (auto simp: Let_def elim!: bind_exn_InrE split: if_splits option.splits
        simp del: date_less.simps)

lemma update_trip_try_cases:
  "update_trip_try E d t data = Inr (r, d') \<Longrightarrow>
     (d' = d \<and> (\<forall>b. r \<noteq> Reply 200 b)) \<or>
     (\<exists>t3 b. d' = write_trip t3 d \<and> r = Reply 200 b \<and> t_id t3 = t_id t
         \<and> t_user_id t3 = t_user_id t
         \<and> \<not> date_less (t_end_date t3) (t_start_date t3))"
proof (cases "\<exists>b. r = Reply 200 b")
  case False
  assume "update_trip_try E d t data = Inr (r, d')"
  with False have "d' = d" by (auto dest: update_trip_try_failure)
  with False show ?thesis by simp
next
  case True
  assume h: "update_trip_try E d t data = Inr (r, d')"
  from True obtain b where b: "r = Reply 200 b" by blast
  from update_trip_try_success [OF h [unfolded b]] obtain t3 dest where
    t3: "set_trip_fields E t data = Inr t3" "d' = write_trip (t3\<lparr>t_destination := dest\<rparr>) d"
      "\<not> date_less (t_end_date t3) (t_start_date t3)"
    by blast
  from set_trip_fields_id [OF t3(1)] t3(2,3) b
  have "d' = write_trip (t3\<lparr>t_destination := dest\<rparr>) d \<and> r = Reply 200 b
      \<and> t_id (t3\<lparr>t_destination := dest\<rparr>) = t_id t
      \<and> t_user_id (t3\<lparr>t_destination := dest\<rparr>) = t_user_id t
      \<and> \<not> date_less (t_end_date (t3\<lparr>t_destination := dest\<rparr>))
            (t_start_date (t3\<lparr>t_destination := dest\<rparr>))"
    by simp
  then show ?thesis by blast
qed

lemma update_trip_cases:
  "update_trip E d uid tid data = (r, d') \<Longrightarrow>
     (d' = d \<and> (\<forall>b. r \<noteq> Reply 200 b)) \<or>
     (\<exists>t b. d' = write_trip t d \<and> r = Reply 200 b \<and> t_id t = tid \<and> t_user_id t = uid
         \<and> \<not> date_less (t_end_date t) (t_start_date t))"
  unfolding update_trip_def trip_not_found_def
  by (auto split: option.splits if_splits sum.splits dest!: owned_trip_Some update_trip_try_cases)

lemma finite_in_Some:
  "finite_in lo hi x = Some r \<Longrightarrow> x = Fin r \<and> lo \<le> r \<and> r \<le> hi"
  by (cases x) (auto split: if_splits)

lemma store_location_try_cases:
  "store_location_try E d data tid msg render = Inr (r, d') \<Longrightarrow>
     ((\<forall>b. r \<noteq> Reply 201 b) \<longrightarrow> d' = d) \<and>
     (\<forall>b. r = Reply 201 b \<longrightarrow>
        (\<exists>l. trips d' = trips d \<and> locations d' = locations d @ [l] \<and> l_trip_id l = tid
         \<and> l_id l = next_id (map l_id (locations d))
         \<and> - 90 \<le> l_latitude l \<and> l_latitude l \<le> 90
         \<and> - 180 \<le> l_longitude l \<and> l_longitude l \<le> 180))"
  unfolding store_location_try_def storage_failure_def
  by (elim bind_exn_InrE)
     (auto elim!: bind_exn_InrE simp: new_location_def Let_def intro!: exI
        split: option.splits if_splits dest!: finite_in_Some)

lemma catch_value_error_cases:
  "catch_value_error msg d x = (r, d') \<Longrightarrow>
     x = Inr (r, d') \<or> (d' = d \<and> (\<exists>e. x = Inl e) \<and> (r = Reply 400 (err msg) \<or> (\<exists>e. r = Raised e)))"
  by (auto simp: catch_value_error_def split: sum.splits if_splits)

lemma create_location_cases:
  "create_location E d uid data = (r, d') \<Longrightarrow>
     ((\<forall>b. r \<noteq> Reply 201 b) \<longrightarrow> d' = d) \<and>
     (\<forall>b. r = Reply 201 b \<longrightarrow>
        (\<exists>l. trips d' = trips d \<and> locations d' = locations d @ [l]
         \<and> l_id l = next_id (map l_id (locations d))
         \<and> (\<exists>t\<in>set (trips d). l_trip_id l = t_id t \<and> t_user_id t = uid)
         \<and> - 90 \<le> l_latitude l \<and> l_latitude l \<le> 90
         \<and> - 180 \<le> l_longitude l \<and> l_longitude l \<le> 180))"
  unfolding create_location_def trip_not_found_def
  by (auto split: option.splits if_splits sum.splits
        dest!: catch_value_error_cases owned_trip_Some store_location_try_cases) blast

lemma add_location_cases:
  "add_location_to_trip E d uid tid data = (r, d') \<Longrightarrow>
     ((\<forall>b. r \<noteq> Reply 201 b) \<longrightarrow> d' = d) \<and>
     (\<forall>b. r = Reply 201 b \<longrightarrow>
        (\<exists>l. trips d' = trips d \<and> locations d' = locations d @ [l]
         \<and> l_id l = next_id (map l_id (locations d)) \<and> l_trip_id l = tid
         \<and> (\<exists>t\<in>set (trips d). t_id t = tid \<and> t_user_id t = uid)
         \<and> - 90 \<le> l_latitude l \<and> l_latitude l \<le> 90
         \<and> - 180 \<le> l_longitude l \<and> l_longitude l \<le> 180))"
  unfolding add_location_to_trip_def trip_not_found_def
  by (auto split: option.splits if_splits sum.splits
        dest!: catch_value_error_cases owned_trip_Some store_location_try_cases)

lemma bulk_item_cases:
  "bulk_item E tid x st = Inr st' \<Longrightarrow>
     st' = st \<or>
     (\<exists>l. trips (fst st') = trips (fst st) \<and> locations (fst st') = locations (fst st) @ [l]
        \<and> snd st' = snd st @ [l] \<and> l_trip_id l = tid
        \<and> l_id l = next_id (map l_id (locations (fst st)))
        \<and> - 90 \<le> l_latitude l \<and> l_latitude l \<le> 90
        \<and> - 180 \<le> l_longitude l \<and> l_longitude l \<le> 180)"
  unfolding bulk_item_def
  by (elim bind_exn_InrE)
     (auto elim!: bind_exn_InrE simp: new_location_def Let_def
        split: option.splits if_splits sum.splits dest!: finite_in_Some)

lemma py_in_obj: "py_in k (JObj kvs) = Inr (map_of kvs k \<noteq> None)"
  by (simp add: map_of_eq_None_iff)

lemma set_location_fields_cases:
  "set_location_fields E l data = Inr (Inr l3) \<Longrightarrow>
     l_id l3 = l_id l \<and> l_trip_id l3 = l_trip_id l
     \<and> (py_in ''name'' data = Inr False \<longrightarrow> l_name l3 = l_name l)
     \<and> (py_in ''name'' data = Inr True \<longrightarrow> getitem data ''name'' = Inr (l_name l3))
     \<and> (py_in ''latitude'' data = Inr False \<longrightarrow> l_latitude l3 = l_latitude l)
     \<and> (py_in ''latitude'' data = Inr True \<longrightarrow>
           bind_exn (getitem data ''latitude'') (py_float E) = Inr (Fin (l_latitude l3))
           \<and> - 90 \<le> l_latitude l3 \<and> l_latitude l3 \<le> 90)
     \<and> (py_in ''longitude'' data = Inr False \<longrightarrow> l_longitude l3 = l_longitude l)
     \<and> (py_in ''longitude'' data = Inr True \<longrightarrow>
           bind_exn (getitem data ''longitude'') (py_float E) = Inr (Fin (l_longitude l3))
           \<and> - 180 \<le> l_longitude l3 \<and> l_longitude l3 \<le> 180)"
  unfolding set_location_fields_def
  apply (elim bind_exn_InrE)
  apply (auto elim!: bind_exn_InrE split: option.splits if_splits dest!: finite_in_Some)
  apply (auto simp: bind_exn_def)
  done

lemma update_location_try_cases:
  "update_location_try E d l data = Inr (r, d') \<Longrightarrow>
     ((\<forall>b. r \<noteq> Reply 200 b) \<longrightarrow> d' = d) \<and>
     (\<forall>b. r = Reply 200 b \<longrightarrow>
        (\<exists>l3 name. set_location_fields E l data = Inr (Inr l3)
           \<and> text_set E data ''name'' (l_name l3) = Inr (Some name)
           \<and> d' = write_location (l3\<lparr>l_name := name\<rparr>) d
           \<and> b = updated_location_body (l3\<lparr>l_name := name\<rparr>)))"
  unfolding update_location_try_def storage_failure_def
  by (elim bind_exn_InrE)
     (auto simp: Let_def elim!: bind_exn_InrE split: sum.splits if_splits option.splits)

lemma update_location_cases:
  "update_location E d uid lid data = (r, d') \<Longrightarrow>
     ((\<forall>b. r \<noteq> Reply 200 b) \<longrightarrow> d' = d) \<and>
     (\<forall>b. r = Reply 200 b \<longrightarrow>
        (\<exists>l l3 name. owned_location d uid lid = Some l
           \<and> set_location_fields E l data = Inr (Inr l3)
           \<and> text_set E data ''name'' (l_name l3) = Inr (Some name)
           \<and> d' = write_location (l3\<lparr>l_name := name\<rparr>) d
           \<and> b = updated_location_body (l3\<lparr>l_name := name\<rparr>)))"
  unfolding update_location_def location_not_found_def
  by (auto split: option.splits if_splits
        dest!: catch_value_error_cases update_location_try_cases)

lemma update_trip_success:
  "update_trip E d uid tid data = (Reply 200 b, d') \<Longrightarrow>
     \<exists>t t3 dest. owned_trip d uid tid = Some t \<and> set_trip_fields E t data = Inr t3
          \<and> text_set E data ''destination'' (t_destination t3) = Inr (Some dest)
          \<and> d' = write_trip (t3\<lparr>t_destination := dest\<rparr>) d
          \<and> b = updated_trip_body (t3\<lparr>t_destination := dest\<rparr>)
          \<and> \<not> date_less (t_end_date t3) (t_start_date t3)"
  unfolding update_trip_def trip_not_found_def
  by (auto split: option.splits if_splits sum.splits dest!: update_trip_try_success)

lemma fold_delete_locations:
  "locations (fold delete_location_row ls d) = filter (\<lambda>x. l_id x \<notin> l_id ` set ls) (locations d)
   \<and> trips (fold delete_location_row ls d) = trips d"
  by (induction ls arbitrary: d) (auto simp: delete_location_row_def intro: filter_cong)

lemma delete_location_cases:
  "delete_location E d uid lid = (r, d') \<Longrightarrow>
     trips d' = trips d \<and> set (locations d') \<subseteq> set (locations d)"
  unfolding delete_location_def
  by (auto simp: delete_location_row_def split: option.splits if_splits)

lemma set_trip_fields_cases:
  "set_trip_fields E t data = Inr t3 \<Longrightarrow>
     (py_in ''destination'' data = Inr False \<longrightarrow> t_destination t3 = t_destination t)
     \<and> (py_in ''destination'' data = Inr True \<longrightarrow>
           getitem data ''destination'' = Inr (t_destination t3))
     \<and> (py_in ''start_date'' data = Inr False \<longrightarrow> t_start_date t3 = t_start_date t)
     \<and> (py_in ''start_date'' data = Inr True \<longrightarrow>
           bind_exn (getitem data ''start_date'') (py_strptime E) = Inr (t_start_date t3))
     \<and> (py_in ''end_date'' data = Inr False \<longrightarrow> t_end_date t3 = t_end_date t)
     \<and> (py_in ''end_date'' data = Inr True \<longrightarrow>
           bind_exn (getitem data ''end_date'') (py_strptime E) = Inr (t_end_date t3))"
  unfolding set_trip_fields_def
  apply (elim bind_exn_InrE)
  apply (auto elim!: bind_exn_InrE split: if_splits)
  apply (auto simp: bind_exn_def)
  done

lemma delete_trip_success:
  "delete_trip E d uid tid = (Reply 200 b, d') \<Longrightarrow>
     (\<exists>t. owned_trip d uid tid = Some t)
     \<and> trips d' = filter (\<lambda>x. t_id x \<noteq> tid) (trips d)
     \<and> locations d' =
          filter (\<lambda>x. l_id x \<notin> l_id ` {l \<in> set (locations d). l_trip_id l = tid}) (locations d)"
proof -
  assume h: "delete_trip E d uid tid = (Reply 200 b, d')"
  then obtain t where t: "owned_trip d uid tid = Some t"
    unfolding delete_trip_def trip_not_found_def by (auto split: option.splits)
  then have tid: "t_id t = tid" by (auto dest: owned_trip_Some)
  from h t have d': "d' = delete_trip_row t (fold delete_location_row (trip_locations d t) d)"
    unfolding delete_trip_def storage_failure_def by (auto simp: Let_def split: if_splits)
  have s: "set (trip_locations d t) = {l \<in> set (locations d). l_trip_id l = tid}"
    by (auto simp: trip_locations_def tid)
  show ?thesis
    using t by (simp add: d' delete_trip_row_def fold_delete_locations s tid)
qed

lemma delete_trip_failure:
  "delete_trip E d uid tid = (r, d') \<Longrightarrow> (\<forall>b. r \<noteq> Reply 200 b) \<Longrightarrow> d' = d"
  unfolding delete_trip_def trip_not_found_def storage_failure_def
  by (auto simp: Let_def split: option.splits if_splits)

lemma bulk_loop_cases:
  "bulk_loop E tid xs st = Inr st' \<Longrightarrow>
     trips (fst st') = trips (fst st)
     \<and> (\<exists>ls. locations (fst st') = locations (fst st) @ ls \<and> snd st' = snd st @ ls
           \<and> (\<forall>l\<in>set ls. l_trip_id l = tid
                 \<and> - 90 \<le> l_latitude l \<and> l_latitude l \<le> 90
                 \<and> - 180 \<le> l_longitude l \<and> l_longitude l \<le> 180))"
proof (induction xs arbitrary: st)
  case Nil
  then show ?case by simp
next
  case (Cons x xs)
  from Cons.prems obtain st1 where
    s1: "bulk_item E tid x st = Inr st1" and s2: "bulk_loop E tid xs st1 = Inr st'"
    by (auto elim!: bind_exn_InrE)
  from Cons.IH [OF s2] obtain ls where
    ls: "trips (fst st') = trips (fst st1)" "locations (fst st') = locations (fst st1) @ ls"
        "snd st' = snd st1 @ ls"
        "\<forall>l\<in>set ls. l_trip_id l = tid \<and> - 90 \<le> l_latitude l \<and> l_latitude l \<le> 90
                 \<and> - 180 \<le> l_longitude l \<and> l_longitude l \<le> 180"
    by blast
  from bulk_item_cases [OF s1] show ?case
  proof
    assume "st1 = st"
    with ls show ?thesis by blast
  next
    assume "\<exists>l. trips (fst st1) = trips (fst st) \<and> locations (fst st1) = locations (fst st) @ [l]
        \<and> snd st1 = snd st @ [l] \<and> l_trip_id l = tid
        \<and> l_id l = next_id (map l_id (locations (fst st)))
        \<and> - 90 \<le> l_latitude l \<and> l_latitude l \<le> 90
        \<and> - 180 \<le> l_longitude l \<and> l_longitude l \<le> 180"
    then obtain l where l: "trips (fst st1) = trips (fst st)"
        "locations (fst st1) = locations (fst st) @ [l]" "snd st1 = snd st @ [l]"
        "l_trip_id l = tid" "- 90 \<le> l_latitude l" "l_latitude l \<le> 90"
        "- 180 \<le> l_longitude l" "l_longitude l \<le> 180"
      by blast
    have "locations (fst st') = locations (fst st) @ (l # ls)" "snd st' = snd st @ (l # ls)"
      using l ls by simp_all
    moreover have "\<forall>x\<in>set (l # ls). l_trip_id x = tid \<and> - 90 \<le> l_latitude x
         \<and> l_latitude x \<le> 90 \<and> - 180 \<le> l_longitude x \<and> l_longitude x \<le> 180"
      using l ls by simp
    moreover have "trips (fst st') = trips (fst st)" using l ls by simp
    ultimately show ?thesis by blast
  qed
qed

lemma bulk_commit_cases:
  assumes "bulk_commit E d tid items = (r, d')"
  shows "trips d' = trips d
     \<and> (\<exists>ls. locations d' = locations d @ ls
           \<and> (\<forall>l\<in>set ls. l_trip_id l = tid
                 \<and> - 90 \<le> l_latitude l \<and> l_latitude l \<le> 90
                 \<and> - 180 \<le> l_longitude l \<and> l_longitude l \<le> 180))"
proof (cases "bulk_loop E tid items (d, [])")
  case (Inl e)
  with assms have "d' = d" by (simp add: bulk_commit_def)
  then show ?thesis by simp
next
  case (Inr st)
  from bulk_loop_cases [OF Inr] obtain ls where
    ls: "trips (fst st) = trips d" "locations (fst st) = locations d @ ls"
      "\<forall>l\<in>set ls. l_trip_id l = tid \<and> - 90 \<le> l_latitude l \<and> l_latitude l \<le> 90
                 \<and> - 180 \<le> l_longitude l \<and> l_longitude l \<le> 180"
    by auto
  from assms Inr have "d' = d \<or> d' = fst st"
    by (auto simp: bulk_commit_def split: if_splits)
  then show ?thesis
  proof
    assume "d' = d"
    then show ?thesis by simp
  next
    assume "d' = fst st"
    with ls show ?thesis by blast
  qed
qed

lemma bulk_add_cases:
  assumes "bulk_add_locations E d uid tid data = (r, d')"
  shows "trips d' = trips d
     \<and> (\<exists>ls. locations d' = locations d @ ls
           \<and> (\<forall>l\<in>set ls. l_trip_id l = tid
                 \<and> - 90 \<le> l_latitude l \<and> l_latitude l \<le> 90
                 \<and> - 180 \<le> l_longitude l \<and> l_longitude l \<le> 180))"
proof (cases "\<exists>items. bulk_commit E d tid items = (r, d')")
  case True
  then show ?thesis using bulk_commit_cases by blast
next
  case False
  with assms have "d' = d"
    by (auto simp: bulk_add_locations_def split: option.splits json.splits if_splits)
  then show ?thesis by simp
qed

subsection \<open>The invariant of the trips\<close>

lemma trips_valid_iff:
  "trips_valid d = (\<forall>t\<in>set (trips d). \<not> date_less (t_end_date t) (t_start_date t))"
  by (simp add: trips_valid_def list_all_iff)

lemma trips_valid_cong: "trips d' = trips d \<Longrightarrow> trips_valid d' = trips_valid d"
  by (simp add: trips_valid_iff)

lemma trips_valid_write:
  "trips_valid d \<Longrightarrow> \<not> date_less (t_end_date t) (t_start_date t) \<Longrightarrow> trips_valid (write_trip t d)"
  by (auto simp: trips_valid_iff write_trip_def simp del: date_less.simps)

lemma create_trip_valid: "trips_valid d \<Longrightarrow> trips_valid (snd (create_trip E d uid data))"
  using create_trip_cases [of E d uid data "fst (create_trip E d uid data)" "snd (create_trip E d uid data)"]
  by (auto simp: trips_valid_iff simp del: date_less.simps)

lemma update_trip_valid: "trips_valid d \<Longrightarrow> trips_valid (snd (update_trip E d uid tid data))"
  using update_trip_cases [of E d uid tid data "fst (update_trip E d uid tid data)"
      "snd (update_trip E d uid tid data)"]
  by (auto simp: trips_valid_write simp del: date_less.simps)

lemma delete_trip_valid: "trips_valid d \<Longrightarrow> trips_valid (snd (delete_trip E d uid tid))"
proof (cases "\<exists>b. fst (delete_trip E d uid tid) = Reply 200 b")
  case True
  then obtain b where "delete_trip E d uid tid = (Reply 200 b, snd (delete_trip E d uid tid))"
    by (metis prod.collapse)
  from delete_trip_success [OF this] show "trips_valid d \<Longrightarrow> ?thesis"
    by (simp add: trips_valid_iff)
next
  case False
  then have "snd (delete_trip E d uid tid) = d"
    using delete_trip_failure [of E d uid tid "fst (delete_trip E d uid tid)" "snd (delete_trip E d uid tid)"]
    by simp
  then show "trips_valid d \<Longrightarrow> ?thesis" by simp
qed

lemma create_location_trips: "trips (snd (create_location E d uid data)) = trips d"
  using create_location_cases [of E d uid data "fst (create_location E d uid data)"
      "snd (create_location E d uid data)"]
  by (cases "\<exists>b. fst (create_location E d uid data) = Reply 201 b") auto

lemma add_location_trips: "trips (snd (add_location_to_trip E d uid tid data)) = trips d"
  using add_location_cases [of E d uid tid data "fst (add_location_to_trip E d uid tid data)"
      "snd (add_location_to_trip E d uid tid data)"]
  by (cases "\<exists>b. fst (add_location_to_trip E d uid tid data) = Reply 201 b") auto

lemma update_location_trips: "trips (snd (update_location E d uid lid data)) = trips d"
  using update_location_cases [of E d uid lid data "fst (update_location E d uid lid data)"
      "snd (update_location E d uid lid data)"]
  by (cases "\<exists>b. fst (update_location E d uid lid data) = Reply 200 b")
     (auto simp: write_location_def)

lemma delete_location_trips: "trips (snd (delete_location E d uid lid)) = trips d"
  using delete_location_cases [of E d uid lid "fst (delete_location E d uid lid)"
      "snd (delete_location E d uid lid)"]
  by simp

lemma bulk_add_trips: "trips (snd (bulk_add_locations E d uid tid data)) = trips d"
  using bulk_add_cases [of E d uid tid data "fst (bulk_add_locations E d uid tid data)"
      "snd (bulk_add_locations E d uid tid data)"]
  by simp

lemma reachable_trips_valid: "reachable d \<Longrightarrow> trips_valid d"
proof (induction rule: reachable.induct)
  case start
  show ?case by (simp add: trips_valid_def empty_db_def)
next
  case (trip_created d E uid data)
  then show ?case by (simp add: create_trip_valid)
next
  case (trip_updated d E uid tid data)
  then show ?case by (simp add: update_trip_valid)
next
  case (trip_deleted d E uid tid)
  then show ?case by (simp add: delete_trip_valid)
next
  case (location_created d E uid data)
  then show ?case by (simp add: trips_valid_cong [OF create_location_trips])
next
  case (location_added d E uid tid data)
  then show ?case by (simp add: trips_valid_cong [OF add_location_trips])
next
  case (location_updated d E uid lid data)
  then show ?case by (simp add: trips_valid_cong [OF update_location_trips])
next
  case (location_deleted d E uid lid)
  then show ?case by (simp add: trips_valid_cong [OF delete_location_trips])
next
  case (locations_added d E uid tid data)
  then show ?case by (simp add: trips_valid_cong [OF bulk_add_trips])
qed

lemma bind_exn_Inr: "bind_exn (Inr x) f = f x"
  by (simp add: bind_exn_def)

lemma bind_exn_Inl: "bind_exn (Inl e) f = Inl e"
  by (simp add: bind_exn_def)

lemma create_trip_rejects:
  assumes "map_of kvs ''destination'' = Some dest"
    and "map_of kvs ''start_date'' = Some (JStr s)" and "map_of kvs ''end_date'' = Some (JStr e)"
    and "strptime E s = Some sd" and "strptime E e = Some ed" and "date_less ed sd"
  shows "create_trip E d uid (JObj kvs)
           = (Reply 400 (err ''End date cannot be before start date''), d)"
proof -
  have ne: "kvs \<noteq> []" using assms(1) by auto
  have a: "all_in [''destination'', ''start_date'', ''end_date''] (JObj kvs) = Inr True"
    using assms by (simp add: py_in_obj del: py_in.simps)
  have t: "create_trip_try E d uid (JObj kvs)
             = Inr (Reply 400 (err ''End date cannot be before start date''), d)"
    using assms by (simp add: create_trip_try_def bind_exn_def del: date_less.simps)
  show ?thesis by (simp add: create_trip_def ne a t del: all_in.simps)
qed

lemma set_trip_fields_dates:
  assumes "map_of kvs ''start_date'' = None \<and> sd = t_start_date t
           \<or> (\<exists>s. map_of kvs ''start_date'' = Some (JStr s) \<and> strptime E s = Some sd)"
    and "map_of kvs ''end_date'' = None \<and> ed = t_end_date t
           \<or> (\<exists>e. map_of kvs ''end_date'' = Some (JStr e) \<and> strptime E e = Some ed)"
  shows "\<exists>t3. set_trip_fields E t (JObj kvs) = Inr t3
              \<and> t_start_date t3 = sd \<and> t_end_date t3 = ed"
proof -
  obtain t1 where t1: "(if map_of kvs ''destination'' \<noteq> None
        then bind_exn (getitem (JObj kvs) ''destination'') (\<lambda>v. Inr (t\<lparr>t_destination := v\<rparr>))
        else Inr t) = Inr t1"
      "t_start_date t1 = t_start_date t" "t_end_date t1 = t_end_date t"
    by (cases "map_of kvs ''destination''") (auto simp: bind_exn_def)
  from assms(1) obtain t2 where t2: "(if map_of kvs ''start_date'' \<noteq> None
        then bind_exn (getitem (JObj kvs) ''start_date'') (\<lambda>v.
               bind_exn (py_strptime E v) (\<lambda>x. Inr (t1\<lparr>t_start_date := x\<rparr>)))
        else Inr t1) = Inr t2"
      "t_start_date t2 = sd" "t_end_date t2 = t_end_date t"
    using t1 by (auto simp: bind_exn_def)
  from assms(2) obtain t3 where t3: "(if map_of kvs ''end_date'' \<noteq> None
        then bind_exn (getitem (JObj kvs) ''end_date'') (\<lambda>v.
               bind_exn (py_strptime E v) (\<lambda>x. Inr (t2\<lparr>t_end_date := x\<rparr>)))
        else Inr t2) = Inr t3"
      "t_start_date t3 = sd" "t_end_date t3 = ed"
    using t2 by (auto simp: bind_exn_def)
  have "set_trip_fields E t (JObj kvs) = Inr t3"
    unfolding set_trip_fields_def py_in_obj
    by (simp only: bind_exn_Inr t1 t2 t3)
  with t3 show ?thesis by blast
qed

lemma update_trip_rejects:
  assumes "owned_trip d uid tid = Some t" and "kvs \<noteq> []"
    and "map_of kvs ''start_date'' = None \<and> sd = t_start_date t
           \<or> (\<exists>s. map_of kvs ''start_date'' = Some (JStr s) \<and> strptime E s = Some sd)"
    and "map_of kvs ''end_date'' = None \<and> ed = t_end_date t
           \<or> (\<exists>e. map_of kvs ''end_date'' = Some (JStr e) \<and> strptime E e = Some ed)"
    and "date_less ed sd"
  shows "update_trip E d uid tid (JObj kvs)
           = (Reply 400 (err ''End date cannot be before start date''), d)"
proof -
  from set_trip_fields_dates [OF assms(3,4)] obtain t3 where
    t3: "set_trip_fields E t (JObj kvs) = Inr t3" "t_start_date t3 = sd" "t_end_date t3 = ed"
    by blast
  have "update_trip_try E d t (JObj kvs)
          = Inr (Reply 400 (err ''End date cannot be before start date''), d)"
    using t3 assms(5) by (simp add: update_trip_try_def bind_exn_def del: date_less.simps)
  then show ?thesis
    using assms(1,2) by (simp add: update_trip_def)
qed

text \<open>
  C7. No trip of a database that the handlers reach from the empty one ends before it
  starts: \<open>create_trip\<close> and \<open>update_trip\<close> keep the invariant, the other handlers
  leave the dates alone. A creation whose end date precedes its start date is answered
  400 and leaves the database as it was; so is an update, where the two dates compared
  are those of the row after the fields of the body are set, a date absent from the body
  being the stored one.
\<close>

theorem trip_dates_stay_ordered:
  "(reachable d0 \<longrightarrow> trips_valid d0)
   \<and> (trips_valid d \<longrightarrow>
        trips_valid (snd (create_trip E d uid data))
        \<and> trips_valid (snd (update_trip E d uid tid data)))
   \<and> (map_of kvs ''destination'' = Some dest
        \<and> map_of kvs ''start_date'' = Some (JStr s) \<and> map_of kvs ''end_date'' = Some (JStr e)
        \<and> strptime E s = Some sd \<and> strptime E e = Some ed \<and> date_less ed sd \<longrightarrow>
      create_trip E d uid (JObj kvs)
        = (Reply 400 (err ''End date cannot be before start date''), d))
   \<and> (owned_trip d uid tid = Some t \<and> kvs' \<noteq> []
        \<and> (map_of kvs' ''start_date'' = None \<and> sd' = t_start_date t
             \<or> (\<exists>s. map_of kvs' ''start_date'' = Some (JStr s) \<and> strptime E s = Some sd'))
        \<and> (map_of kvs' ''end_date'' = None \<and> ed' = t_end_date t
             \<or> (\<exists>e. map_of kvs' ''end_date'' = Some (JStr e) \<and> strptime E e = Some ed'))
        \<and> date_less ed' sd' \<longrightarrow>
      update_trip E d uid tid (JObj kvs')
        = (Reply 400 (err ''End date cannot be before start date''), d))"
proof (intro conjI impI)
  assume "reachable d0"
  then show "trips_valid d0" by (rule reachable_trips_valid)
next
  assume "trips_valid d"
  then show "trips_valid (snd (create_trip E d uid data))" by (rule create_trip_valid)
next
  assume "trips_valid d"
  then show "trips_valid (snd (update_trip E d uid tid data))" by (rule update_trip_valid)
next
  assume "map_of kvs ''destination'' = Some dest
        \<and> map_of kvs ''start_date'' = Some (JStr s) \<and> map_of kvs ''end_date'' = Some (JStr e)
        \<and> strptime E s = Some sd \<and> strptime E e = Some ed \<and> date_less ed sd"
  then show "create_trip E d uid (JObj kvs)
        = (Reply 400 (err ''End date cannot be before start date''), d)"
    using create_trip_rejects by blast
next
  assume h: "owned_trip d uid tid = Some t \<and> kvs' \<noteq> []
        \<and> (map_of kvs' ''start_date'' = None \<and> sd' = t_start_date t
             \<or> (\<exists>s. map_of kvs' ''start_date'' = Some (JStr s) \<and> strptime E s = Some sd'))
        \<and> (map_of kvs' ''end_date'' = None \<and> ed' = t_end_date t
             \<or> (\<exists>e. map_of kvs' ''end_date'' = Some (JStr e) \<and> strptime E e = Some ed'))
        \<and> date_less ed' sd'"
  show "update_trip E d uid tid (JObj kvs')
        = (Reply 400 (err ''End date cannot be before start date''), d)"
    by (rule update_trip_rejects [of d uid tid t kvs' sd' E ed']) (use h in blast)+
qed

lemma sample_dates:
  "strptime sample_env ''2024-06-10'' = Some (2024, 6, 10)"
  "strptime sample_env ''2024-06-01'' = Some (2024, 6, 1)"
  "strptime sample_env ''2024-04-30'' = Some (2024, 4, 30)"
  "strptime sample_env ''2024-05-11'' = Some (2024, 5, 11)"
  by (simp_all add: sample_env_def sample_strptime_def digit_of_def days_in_month_def)

theorem trip_dates_stay_ordered_witness:
  "reachable kyoto_db \<and> trips_valid kyoto_db
   \<and> trips_valid (snd (create_trip sample_env kyoto_db 1 osaka_backwards))
   \<and> trips_valid (snd (update_trip sample_env kyoto_db 1 1 end_before_start))
   \<and> create_trip sample_env kyoto_db 1 osaka_backwards
       = (Reply 400 (err ''End date cannot be before start date''), kyoto_db)
   \<and> update_trip sample_env kyoto_db 1 1 end_before_start
       = (Reply 400 (err ''End date cannot be before start date''), kyoto_db)
   \<and> update_trip sample_env kyoto_db 1 1 start_after_end
       = (Reply 400 (err ''End date cannot be before start date''), kyoto_db)"
proof -
  note main = trip_dates_stay_ordered
  have r: "reachable kyoto_db"
    using reachable.trip_created [OF reachable.start, of sample_env 1 kyoto_body]
    by (simp add: kyoto_created)
  from main [where ?d0.0 = kyoto_db, THEN conjunct1, THEN mp, OF r]
  have v: "trips_valid kyoto_db" .
  note step1 = main [where d = kyoto_db and E = sample_env and uid = 1 and tid = 1
      and data = osaka_backwards, THEN conjunct2, THEN conjunct1, THEN mp, OF v]
  note step2 = main [where d = kyoto_db and E = sample_env and uid = 1 and tid = 1
      and data = end_before_start, THEN conjunct2, THEN conjunct1, THEN mp, OF v]
  have c: "map_of [(''destination'', JStr ''Osaka''), (''start_date'', JStr ''2024-06-10''),
                 (''end_date'', JStr ''2024-06-01'')] ''destination'' = Some (JStr ''Osaka'')
        \<and> map_of [(''destination'', JStr ''Osaka''), (''start_date'', JStr ''2024-06-10''),
                 (''end_date'', JStr ''2024-06-01'')] ''start_date'' = Some (JStr ''2024-06-10'')
        \<and> map_of [(''destination'', JStr ''Osaka''), (''start_date'', JStr ''2024-06-10''),
                 (''end_date'', JStr ''2024-06-01'')] ''end_date'' = Some (JStr ''2024-06-01'')
        \<and> strptime sample_env ''2024-06-10'' = Some (2024, 6, 10)
        \<and> strptime sample_env ''2024-06-01'' = Some (2024, 6, 1)
        \<and> date_less (2024, 6, 1) (2024, 6, 10)"
    by (simp add: sample_dates)
  have o: "owned_trip kyoto_db 1 1 = Some kyoto_trip"
    by (simp add: owned_trip_def kyoto_db_def kyoto_trip_def)
  have u1: "owned_trip kyoto_db 1 1 = Some kyoto_trip \<and> [(''end_date'', JStr ''2024-04-30'')] \<noteq> []
        \<and> (map_of [(''end_date'', JStr ''2024-04-30'')] ''start_date'' = None
              \<and> (2024, 5, 1) = t_start_date kyoto_trip
             \<or> (\<exists>s. map_of [(''end_date'', JStr ''2024-04-30'')] ''start_date'' = Some (JStr s)
                   \<and> strptime sample_env s = Some (2024, 5, 1)))
        \<and> (map_of [(''end_date'', JStr ''2024-04-30'')] ''end_date'' = None
              \<and> (2024, 4, 30) = t_end_date kyoto_trip
             \<or> (\<exists>e. map_of [(''end_date'', JStr ''2024-04-30'')] ''end_date'' = Some (JStr e)
                   \<and> strptime sample_env e = Some (2024, 4, 30)))
        \<and> date_less (2024, 4, 30) (2024, 5, 1)"
    by (simp add: o sample_dates kyoto_trip_def)
  have u2: "owned_trip kyoto_db 1 1 = Some kyoto_trip \<and> [(''start_date'', JStr ''2024-05-11'')] \<noteq> []
        \<and> (map_of [(''start_date'', JStr ''2024-05-11'')] ''start_date'' = None
              \<and> (2024, 5, 11) = t_start_date kyoto_trip
             \<or> (\<exists>s. map_of [(''start_date'', JStr ''2024-05-11'')] ''start_date'' = Some (JStr s)
                   \<and> strptime sample_env s = Some (2024, 5, 11)))
        \<and> (map_of [(''start_date'', JStr ''2024-05-11'')] ''end_date'' = None
              \<and> (2024, 5, 10) = t_end_date kyoto_trip
             \<or> (\<exists>e. map_of [(''start_date'', JStr ''2024-05-11'')] ''end_date'' = Some (JStr e)
                   \<and> strptime sample_env e = Some (2024, 5, 10)))
        \<and> date_less (2024, 5, 10) (2024, 5, 11)"
    by (simp add: o sample_dates kyoto_trip_def)
  note rej = main [THEN conjunct2, THEN conjunct2]
  from r v step1 step2
    rej [THEN conjunct1, THEN mp, OF c, of kyoto_db 1]
    rej [THEN conjunct2, THEN mp, OF u1]
    rej [THEN conjunct2, THEN mp, OF u2]
  show ?thesis
    by (simp add: osaka_backwards_def end_before_start_def start_after_end_def)
qed

subsection \<open>Deleting a trip\<close>

lemma owned_trip_exists:
  "(\<exists>t\<in>set (trips d). t_id t = tid \<and> t_user_id t = uid) \<Longrightarrow> \<exists>t. owned_trip d uid tid = Some t"
  using owned_trip_None [of d uid tid] by (cases "owned_trip d uid tid") auto

lemma delete_trip_ok:
  "owned_trip d uid tid = Some t \<Longrightarrow> commit_ok E \<Longrightarrow>
   \<exists>b. delete_trip E d uid tid = (Reply 200 b, snd (delete_trip E d uid tid))"
  by (simp add: delete_trip_def Let_def)

lemma filter_by_key:
  assumes "distinct (map l_id ls)"
  shows "filter (\<lambda>x. l_id x \<notin> l_id ` {l \<in> set ls. l_trip_id l = tid}) ls
           = filter (\<lambda>l. l_trip_id l \<noteq> tid) ls"
proof (rule filter_cong [OF refl])
  fix x assume x: "x \<in> set ls"
  from assms have inj: "inj_on l_id (set ls)" by (simp add: distinct_map)
  show "(l_id x \<notin> l_id ` {l \<in> set ls. l_trip_id l = tid}) = (l_trip_id x \<noteq> tid)"
  proof
    assume "l_id x \<notin> l_id ` {l \<in> set ls. l_trip_id l = tid}"
    with x show "l_trip_id x \<noteq> tid" by blast
  next
    assume n: "l_trip_id x \<noteq> tid"
    show "l_id x \<notin> l_id ` {l \<in> set ls. l_trip_id l = tid}"
    proof
      assume "l_id x \<in> l_id ` {l \<in> set ls. l_trip_id l = tid}"
      then obtain y where y: "y \<in> set ls" "l_trip_id y = tid" "l_id x = l_id y" by blast
      with inj x have "x = y" by (auto dest: inj_onD)
      with y n show False by simp
    qed
  qed
qed

text \<open>
  C3. When the caller owns the trip and the commit succeeds, \<open>delete_trip\<close> answers 200
  and leaves a database without the trip and without any of its locations: the loop of
  the handler deletes them, the deletion of the trip row by itself leaves the locations
  alone. Afterwards the trip and each of these locations is not found, by any user: no
  query finds them, and the answer is 404 for a key that the storage binds. With
  distinct location keys the locations left are exactly those of the other trips, so
  their number has dropped by the number of locations of the trip. When the commit
  fails, the database is as before.
\<close>

theorem delete_trip_cascades:
  "((\<exists>t\<in>set (trips d). t_id t = tid \<and> t_user_id t = uid) \<and> commit_ok E \<longrightarrow>
      status (fst (delete_trip E d uid tid)) = 200
      \<and> trips (snd (delete_trip E d uid tid)) = filter (\<lambda>x. t_id x \<noteq> tid) (trips d)
      \<and> (\<forall>l\<in>set (locations d). l_trip_id l = tid \<longrightarrow>
            l \<notin> set (locations (snd (delete_trip E d uid tid)))
            \<and> owned_location (snd (delete_trip E d uid tid)) u (l_id l) = None
            \<and> (storable (l_id l) \<longrightarrow>
                 get_location (snd (delete_trip E d uid tid)) u (l_id l)
                   = Reply 404 (err ''Location not found or access denied'')))
      \<and> owned_trip (snd (delete_trip E d uid tid)) u tid = None
      \<and> (storable tid \<longrightarrow>
            get_trip (snd (delete_trip E d uid tid)) u tid
              = Reply 404 (err ''Trip not found or access denied''))
      \<and> (distinct (map l_id (locations d)) \<longrightarrow>
            locations (snd (delete_trip E d uid tid))
              = filter (\<lambda>l. l_trip_id l \<noteq> tid) (locations d)
            \<and> length (locations (snd (delete_trip E d uid tid)))
                + length (filter (\<lambda>l. l_trip_id l = tid) (locations d))
              = length (locations d)))
   \<and> locations (delete_trip_row t d) = locations d
   \<and> (\<not> commit_ok E \<longrightarrow> snd (delete_trip E d uid tid) = d)"
proof (intro conjI impI)
  assume h: "(\<exists>t\<in>set (trips d). t_id t = tid \<and> t_user_id t = uid) \<and> commit_ok E"
  then obtain t0 where t0: "owned_trip d uid tid = Some t0"
    using owned_trip_exists by blast
  from delete_trip_ok [OF t0] h obtain b where
    ok: "delete_trip E d uid tid = (Reply 200 b, snd (delete_trip E d uid tid))"
    by blast
  note after = delete_trip_success [OF ok]
  let ?d' = "snd (delete_trip E d uid tid)"
  from ok show "status (fst (delete_trip E d uid tid)) = 200"
    by (metis fst_conv status.simps(1))
  from after show tr: "trips ?d' = filter (\<lambda>x. t_id x \<noteq> tid) (trips d)"
    by simp
  show "\<forall>l\<in>set (locations d). l_trip_id l = tid \<longrightarrow>
            l \<notin> set (locations ?d')
            \<and> owned_location ?d' u (l_id l) = None
            \<and> (storable (l_id l) \<longrightarrow>
                 get_location ?d' u (l_id l)
                   = Reply 404 (err ''Location not found or access denied''))"
  proof (intro ballI impI conjI)
    fix l assume l: "l \<in> set (locations d)" "l_trip_id l = tid"
    with after have gone: "\<forall>x\<in>set (locations ?d'). l_id x \<noteq> l_id l"
      by auto
    then show "l \<notin> set (locations ?d')" by blast
    from gone show none: "owned_location ?d' u (l_id l) = None"
      by (simp add: owned_location_None)
    assume "storable (l_id l)"
    then show "get_location ?d' u (l_id l) = Reply 404 (err ''Location not found or access denied'')"
      using none by (rule get_location_bound)
  qed
  from tr show none: "owned_trip ?d' u tid = None"
    by (simp add: owned_trip_None)
  {
    assume "storable tid"
    then show "get_trip ?d' u tid = Reply 404 (err ''Trip not found or access denied'')"
      using none by (rule get_trip_bound)
  }
  {
    assume dist: "distinct (map l_id (locations d))"
    from after show eq: "locations ?d' = filter (\<lambda>l. l_trip_id l \<noteq> tid) (locations d)"
      by (simp add: filter_by_key [OF dist])
    show "length (locations ?d') + length (filter (\<lambda>l. l_trip_id l = tid) (locations d))
              = length (locations d)"
      using sum_length_filter_compl [of "\<lambda>l. l_trip_id l = tid" "locations d"]
      by (simp add: eq)
  }
next
  show "locations (delete_trip_row t d) = locations d"
    by (simp add: delete_trip_row_def)
next
  assume "\<not> commit_ok E"
  then show "snd (delete_trip E d uid tid) = d"
    by (simp add: delete_trip_def Let_def split: option.splits)
qed

theorem delete_trip_cascades_witness:
  "status (fst (delete_trip sample_env two_trips_db 1 1)) = 200
   \<and> trips (snd (delete_trip sample_env two_trips_db 1 1)) = [nara_trip]
   \<and> locations (snd (delete_trip sample_env two_trips_db 1 1)) = [nara_spot]
   \<and> get_location (snd (delete_trip sample_env two_trips_db 1 1)) 1 1
        = Reply 404 (err ''Location not found or access denied'')
   \<and> get_location (snd (delete_trip sample_env two_trips_db 1 1)) 1 3
        = Reply 404 (err ''Location not found or access denied'')
   \<and> get_trip (snd (delete_trip sample_env two_trips_db 1 1)) 1 1
        = Reply 404 (err ''Trip not found or access denied'')
   \<and> length (locations (snd (delete_trip sample_env two_trips_db 1 1))) + 2 = 3"
proof -
  have h: "(\<exists>t\<in>set (trips two_trips_db). t_id t = 1 \<and> t_user_id t = 1) \<and> commit_ok sample_env"
    by (simp add: two_trips_db_def kyoto_trip_def sample_env_def)
  have dist: "distinct (map l_id (locations two_trips_db))"
    by (simp add: two_trips_db_def kyoto_spot_def nara_spot_def kyoto_garden_def)
  have ls: "locations two_trips_db = [kyoto_spot, nara_spot, kyoto_garden]"
    "trips two_trips_db = [kyoto_trip, nara_trip]"
    by (simp_all add: two_trips_db_def)
  have ids: "l_trip_id kyoto_spot = 1" "l_trip_id nara_spot = 2" "l_trip_id kyoto_garden = 1"
    "l_id kyoto_spot = 1" "l_id kyoto_garden = 3" "t_id kyoto_trip = 1" "t_id nara_trip = 2"
    by (simp_all add: kyoto_spot_def nara_spot_def kyoto_garden_def kyoto_trip_def nara_trip_def)
  note main = delete_trip_cascades [where d = two_trips_db and tid = 1 and uid = 1
      and E = sample_env and u = 1, THEN conjunct1, THEN mp, OF h]
  from main dist show ?thesis
    by (simp add: ls ids storable_small)
qed

subsection \<open>Updates\<close>

lemma getitem_obj: "getitem (JObj kvs) k = Inr v \<longleftrightarrow> map_of kvs k = Some v"
  by (simp split: option.splits)

lemma owned_location_Some:
  "owned_location d uid lid = Some l \<Longrightarrow> l \<in> set (locations d) \<and> l_id l = lid"
  by (auto simp: owned_location_def find_Some_iff)

lemma text_set_obj:
  "text_set E (JObj kvs) k v = (if map_of kvs k = None then Inr (Some v) else column_text E v)"
  by (simp add: text_set_def py_in_obj bind_exn_def del: py_in.simps)

lemma set_location_fields_obj:
  assumes "set_location_fields E l (JObj kvs) = Inr (Inr l3)"
  shows "l_id l3 = l_id l \<and> l_trip_id l3 = l_trip_id l
     \<and> (map_of kvs ''name'' = None \<longrightarrow> l_name l3 = l_name l)
     \<and> (\<forall>v. map_of kvs ''name'' = Some v \<longrightarrow> l_name l3 = v)
     \<and> (map_of kvs ''latitude'' = None \<longrightarrow> l_latitude l3 = l_latitude l)
     \<and> (\<forall>v. map_of kvs ''latitude'' = Some v \<longrightarrow> py_float E v = Inr (Fin (l_latitude l3))
            \<and> - 90 \<le> l_latitude l3 \<and> l_latitude l3 \<le> 90)
     \<and> (map_of kvs ''longitude'' = None \<longrightarrow> l_longitude l3 = l_longitude l)
     \<and> (\<forall>v. map_of kvs ''longitude'' = Some v \<longrightarrow> py_float E v = Inr (Fin (l_longitude l3))
            \<and> - 180 \<le> l_longitude l3 \<and> l_longitude l3 \<le> 180)"
  using set_location_fields_cases [OF assms]
  by (auto simp: py_in_obj getitem_obj bind_exn_def simp del: py_in.simps getitem.simps
        split: sum.splits)

lemma set_trip_fields_obj:
  assumes "set_trip_fields E t (JObj kvs) = Inr t3"
  shows "t_id t3 = t_id t \<and> t_user_id t3 = t_user_id t
     \<and> (map_of kvs ''destination'' = None \<longrightarrow> t_destination t3 = t_destination t)
     \<and> (\<forall>v. map_of kvs ''destination'' = Some v \<longrightarrow> t_destination t3 = v)
     \<and> (map_of kvs ''start_date'' = None \<longrightarrow> t_start_date t3 = t_start_date t)
     \<and> (\<forall>v. map_of kvs ''start_date'' = Some v \<longrightarrow> py_strptime E v = Inr (t_start_date t3))
     \<and> (map_of kvs ''end_date'' = None \<longrightarrow> t_end_date t3 = t_end_date t)
     \<and> (\<forall>v. map_of kvs ''end_date'' = Some v \<longrightarrow> py_strptime E v = Inr (t_end_date t3))"
  using set_trip_fields_cases [OF assms] set_trip_fields_id [OF assms]
  by (auto simp: py_in_obj getitem_obj bind_exn_def simp del: py_in.simps getitem.simps
        split: sum.splits)

text \<open>A body that is no object and has none of the fields sets none.\<close>

lemma py_in_Inr_other:
  assumes "py_in k data = Inr b" and "\<forall>kvs. data \<noteq> JObj kvs"
  shows "getitem data k' = Inl TypeError"
  using assms by (cases data) simp_all

lemma set_location_fields_other:
  assumes s: "set_location_fields E l data = Inr (Inr l3)" and o: "\<forall>kvs. data \<noteq> JObj kvs"
  shows "l3 = l \<and> py_in ''name'' data = Inr False"
proof -
  from s obtain b1 where b1: "py_in ''name'' data = Inr b1"
    unfolding set_location_fields_def by (elim bind_exn_InrE)
  from py_in_Inr_other [OF b1 o] have g: "\<And>k. getitem data k = Inl TypeError" .
  from b1 o have all: "\<And>k. \<exists>b. py_in k data = Inr b" by (cases data) simp_all
  note c = set_location_fields_cases [OF s]
  have n: "py_in ''name'' data = Inr False"
    using c all [of "''name''"] by (auto simp: g)
  have la: "py_in ''latitude'' data = Inr False"
    using c all [of "''latitude''"] by (auto simp: g bind_exn_def)
  have lo: "py_in ''longitude'' data = Inr False"
    using c all [of "''longitude''"] by (auto simp: g bind_exn_def)
  from c n la lo have "l_id l3 = l_id l \<and> l_trip_id l3 = l_trip_id l \<and> l_name l3 = l_name l
      \<and> l_latitude l3 = l_latitude l \<and> l_longitude l3 = l_longitude l"
    by simp
  then have "l3 = l" by simp
  with n show ?thesis by simp
qed


lemma set_trip_fields_other:
  assumes s: "set_trip_fields E t data = Inr t3" and o: "\<forall>kvs. data \<noteq> JObj kvs"
  shows "t3 = t \<and> py_in ''destination'' data = Inr False"
proof -
  from s obtain b1 where b1: "py_in ''destination'' data = Inr b1"
    unfolding set_trip_fields_def by (elim bind_exn_InrE)
  from py_in_Inr_other [OF b1 o] have g: "\<And>k. getitem data k = Inl TypeError" .
  from b1 o have all: "\<And>k. \<exists>b. py_in k data = Inr b" by (cases data) simp_all
  note c = set_trip_fields_cases [OF s]
  have n: "py_in ''destination'' data = Inr False"
    using c all [of "''destination''"] by (auto simp: g)
  have sd: "py_in ''start_date'' data = Inr False"
    using c all [of "''start_date''"] by (auto simp: g bind_exn_def)
  have ed: "py_in ''end_date'' data = Inr False"
    using c all [of "''end_date''"] by (auto simp: g bind_exn_def)
  from c n sd ed set_trip_fields_id [OF s]
  have "t_id t3 = t_id t \<and> t_user_id t3 = t_user_id t \<and> t_destination t3 = t_destination t
      \<and> t_start_date t3 = t_start_date t \<and> t_end_date t3 = t_end_date t"
    by simp
  then have "t3 = t" by simp
  with n show ?thesis by simp
qed

text \<open>The fields of a body whose values are accepted, set on the loaded row.\<close>

lemma set_location_fields_valid:
  assumes lat: "map_of kvs ''latitude'' = None \<and> la = l_latitude l
           \<or> (\<exists>v. map_of kvs ''latitude'' = Some v \<and> py_float E v = Inr (Fin la)
                  \<and> - 90 \<le> la \<and> la \<le> 90)"
    and lon: "map_of kvs ''longitude'' = None \<and> lo = l_longitude l
           \<or> (\<exists>v. map_of kvs ''longitude'' = Some v \<and> py_float E v = Inr (Fin lo)
                  \<and> - 180 \<le> lo \<and> lo \<le> 180)"
  shows "set_location_fields E l (JObj kvs)
           = Inr (Inr (l\<lparr>l_name := (case map_of kvs ''name'' of None \<Rightarrow> l_name l | Some v \<Rightarrow> v),
                          l_latitude := la, l_longitude := lo\<rparr>))"
proof -
  define l1 where "l1 = l\<lparr>l_name := (case map_of kvs ''name'' of None \<Rightarrow> l_name l | Some v \<Rightarrow> v)\<rparr>"
  have s1: "(if map_of kvs ''name'' \<noteq> None
        then bind_exn (getitem (JObj kvs) ''name'') (\<lambda>v. Inr (l\<lparr>l_name := v\<rparr>))
        else Inr l) = Inr l1"
    by (cases "map_of kvs ''name''") (auto simp: bind_exn_def l1_def)
  have s2: "(if map_of kvs ''latitude'' \<noteq> None
        then bind_exn (getitem (JObj kvs) ''latitude'') (\<lambda>v.
             bind_exn (py_float E v) (\<lambda>lat.
               Inr (map_option (\<lambda>r. l1\<lparr>l_latitude := r\<rparr>) (finite_in (- 90) 90 lat))))
        else Inr (Some l1)) = Inr (Some (l1\<lparr>l_latitude := la\<rparr>))"
    using lat by (auto simp: bind_exn_def l1_def)
  have s3: "(if map_of kvs ''longitude'' \<noteq> None
        then bind_exn (getitem (JObj kvs) ''longitude'') (\<lambda>v.
             bind_exn (py_float E v) (\<lambda>lng.
               Inr (map_option (\<lambda>r. l1\<lparr>l_latitude := la, l_longitude := r\<rparr>)
                      (finite_in (- 180) 180 lng))))
        else Inr (Some (l1\<lparr>l_latitude := la\<rparr>)))
      = Inr (Some (l1\<lparr>l_latitude := la, l_longitude := lo\<rparr>))"
    using lon by (auto simp: bind_exn_def l1_def)
  have "set_location_fields E l (JObj kvs) = Inr (Inr (l1\<lparr>l_latitude := la, l_longitude := lo\<rparr>))"
    unfolding set_location_fields_def py_in_obj
    by (simp only: bind_exn_Inr s1 s2 s3 option.case)
  then show ?thesis by (simp add: l1_def)
qed

lemma set_trip_fields_valid:
  assumes sd: "map_of kvs ''start_date'' = None \<and> sd = t_start_date t
           \<or> (\<exists>v. map_of kvs ''start_date'' = Some v \<and> py_strptime E v = Inr sd)"
    and ed: "map_of kvs ''end_date'' = None \<and> ed = t_end_date t
           \<or> (\<exists>v. map_of kvs ''end_date'' = Some v \<and> py_strptime E v = Inr ed)"
  shows "set_trip_fields E t (JObj kvs)
           = Inr (t\<lparr>t_destination :=
                       (case map_of kvs ''destination'' of None \<Rightarrow> t_destination t | Some v \<Rightarrow> v),
                    t_start_date := sd, t_end_date := ed\<rparr>)"
proof -
  define t1 where
    "t1 = t\<lparr>t_destination := (case map_of kvs ''destination'' of None \<Rightarrow> t_destination t | Some v \<Rightarrow> v)\<rparr>"
  have s1: "(if map_of kvs ''destination'' \<noteq> None
        then bind_exn (getitem (JObj kvs) ''destination'') (\<lambda>v. Inr (t\<lparr>t_destination := v\<rparr>))
        else Inr t) = Inr t1"
    by (cases "map_of kvs ''destination''") (auto simp: bind_exn_def t1_def)
  have s2: "(if map_of kvs ''start_date'' \<noteq> None
        then bind_exn (getitem (JObj kvs) ''start_date'') (\<lambda>v.
               bind_exn (py_strptime E v) (\<lambda>x. Inr (t1\<lparr>t_start_date := x\<rparr>)))
        else Inr t1) = Inr (t1\<lparr>t_start_date := sd\<rparr>)"
    using sd by (auto simp: bind_exn_def t1_def)
  have s3: "(if map_of kvs ''end_date'' \<noteq> None
        then bind_exn (getitem (JObj kvs) ''end_date'') (\<lambda>v.
               bind_exn (py_strptime E v) (\<lambda>x. Inr (t1\<lparr>t_start_date := sd, t_end_date := x\<rparr>)))
        else Inr (t1\<lparr>t_start_date := sd\<rparr>)) = Inr (t1\<lparr>t_start_date := sd, t_end_date := ed\<rparr>)"
    using ed by (auto simp: bind_exn_def t1_def)
  have "set_trip_fields E t (JObj kvs) = Inr (t1\<lparr>t_start_date := sd, t_end_date := ed\<rparr>)"
    unfolding set_trip_fields_def py_in_obj
    by (simp only: bind_exn_Inr s1 s2 s3)
  then show ?thesis by (simp add: t1_def)
qed


text \<open>What an update that is answered 200 has written.\<close>

lemma update_location_done:
  assumes h: "update_location E d uid lid data = (Reply 200 b, d')"
  shows "\<exists>l l'. owned_location d uid lid = Some l \<and> b = updated_location_body l'
     \<and> trips d' = trips d
     \<and> locations d' = map (\<lambda>x. if l_id x = lid then l' else x) (locations d)
     \<and> l_id l' = lid \<and> l_trip_id l' = l_trip_id l
     \<and> (\<forall>kvs. data = JObj kvs \<longrightarrow>
           (map_of kvs ''name'' = None \<longrightarrow> l_name l' = l_name l)
           \<and> (\<forall>v. map_of kvs ''name'' = Some v \<longrightarrow> column_text E v = Inr (Some (l_name l')))
           \<and> (map_of kvs ''latitude'' = None \<longrightarrow> l_latitude l' = l_latitude l)
           \<and> (\<forall>v. map_of kvs ''latitude'' = Some v \<longrightarrow>
                 py_float E v = Inr (Fin (l_latitude l'))
                 \<and> - 90 \<le> l_latitude l' \<and> l_latitude l' \<le> 90)
           \<and> (map_of kvs ''longitude'' = None \<longrightarrow> l_longitude l' = l_longitude l)
           \<and> (\<forall>v. map_of kvs ''longitude'' = Some v \<longrightarrow>
                 py_float E v = Inr (Fin (l_longitude l'))
                 \<and> - 180 \<le> l_longitude l' \<and> l_longitude l' \<le> 180))
     \<and> ((\<forall>kvs. data \<noteq> JObj kvs) \<longrightarrow> l' = l)"
proof -
  from update_location_cases [OF h] obtain l l3 name where
    l: "owned_location d uid lid = Some l" and s: "set_location_fields E l data = Inr (Inr l3)"
    and n: "text_set E data ''name'' (l_name l3) = Inr (Some name)"
    and d': "d' = write_location (l3\<lparr>l_name := name\<rparr>) d"
    and b: "b = updated_location_body (l3\<lparr>l_name := name\<rparr>)"
    by blast
  from owned_location_Some [OF l] have lid: "l_id l = lid" by simp
  from set_location_fields_cases [OF s] have ids: "l_id l3 = l_id l" "l_trip_id l3 = l_trip_id l"
    by simp_all
  have obj: "(map_of kvs ''name'' = None \<longrightarrow> name = l_name l)
           \<and> (\<forall>v. map_of kvs ''name'' = Some v \<longrightarrow> column_text E v = Inr (Some name))
           \<and> (map_of kvs ''latitude'' = None \<longrightarrow> l_latitude l3 = l_latitude l)
           \<and> (\<forall>v. map_of kvs ''latitude'' = Some v \<longrightarrow>
                 py_float E v = Inr (Fin (l_latitude l3))
                 \<and> - 90 \<le> l_latitude l3 \<and> l_latitude l3 \<le> 90)
           \<and> (map_of kvs ''longitude'' = None \<longrightarrow> l_longitude l3 = l_longitude l)
           \<and> (\<forall>v. map_of kvs ''longitude'' = Some v \<longrightarrow>
                 py_float E v = Inr (Fin (l_longitude l3))
                 \<and> - 180 \<le> l_longitude l3 \<and> l_longitude l3 \<le> 180)"
    if k: "data = JObj kvs" for kvs
  proof -
    note f = set_location_fields_obj [OF s [unfolded k]]
    from n have n': "(if map_of kvs ''name'' = None then Inr (Some (l_name l3))
                      else column_text E (l_name l3)) = Inr (Some name)"
      by (simp only: k text_set_obj)
    from f n' have "(map_of kvs ''name'' = None \<longrightarrow> name = l_name l)
           \<and> (\<forall>v. map_of kvs ''name'' = Some v \<longrightarrow> column_text E v = Inr (Some name))"
      by (cases "map_of kvs ''name''") auto
    with f show ?thesis by blast
  qed
  have other: "l3\<lparr>l_name := name\<rparr> = l" if o: "\<forall>kvs. data \<noteq> JObj kvs"
  proof -
    from set_location_fields_other [OF s o] have e: "l3 = l" "py_in ''name'' data = Inr False"
      by simp_all
    from n have "name = l_name l" by (simp add: text_set_def e bind_exn_def)
    with e show ?thesis by simp
  qed
  have w: "trips d' = trips d"
    "locations d' = map (\<lambda>x. if l_id x = lid then l3\<lparr>l_name := name\<rparr> else x) (locations d)"
    by (simp_all add: d' write_location_def ids lid)
  show ?thesis
    apply (rule exI [of _ l])
    apply (rule exI [of _ "l3\<lparr>l_name := name\<rparr>"])
    using l b w ids lid obj other by simp
qed

lemma update_trip_done:
  assumes h: "update_trip E d uid tid data = (Reply 200 b, d')"
  shows "\<exists>t t'. owned_trip d uid tid = Some t \<and> b = updated_trip_body t'
     \<and> locations d' = locations d
     \<and> trips d' = map (\<lambda>x. if t_id x = tid then t' else x) (trips d)
     \<and> t_id t' = tid \<and> t_user_id t' = t_user_id t
     \<and> \<not> date_less (t_end_date t') (t_start_date t')
     \<and> (\<forall>kvs. data = JObj kvs \<longrightarrow>
           (map_of kvs ''destination'' = None \<longrightarrow> t_destination t' = t_destination t)
           \<and> (\<forall>v. map_of kvs ''destination'' = Some v \<longrightarrow>
                 column_text E v = Inr (Some (t_destination t')))
           \<and> (map_of kvs ''start_date'' = None \<longrightarrow> t_start_date t' = t_start_date t)
           \<and> (\<forall>v. map_of kvs ''start_date'' = Some v \<longrightarrow>
                 py_strptime E v = Inr (t_start_date t'))
           \<and> (map_of kvs ''end_date'' = None \<longrightarrow> t_end_date t' = t_end_date t)
           \<and> (\<forall>v. map_of kvs ''end_date'' = Some v \<longrightarrow>
                 py_strptime E v = Inr (t_end_date t')))
     \<and> ((\<forall>kvs. data \<noteq> JObj kvs) \<longrightarrow> t' = t)"
proof -
  from update_trip_success [OF h] obtain t t3 dest where
    t: "owned_trip d uid tid = Some t" and s: "set_trip_fields E t data = Inr t3"
    and n: "text_set E data ''destination'' (t_destination t3) = Inr (Some dest)"
    and d': "d' = write_trip (t3\<lparr>t_destination := dest\<rparr>) d"
    and b: "b = updated_trip_body (t3\<lparr>t_destination := dest\<rparr>)"
    and v: "\<not> date_less (t_end_date t3) (t_start_date t3)"
    by blast
  from owned_trip_Some [OF t] have tid: "t_id t = tid" by simp
  from set_trip_fields_id [OF s] have ids: "t_id t3 = t_id t" "t_user_id t3 = t_user_id t"
    by simp_all
  have obj: "(map_of kvs ''destination'' = None \<longrightarrow> dest = t_destination t)
           \<and> (\<forall>v. map_of kvs ''destination'' = Some v \<longrightarrow> column_text E v = Inr (Some dest))
           \<and> (map_of kvs ''start_date'' = None \<longrightarrow> t_start_date t3 = t_start_date t)
           \<and> (\<forall>v. map_of kvs ''start_date'' = Some v \<longrightarrow>
                 py_strptime E v = Inr (t_start_date t3))
           \<and> (map_of kvs ''end_date'' = None \<longrightarrow> t_end_date t3 = t_end_date t)
           \<and> (\<forall>v. map_of kvs ''end_date'' = Some v \<longrightarrow>
                 py_strptime E v = Inr (t_end_date t3))"
    if k: "data = JObj kvs" for kvs
  proof -
    note f = set_trip_fields_obj [OF s [unfolded k]]
    from n have n': "(if map_of kvs ''destination'' = None then Inr (Some (t_destination t3))
                      else column_text E (t_destination t3)) = Inr (Some dest)"
      by (simp only: k text_set_obj)
    from f n' have "(map_of kvs ''destination'' = None \<longrightarrow> dest = t_destination t)
           \<and> (\<forall>v. map_of kvs ''destination'' = Some v \<longrightarrow> column_text E v = Inr (Some dest))"
      by (cases "map_of kvs ''destination''") auto
    with f show ?thesis by blast
  qed
  have other: "t3\<lparr>t_destination := dest\<rparr> = t" if o: "\<forall>kvs. data \<noteq> JObj kvs"
  proof -
    from set_trip_fields_other [OF s o] have e: "t3 = t" "py_in ''destination'' data = Inr False"
      by simp_all
    from n have "dest = t_destination t" by (simp add: text_set_def e bind_exn_def)
    with e show ?thesis by simp
  qed
  have w: "locations d' = locations d"
    "trips d' = map (\<lambda>x. if t_id x = tid then t3\<lparr>t_destination := dest\<rparr> else x) (trips d)"
    by (simp_all add: d' write_trip_def ids tid)
  show ?thesis
    apply (rule exI [of _ t])
    apply (rule exI [of _ "t3\<lparr>t_destination := dest\<rparr>"])
    using t b w ids tid obj other v by (simp del: date_less.simps)
qed


text \<open>An update whose fields are accepted is answered 200 and written.\<close>

lemma update_location_progress:
  assumes l: "owned_location d uid lid = Some l" and ne: "kvs \<noteq> []" and c: "commit_ok E"
    and name: "map_of kvs ''name'' = None \<and> nm = l_name l
           \<or> (\<exists>v. map_of kvs ''name'' = Some v \<and> column_text E v = Inr (Some nm))"
    and lat: "map_of kvs ''latitude'' = None \<and> la = l_latitude l
           \<or> (\<exists>v. map_of kvs ''latitude'' = Some v \<and> py_float E v = Inr (Fin la)
                  \<and> - 90 \<le> la \<and> la \<le> 90)"
    and lon: "map_of kvs ''longitude'' = None \<and> lo = l_longitude l
           \<or> (\<exists>v. map_of kvs ''longitude'' = Some v \<and> py_float E v = Inr (Fin lo)
                  \<and> - 180 \<le> lo \<and> lo \<le> 180)"
  shows "update_location E d uid lid (JObj kvs)
           = (Reply 200 (updated_location_body (l\<lparr>l_name := nm, l_latitude := la, l_longitude := lo\<rparr>)),
              d\<lparr>locations := map (\<lambda>x. if l_id x = lid
                                         then l\<lparr>l_name := nm, l_latitude := la, l_longitude := lo\<rparr>
                                         else x) (locations d)\<rparr>)"
proof -
  let ?raw = "case map_of kvs ''name'' of None \<Rightarrow> l_name l | Some v \<Rightarrow> v"
  note s = set_location_fields_valid [OF lat lon]
  from name have n: "text_set E (JObj kvs) ''name'' ?raw = Inr (Some nm)"
    by (auto simp: text_set_obj)
  from owned_location_Some [OF l] have lid: "l_id l = lid" by simp
  have r: "l\<lparr>l_latitude := la, l_longitude := lo, l_name := nm\<rparr>
             = l\<lparr>l_name := nm, l_latitude := la, l_longitude := lo\<rparr>"
    by (cases l) simp
  have "update_location_try E d l (JObj kvs)
          = Inr (Reply 200 (updated_location_body (l\<lparr>l_name := nm, l_latitude := la, l_longitude := lo\<rparr>)),
                 write_location (l\<lparr>l_name := nm, l_latitude := la, l_longitude := lo\<rparr>) d)"
    unfolding update_location_try_def
    by (simp add: s bind_exn_Inr n c Let_def r)
  then show ?thesis
    using l ne by (simp add: update_location_def catch_value_error_def write_location_def lid)
qed

lemma update_trip_progress:
  assumes t: "owned_trip d uid tid = Some t" and ne: "kvs \<noteq> []" and c: "commit_ok E"
    and dest: "map_of kvs ''destination'' = None \<and> de = t_destination t
           \<or> (\<exists>v. map_of kvs ''destination'' = Some v \<and> column_text E v = Inr (Some de))"
    and sd: "map_of kvs ''start_date'' = None \<and> sd = t_start_date t
           \<or> (\<exists>v. map_of kvs ''start_date'' = Some v \<and> py_strptime E v = Inr sd)"
    and ed: "map_of kvs ''end_date'' = None \<and> ed = t_end_date t
           \<or> (\<exists>v. map_of kvs ''end_date'' = Some v \<and> py_strptime E v = Inr ed)"
    and ord: "\<not> date_less ed sd"
  shows "update_trip E d uid tid (JObj kvs)
           = (Reply 200 (updated_trip_body
                 (t\<lparr>t_destination := de, t_start_date := sd, t_end_date := ed\<rparr>)),
              d\<lparr>trips := map (\<lambda>x. if t_id x = tid
                                     then t\<lparr>t_destination := de, t_start_date := sd, t_end_date := ed\<rparr>
                                     else x) (trips d)\<rparr>)"
proof -
  let ?raw = "case map_of kvs ''destination'' of None \<Rightarrow> t_destination t | Some v \<Rightarrow> v"
  note s = set_trip_fields_valid [OF sd ed]
  from dest have n: "text_set E (JObj kvs) ''destination'' ?raw = Inr (Some de)"
    by (auto simp: text_set_obj)
  from owned_trip_Some [OF t] have tid: "t_id t = tid" by simp
  have r: "t\<lparr>t_start_date := sd, t_end_date := ed, t_destination := de\<rparr>
             = t\<lparr>t_destination := de, t_start_date := sd, t_end_date := ed\<rparr>"
    by (cases t) simp
  have "update_trip_try E d t (JObj kvs)
          = Inr (Reply 200 (updated_trip_body
                   (t\<lparr>t_destination := de, t_start_date := sd, t_end_date := ed\<rparr>)),
                 write_trip (t\<lparr>t_destination := de, t_start_date := sd, t_end_date := ed\<rparr>) d)"
    unfolding update_trip_try_def
    using ord by (simp add: s bind_exn_Inr n c Let_def r del: date_less.simps)
  then show ?thesis
    using t ne by (simp add: update_trip_def write_trip_def tid)
qed


lemma not_200: "status r \<noteq> 200 \<Longrightarrow> \<forall>b. r \<noteq> Reply 200 b"
  by auto

lemma update_location_unchanged:
  "status (fst (update_location E d uid lid data)) \<noteq> 200 \<Longrightarrow>
     snd (update_location E d uid lid data) = d"
  using update_location_cases [of E d uid lid data "fst (update_location E d uid lid data)"
      "snd (update_location E d uid lid data)"] not_200
  by auto

lemma update_trip_unchanged:
  "status (fst (update_trip E d uid tid data)) \<noteq> 200 \<Longrightarrow>
     snd (update_trip E d uid tid data) = d"
  using update_trip_cases [of E d uid tid data "fst (update_trip E d uid tid data)"
      "snd (update_trip E d uid tid data)"] not_200
  by auto

text \<open>
  C6. An update that is not answered 200 leaves the database as it was, whatever the
  body: a field set on the loaded row before a later field is refused is never written.
  An update that is answered 200 has written one row, that of the key, and answers with
  it: the row has the key and the parent of the old row, each field absent from the body
  as in the old row, and each field present as the body gives it (a name or a destination
  as the text column holds it, a coordinate converted to a float within its range, a date
  parsed); a body that is no object and is answered 200 leaves the row as it was. And the
  updates are made: when the caller owns the row, the commit succeeds and each field
  present in the body is accepted (with the end date of the row not before its start
  date), the answer is 200 with the row in which exactly these fields are replaced, in
  the database in which this row replaces the old one.
\<close>

theorem update_is_partial_and_atomic:
  "(status (fst (update_location E d uid lid data)) \<noteq> 200 \<longrightarrow>
      snd (update_location E d uid lid data) = d)
   \<and> (status (fst (update_trip E d uid tid data)) \<noteq> 200 \<longrightarrow>
      snd (update_trip E d uid tid data) = d)
   \<and> (update_location E d uid lid data = (Reply 200 b, d') \<longrightarrow>
        (\<exists>l l'. owned_location d uid lid = Some l \<and> b = updated_location_body l'
           \<and> trips d' = trips d
           \<and> locations d' = map (\<lambda>x. if l_id x = lid then l' else x) (locations d)
           \<and> l_id l' = lid \<and> l_trip_id l' = l_trip_id l
           \<and> (\<forall>kvs. data = JObj kvs \<longrightarrow>
                 (map_of kvs ''name'' = None \<longrightarrow> l_name l' = l_name l)
                 \<and> (\<forall>v. map_of kvs ''name'' = Some v \<longrightarrow>
                       column_text E v = Inr (Some (l_name l')))
                 \<and> (map_of kvs ''latitude'' = None \<longrightarrow> l_latitude l' = l_latitude l)
                 \<and> (\<forall>v. map_of kvs ''latitude'' = Some v \<longrightarrow>
                       py_float E v = Inr (Fin (l_latitude l'))
                       \<and> - 90 \<le> l_latitude l' \<and> l_latitude l' \<le> 90)
                 \<and> (map_of kvs ''longitude'' = None \<longrightarrow> l_longitude l' = l_longitude l)
                 \<and> (\<forall>v. map_of kvs ''longitude'' = Some v \<longrightarrow>
                       py_float E v = Inr (Fin (l_longitude l'))
                       \<and> - 180 \<le> l_longitude l' \<and> l_longitude l' \<le> 180))
           \<and> ((\<forall>kvs. data \<noteq> JObj kvs) \<longrightarrow> l' = l)))
   \<and> (update_trip E d uid tid data = (Reply 200 b, d') \<longrightarrow>
        (\<exists>t t'. owned_trip d uid tid = Some t \<and> b = updated_trip_body t'
           \<and> locations d' = locations d
           \<and> trips d' = map (\<lambda>x. if t_id x = tid then t' else x) (trips d)
           \<and> t_id t' = tid \<and> t_user_id t' = t_user_id t
           \<and> \<not> date_less (t_end_date t') (t_start_date t')
           \<and> (\<forall>kvs. data = JObj kvs \<longrightarrow>
                 (map_of kvs ''destination'' = None \<longrightarrow> t_destination t' = t_destination t)
                 \<and> (\<forall>v. map_of kvs ''destination'' = Some v \<longrightarrow>
                       column_text E v = Inr (Some (t_destination t')))
                 \<and> (map_of kvs ''start_date'' = None \<longrightarrow> t_start_date t' = t_start_date t)
                 \<and> (\<forall>v. map_of kvs ''start_date'' = Some v \<longrightarrow>
                       py_strptime E v = Inr (t_start_date t'))
                 \<and> (map_of kvs ''end_date'' = None \<longrightarrow> t_end_date t' = t_end_date t)
                 \<and> (\<forall>v. map_of kvs ''end_date'' = Some v \<longrightarrow>
                       py_strptime E v = Inr (t_end_date t')))
           \<and> ((\<forall>kvs. data \<noteq> JObj kvs) \<longrightarrow> t' = t)))
   \<and> (owned_location d uid lid = Some l \<and> kvs \<noteq> [] \<and> commit_ok E
        \<and> (map_of kvs ''name'' = None \<and> nm = l_name l
             \<or> (\<exists>v. map_of kvs ''name'' = Some v \<and> column_text E v = Inr (Some nm)))
        \<and> (map_of kvs ''latitude'' = None \<and> la = l_latitude l
             \<or> (\<exists>v. map_of kvs ''latitude'' = Some v \<and> py_float E v = Inr (Fin la)
                    \<and> - 90 \<le> la \<and> la \<le> 90))
        \<and> (map_of kvs ''longitude'' = None \<and> lo = l_longitude l
             \<or> (\<exists>v. map_of kvs ''longitude'' = Some v \<and> py_float E v = Inr (Fin lo)
                    \<and> - 180 \<le> lo \<and> lo \<le> 180)) \<longrightarrow>
      update_location E d uid lid (JObj kvs)
        = (Reply 200 (updated_location_body
                        (l\<lparr>l_name := nm, l_latitude := la, l_longitude := lo\<rparr>)),
           d\<lparr>locations := map (\<lambda>x. if l_id x = lid
                                      then l\<lparr>l_name := nm, l_latitude := la, l_longitude := lo\<rparr>
                                      else x) (locations d)\<rparr>))
   \<and> (owned_trip d uid tid = Some t \<and> kvs \<noteq> [] \<and> commit_ok E
        \<and> (map_of kvs ''destination'' = None \<and> de = t_destination t
             \<or> (\<exists>v. map_of kvs ''destination'' = Some v \<and> column_text E v = Inr (Some de)))
        \<and> (map_of kvs ''start_date'' = None \<and> sd = t_start_date t
             \<or> (\<exists>v. map_of kvs ''start_date'' = Some v \<and> py_strptime E v = Inr sd))
        \<and> (map_of kvs ''end_date'' = None \<and> ed = t_end_date t
             \<or> (\<exists>v. map_of kvs ''end_date'' = Some v \<and> py_strptime E v = Inr ed))
        \<and> \<not> date_less ed sd \<longrightarrow>
      update_trip E d uid tid (JObj kvs)
        = (Reply 200 (updated_trip_body
                        (t\<lparr>t_destination := de, t_start_date := sd, t_end_date := ed\<rparr>)),
           d\<lparr>trips := map (\<lambda>x. if t_id x = tid
                                  then t\<lparr>t_destination := de, t_start_date := sd, t_end_date := ed\<rparr>
                                  else x) (trips d)\<rparr>))"
proof (intro conjI impI)
  assume "status (fst (update_location E d uid lid data)) \<noteq> 200"
  then show "snd (update_location E d uid lid data) = d"
    by (rule update_location_unchanged)
next
  assume "status (fst (update_trip E d uid tid data)) \<noteq> 200"
  then show "snd (update_trip E d uid tid data) = d"
    by (rule update_trip_unchanged)
next
  assume "update_location E d uid lid data = (Reply 200 b, d')"
  then show "\<exists>l l'. owned_location d uid lid = Some l \<and> b = updated_location_body l'
           \<and> trips d' = trips d
           \<and> locations d' = map (\<lambda>x. if l_id x = lid then l' else x) (locations d)
           \<and> l_id l' = lid \<and> l_trip_id l' = l_trip_id l
           \<and> (\<forall>kvs. data = JObj kvs \<longrightarrow>
                 (map_of kvs ''name'' = None \<longrightarrow> l_name l' = l_name l)
                 \<and> (\<forall>v. map_of kvs ''name'' = Some v \<longrightarrow>
                       column_text E v = Inr (Some (l_name l')))
                 \<and> (map_of kvs ''latitude'' = None \<longrightarrow> l_latitude l' = l_latitude l)
                 \<and> (\<forall>v. map_of kvs ''latitude'' = Some v \<longrightarrow>
                       py_float E v = Inr (Fin (l_latitude l'))
                       \<and> - 90 \<le> l_latitude l' \<and> l_latitude l' \<le> 90)
                 \<and> (map_of kvs ''longitude'' = None \<longrightarrow> l_longitude l' = l_longitude l)
                 \<and> (\<forall>v. map_of kvs ''longitude'' = Some v \<longrightarrow>
                       py_float E v = Inr (Fin (l_longitude l'))
                       \<and> - 180 \<le> l_longitude l' \<and> l_longitude l' \<le> 180))
           \<and> ((\<forall>kvs. data \<noteq> JObj kvs) \<longrightarrow> l' = l)"
    by (rule update_location_done)
next
  assume "update_trip E d uid tid data = (Reply 200 b, d')"
  then show "\<exists>t t'. owned_trip d uid tid = Some t \<and> b = updated_trip_body t'
           \<and> locations d' = locations d
           \<and> trips d' = map (\<lambda>x. if t_id x = tid then t' else x) (trips d)
           \<and> t_id t' = tid \<and> t_user_id t' = t_user_id t
           \<and> \<not> date_less (t_end_date t') (t_start_date t')
           \<and> (\<forall>kvs. data = JObj kvs \<longrightarrow>
                 (map_of kvs ''destination'' = None \<longrightarrow> t_destination t' = t_destination t)
                 \<and> (\<forall>v. map_of kvs ''destination'' = Some v \<longrightarrow>
                       column_text E v = Inr (Some (t_destination t')))
                 \<and> (map_of kvs ''start_date'' = None \<longrightarrow> t_start_date t' = t_start_date t)
                 \<and> (\<forall>v. map_of kvs ''start_date'' = Some v \<longrightarrow>
                       py_strptime E v = Inr (t_start_date t'))
                 \<and> (map_of kvs ''end_date'' = None \<longrightarrow> t_end_date t' = t_end_date t)
                 \<and> (\<forall>v. map_of kvs ''end_date'' = Some v \<longrightarrow>
                       py_strptime E v = Inr (t_end_date t')))
           \<and> ((\<forall>kvs. data \<noteq> JObj kvs) \<longrightarrow> t' = t)"
    by (rule update_trip_done)
next
  assume h: "owned_location d uid lid = Some l \<and> kvs \<noteq> [] \<and> commit_ok E
        \<and> (map_of kvs ''name'' = None \<and> nm = l_name l
             \<or> (\<exists>v. map_of kvs ''name'' = Some v \<and> column_text E v = Inr (Some nm)))
        \<and> (map_of kvs ''latitude'' = None \<and> la = l_latitude l
             \<or> (\<exists>v. map_of kvs ''latitude'' = Some v \<and> py_float E v = Inr (Fin la)
                    \<and> - 90 \<le> la \<and> la \<le> 90))
        \<and> (map_of kvs ''longitude'' = None \<and> lo = l_longitude l
             \<or> (\<exists>v. map_of kvs ''longitude'' = Some v \<and> py_float E v = Inr (Fin lo)
                    \<and> - 180 \<le> lo \<and> lo \<le> 180))"
  show "update_location E d uid lid (JObj kvs)
        = (Reply 200 (updated_location_body
                        (l\<lparr>l_name := nm, l_latitude := la, l_longitude := lo\<rparr>)),
           d\<lparr>locations := map (\<lambda>x. if l_id x = lid
                                      then l\<lparr>l_name := nm, l_latitude := la, l_longitude := lo\<rparr>
                                      else x) (locations d)\<rparr>)"
    by (rule update_location_progress) (use h in blast)+
next
  assume h: "owned_trip d uid tid = Some t \<and> kvs \<noteq> [] \<and> commit_ok E
        \<and> (map_of kvs ''destination'' = None \<and> de = t_destination t
             \<or> (\<exists>v. map_of kvs ''destination'' = Some v \<and> column_text E v = Inr (Some de)))
        \<and> (map_of kvs ''start_date'' = None \<and> sd = t_start_date t
             \<or> (\<exists>v. map_of kvs ''start_date'' = Some v \<and> py_strptime E v = Inr sd))
        \<and> (map_of kvs ''end_date'' = None \<and> ed = t_end_date t
             \<or> (\<exists>v. map_of kvs ''end_date'' = Some v \<and> py_strptime E v = Inr ed))
        \<and> \<not> date_less ed sd"
  show "update_trip E d uid tid (JObj kvs)
        = (Reply 200 (updated_trip_body
                        (t\<lparr>t_destination := de, t_start_date := sd, t_end_date := ed\<rparr>)),
           d\<lparr>trips := map (\<lambda>x. if t_id x = tid
                                  then t\<lparr>t_destination := de, t_start_date := sd, t_end_date := ed\<rparr>
                                  else x) (trips d)\<rparr>)"
    by (rule update_trip_progress) (use h in blast)+
qed


lemma run_rename_and_misplace:
  "update_location sample_env kyoto_spot_db 1 1 rename_and_misplace
     = (Reply 400 (err ''Invalid latitude''), kyoto_spot_db)"
  by (simp add: update_location_def owned_location_def owned_by_def kyoto_spot_db_def
        kyoto_db_def kyoto_spot_def rename_and_misplace_def catch_value_error_def
        update_location_try_def set_location_fields_def bind_exn_def)

lemma run_retitle_and_shorten:
  "update_trip sample_env kyoto_db 1 1 retitle_and_shorten
     = (Reply 400 (err ''End date cannot be before start date''), kyoto_db)"
  by (simp add: update_trip_def owned_trip_def kyoto_db_def retitle_and_shorten_def
        update_trip_try_def set_trip_fields_def bind_exn_def sample_dates)

lemma run_list_body:
  "update_location sample_env kyoto_spot_db 1 1 list_body
     = (Reply 200 (updated_location_body kyoto_spot), kyoto_spot_db)"
  by (simp add: update_location_def owned_location_def owned_by_def kyoto_spot_db_def
        kyoto_db_def kyoto_spot_def list_body_def catch_value_error_def
        update_location_try_def set_location_fields_def text_set_def bind_exn_def
        sample_env_def write_location_def Let_def)

lemma str_int_5: "str_int 5 = ''5''"
  by code_simp

lemma sample_values:
  "commit_ok sample_env"
  "py_float sample_env (JInt 34) = Inr (Fin 34)"
  "column_text sample_env (JInt 5) = Inr (Some (JStr ''5''))"
  "py_strptime sample_env (JStr ''2024-06-05'') = Inr (2024, 6, 5)"
  by (simp_all add: sample_env_def storable_def str_int_5 sample_strptime_def digit_of_def
        days_in_month_def)

lemma two_trips_rows:
  "owned_location two_trips_db 1 3 = Some kyoto_garden"
  "owned_trip two_trips_db 1 2 = Some nara_trip"
  "owned_location kyoto_spot_db 1 1 = Some kyoto_spot"
  by (simp_all add: owned_location_def owned_trip_def owned_by_def two_trips_db_def
        kyoto_spot_db_def kyoto_db_def kyoto_trip_def nara_trip_def kyoto_spot_def nara_spot_def
        kyoto_garden_def)


theorem update_is_partial_and_atomic_witness:
  "snd (update_location sample_env kyoto_spot_db 1 1 rename_and_misplace) = kyoto_spot_db
   \<and> snd (update_trip sample_env kyoto_db 1 1 retitle_and_shorten) = kyoto_db
   \<and> update_location sample_env two_trips_db 1 3 rename_and_move
       = (Reply 200 (updated_location_body moved_garden),
          \<lparr>trips = [kyoto_trip, nara_trip], locations = [kyoto_spot, nara_spot, moved_garden]\<rparr>)
   \<and> moved_garden \<noteq> kyoto_garden \<and> l_longitude moved_garden = l_longitude kyoto_garden
   \<and> update_trip sample_env two_trips_db 1 2 retitle_and_extend
       = (Reply 200 (updated_trip_body osaka_trip),
          \<lparr>trips = [kyoto_trip, osaka_trip], locations = [kyoto_spot, nara_spot, kyoto_garden]\<rparr>)
   \<and> osaka_trip \<noteq> nara_trip \<and> t_start_date osaka_trip = t_start_date nara_trip
   \<and> update_location sample_env kyoto_spot_db 1 1 rename_to_number
       = (Reply 200 (updated_location_body (kyoto_spot\<lparr>l_name := JStr ''5''\<rparr>)),
          \<lparr>trips = [kyoto_trip], locations = [kyoto_spot\<lparr>l_name := JStr ''5''\<rparr>]\<rparr>)
   \<and> (\<exists>l l'. owned_location two_trips_db 1 3 = Some l
         \<and> locations (snd (update_location sample_env two_trips_db 1 3 rename_and_move))
             = map (\<lambda>x. if l_id x = 3 then l' else x) (locations two_trips_db)
         \<and> l_id l' = 3 \<and> l_trip_id l' = l_trip_id l
         \<and> l_name l' = JStr ''Shrine'' \<and> l_latitude l' = 34 \<and> l_longitude l' = l_longitude l)
   \<and> (\<exists>t t'. owned_trip two_trips_db 1 2 = Some t
         \<and> trips (snd (update_trip sample_env two_trips_db 1 2 retitle_and_extend))
             = map (\<lambda>x. if t_id x = 2 then t' else x) (trips two_trips_db)
         \<and> t_id t' = 2 \<and> t_user_id t' = t_user_id t
         \<and> t_destination t' = JStr ''Osaka'' \<and> t_start_date t' = t_start_date t
         \<and> t_end_date t' = (2024, 6, 5))
   \<and> (\<exists>l. owned_location kyoto_spot_db 1 1 = Some l
         \<and> locations (snd (update_location sample_env kyoto_spot_db 1 1 list_body))
             = map (\<lambda>x. if l_id x = 1 then l else x) (locations kyoto_spot_db))"
proof -
  note main = update_is_partial_and_atomic
  have h1: "status (fst (update_location sample_env kyoto_spot_db 1 1 rename_and_misplace)) \<noteq> 200"
    by (simp add: run_rename_and_misplace)
  have h2: "status (fst (update_trip sample_env kyoto_db 1 1 retitle_and_shorten)) \<noteq> 200"
    by (simp add: run_retitle_and_shorten)
  note w1 = main [where E = sample_env and d = kyoto_spot_db and uid = 1 and lid = 1
        and data = rename_and_misplace, THEN conjunct1, THEN mp, OF h1]
  note w2 = main [where E = sample_env and d = kyoto_db and uid = 1 and tid = 1
        and data = retitle_and_shorten, THEN conjunct2, THEN conjunct1, THEN mp, OF h2]
  note progress = main [THEN conjunct2, THEN conjunct2, THEN conjunct2, THEN conjunct2]
  note written = main [THEN conjunct2, THEN conjunct2]
  have h5: "owned_location two_trips_db 1 3 = Some kyoto_garden
        \<and> [(''name'', JStr ''Shrine''), (''latitude'', JInt 34)] \<noteq> [] \<and> commit_ok sample_env
        \<and> (map_of [(''name'', JStr ''Shrine''), (''latitude'', JInt 34)] ''name'' = None
              \<and> JStr ''Shrine'' = l_name kyoto_garden
             \<or> (\<exists>v. map_of [(''name'', JStr ''Shrine''), (''latitude'', JInt 34)] ''name'' = Some v
                    \<and> column_text sample_env v = Inr (Some (JStr ''Shrine''))))
        \<and> (map_of [(''name'', JStr ''Shrine''), (''latitude'', JInt 34)] ''latitude'' = None
              \<and> 34 = l_latitude kyoto_garden
             \<or> (\<exists>v. map_of [(''name'', JStr ''Shrine''), (''latitude'', JInt 34)] ''latitude'' = Some v
                    \<and> py_float sample_env v = Inr (Fin 34) \<and> - 90 \<le> (34::real) \<and> (34::real) \<le> 90))
        \<and> (map_of [(''name'', JStr ''Shrine''), (''latitude'', JInt 34)] ''longitude'' = None
              \<and> 13575 / 100 = l_longitude kyoto_garden
             \<or> (\<exists>v. map_of [(''name'', JStr ''Shrine''), (''latitude'', JInt 34)] ''longitude'' = Some v
                    \<and> py_float sample_env v = Inr (Fin (13575 / 100))
                    \<and> - 180 \<le> (13575 / 100 :: real) \<and> (13575 / 100 :: real) \<le> 180))"
    by (simp add: two_trips_rows sample_values kyoto_garden_def)
  have r5: "update_location sample_env two_trips_db 1 3 rename_and_move
       = (Reply 200 (updated_location_body moved_garden),
          \<lparr>trips = [kyoto_trip, nara_trip], locations = [kyoto_spot, nara_spot, moved_garden]\<rparr>)"
    using progress [THEN conjunct1, THEN mp, OF h5]
    by (simp add: rename_and_move_def two_trips_db_def kyoto_spot_def nara_spot_def
          kyoto_garden_def moved_garden_def)
  have n5: "moved_garden \<noteq> kyoto_garden \<and> l_longitude moved_garden = l_longitude kyoto_garden"
    by (simp add: moved_garden_def kyoto_garden_def)
  have h6: "owned_trip two_trips_db 1 2 = Some nara_trip
        \<and> [(''destination'', JStr ''Osaka''), (''end_date'', JStr ''2024-06-05'')] \<noteq> []
        \<and> commit_ok sample_env
        \<and> (map_of [(''destination'', JStr ''Osaka''), (''end_date'', JStr ''2024-06-05'')]
                ''destination'' = None \<and> JStr ''Osaka'' = t_destination nara_trip
             \<or> (\<exists>v. map_of [(''destination'', JStr ''Osaka''), (''end_date'', JStr ''2024-06-05'')]
                       ''destination'' = Some v
                    \<and> column_text sample_env v = Inr (Some (JStr ''Osaka''))))
        \<and> (map_of [(''destination'', JStr ''Osaka''), (''end_date'', JStr ''2024-06-05'')]
                ''start_date'' = None \<and> (2024, 6, 1) = t_start_date nara_trip
             \<or> (\<exists>v. map_of [(''destination'', JStr ''Osaka''), (''end_date'', JStr ''2024-06-05'')]
                       ''start_date'' = Some v
                    \<and> py_strptime sample_env v = Inr (2024, 6, 1)))
        \<and> (map_of [(''destination'', JStr ''Osaka''), (''end_date'', JStr ''2024-06-05'')]
                ''end_date'' = None \<and> (2024, 6, 5) = t_end_date nara_trip
             \<or> (\<exists>v. map_of [(''destination'', JStr ''Osaka''), (''end_date'', JStr ''2024-06-05'')]
                       ''end_date'' = Some v
                    \<and> py_strptime sample_env v = Inr (2024, 6, 5)))
        \<and> \<not> date_less (2024, 6, 5) (2024, 6, 1)"
    by (simp add: two_trips_rows sample_values nara_trip_def del: py_strptime.simps)
  have r6: "update_trip sample_env two_trips_db 1 2 retitle_and_extend
       = (Reply 200 (updated_trip_body osaka_trip),
          \<lparr>trips = [kyoto_trip, osaka_trip], locations = [kyoto_spot, nara_spot, kyoto_garden]\<rparr>)"
    using progress [THEN conjunct2, THEN mp, OF h6]
    by (simp add: retitle_and_extend_def two_trips_db_def kyoto_trip_def nara_trip_def
          osaka_trip_def)
  have n6: "osaka_trip \<noteq> nara_trip \<and> t_start_date osaka_trip = t_start_date nara_trip"
    by (simp add: osaka_trip_def nara_trip_def)
  have h8: "owned_location kyoto_spot_db 1 1 = Some kyoto_spot
        \<and> [(''name'', JInt 5)] \<noteq> [] \<and> commit_ok sample_env
        \<and> (map_of [(''name'', JInt 5)] ''name'' = None \<and> JStr ''5'' = l_name kyoto_spot
             \<or> (\<exists>v. map_of [(''name'', JInt 5)] ''name'' = Some v
                    \<and> column_text sample_env v = Inr (Some (JStr ''5''))))
        \<and> (map_of [(''name'', JInt 5)] ''latitude'' = None \<and> 35 = l_latitude kyoto_spot
             \<or> (\<exists>v. map_of [(''name'', JInt 5)] ''latitude'' = Some v
                    \<and> py_float sample_env v = Inr (Fin 35) \<and> - 90 \<le> (35::real) \<and> (35::real) \<le> 90))
        \<and> (map_of [(''name'', JInt 5)] ''longitude'' = None \<and> 1357 / 10 = l_longitude kyoto_spot
             \<or> (\<exists>v. map_of [(''name'', JInt 5)] ''longitude'' = Some v
                    \<and> py_float sample_env v = Inr (Fin (1357 / 10))
                    \<and> - 180 \<le> (1357 / 10 :: real) \<and> (1357 / 10 :: real) \<le> 180))"
    by (simp add: two_trips_rows sample_values kyoto_spot_def del: column_text.simps)
  have r8: "update_location sample_env kyoto_spot_db 1 1 rename_to_number
       = (Reply 200 (updated_location_body (kyoto_spot\<lparr>l_name := JStr ''5''\<rparr>)),
          \<lparr>trips = [kyoto_trip], locations = [kyoto_spot\<lparr>l_name := JStr ''5''\<rparr>]\<rparr>)"
    using progress [THEN conjunct1, THEN mp, OF h8]
    by (simp add: rename_to_number_def kyoto_spot_db_def kyoto_db_def kyoto_trip_def kyoto_spot_def)
  have e3: "\<exists>l l'. owned_location two_trips_db 1 3 = Some l
         \<and> locations (snd (update_location sample_env two_trips_db 1 3 rename_and_move))
             = map (\<lambda>x. if l_id x = 3 then l' else x) (locations two_trips_db)
         \<and> l_id l' = 3 \<and> l_trip_id l' = l_trip_id l
         \<and> l_name l' = JStr ''Shrine'' \<and> l_latitude l' = 34 \<and> l_longitude l' = l_longitude l"
  proof -
    from written [THEN conjunct1, THEN mp, OF r5] obtain l l' where
      a: "owned_location two_trips_db 1 3 = Some l"
        "locations \<lparr>trips = [kyoto_trip, nara_trip],
                     locations = [kyoto_spot, nara_spot, moved_garden]\<rparr>
           = map (\<lambda>x. if l_id x = 3 then l' else x) (locations two_trips_db)"
        "l_id l' = 3" "l_trip_id l' = l_trip_id l"
      and f: "\<forall>kvs. rename_and_move = JObj kvs \<longrightarrow>
                 (map_of kvs ''name'' = None \<longrightarrow> l_name l' = l_name l)
                 \<and> (\<forall>v. map_of kvs ''name'' = Some v \<longrightarrow>
                       column_text sample_env v = Inr (Some (l_name l')))
                 \<and> (map_of kvs ''latitude'' = None \<longrightarrow> l_latitude l' = l_latitude l)
                 \<and> (\<forall>v. map_of kvs ''latitude'' = Some v \<longrightarrow>
                       py_float sample_env v = Inr (Fin (l_latitude l'))
                       \<and> - 90 \<le> l_latitude l' \<and> l_latitude l' \<le> 90)
                 \<and> (map_of kvs ''longitude'' = None \<longrightarrow> l_longitude l' = l_longitude l)
                 \<and> (\<forall>v. map_of kvs ''longitude'' = Some v \<longrightarrow>
                       py_float sample_env v = Inr (Fin (l_longitude l'))
                       \<and> - 180 \<le> l_longitude l' \<and> l_longitude l' \<le> 180)"
      by blast
    from f [unfolded rename_and_move_def, rule_format, OF refl]
    have g: "l_name l' = JStr ''Shrine'' \<and> l_latitude l' = 34 \<and> l_longitude l' = l_longitude l"
      by (simp add: sample_values)
    show ?thesis
      using a g by - (rule exI [of _ l], rule exI [of _ l'], simp add: r5)
  qed
  have e4: "\<exists>t t'. owned_trip two_trips_db 1 2 = Some t
         \<and> trips (snd (update_trip sample_env two_trips_db 1 2 retitle_and_extend))
             = map (\<lambda>x. if t_id x = 2 then t' else x) (trips two_trips_db)
         \<and> t_id t' = 2 \<and> t_user_id t' = t_user_id t
         \<and> t_destination t' = JStr ''Osaka'' \<and> t_start_date t' = t_start_date t
         \<and> t_end_date t' = (2024, 6, 5)"
  proof -
    from written [THEN conjunct2, THEN conjunct1, THEN mp, OF r6] obtain t t' where
      a: "owned_trip two_trips_db 1 2 = Some t"
        "trips \<lparr>trips = [kyoto_trip, osaka_trip],
                 locations = [kyoto_spot, nara_spot, kyoto_garden]\<rparr>
           = map (\<lambda>x. if t_id x = 2 then t' else x) (trips two_trips_db)"
        "t_id t' = 2" "t_user_id t' = t_user_id t"
      and f: "\<forall>kvs. retitle_and_extend = JObj kvs \<longrightarrow>
                 (map_of kvs ''destination'' = None \<longrightarrow> t_destination t' = t_destination t)
                 \<and> (\<forall>v. map_of kvs ''destination'' = Some v \<longrightarrow>
                       column_text sample_env v = Inr (Some (t_destination t')))
                 \<and> (map_of kvs ''start_date'' = None \<longrightarrow> t_start_date t' = t_start_date t)
                 \<and> (\<forall>v. map_of kvs ''start_date'' = Some v \<longrightarrow>
                       py_strptime sample_env v = Inr (t_start_date t'))
                 \<and> (map_of kvs ''end_date'' = None \<longrightarrow> t_end_date t' = t_end_date t)
                 \<and> (\<forall>v. map_of kvs ''end_date'' = Some v \<longrightarrow>
                       py_strptime sample_env v = Inr (t_end_date t'))"
      by blast
    from f [unfolded retitle_and_extend_def, rule_format, OF refl]
    have g: "t_destination t' = JStr ''Osaka'' \<and> t_start_date t' = t_start_date t
        \<and> t_end_date t' = (2024, 6, 5)"
      by (simp add: sample_values del: py_strptime.simps)
    show ?thesis
      using a g by - (rule exI [of _ t], rule exI [of _ t'], simp add: r6)
  qed
  have e7: "\<exists>l. owned_location kyoto_spot_db 1 1 = Some l
         \<and> locations (snd (update_location sample_env kyoto_spot_db 1 1 list_body))
             = map (\<lambda>x. if l_id x = 1 then l else x) (locations kyoto_spot_db)"
  proof -
    from written [THEN conjunct1, THEN mp, OF run_list_body] obtain l l' where
      a: "owned_location kyoto_spot_db 1 1 = Some l"
        "locations kyoto_spot_db = map (\<lambda>x. if l_id x = 1 then l' else x) (locations kyoto_spot_db)"
      and f: "(\<forall>kvs. list_body \<noteq> JObj kvs) \<longrightarrow> l' = l"
      by blast
    from f have eq: "l' = l" by (simp add: list_body_def)
    have "locations (snd (update_location sample_env kyoto_spot_db 1 1 list_body))
            = map (\<lambda>x. if l_id x = 1 then l else x) (locations kyoto_spot_db)"
      using a(2) [unfolded eq] by (simp only: run_list_body snd_conv)
    with a(1) show ?thesis by blast
  qed
  from w1 w2 r5 n5 r6 n6 r8 e3 e4 e7 show ?thesis by blast
qed

subsection \<open>Creating a location\<close>

lemma all_in_obj: "all_in ks (JObj kvs) = Inr (\<forall>k\<in>set ks. map_of kvs k \<noteq> None)"
  by (induction ks) (auto simp: py_in_obj simp del: py_in.simps)



text \<open>
  C5, as the code has it. A location added through the route of a trip that is not the
  caller's is answered 404 whatever the body, the trip being looked up first. Through
  \<open>create_location\<close> the answer is 404 when the body has the four fields, whatever the
  coordinates are, the trip being looked up before the coordinates are read.
\<close>

theorem foreign_trip_is_not_found:
  "((\<forall>t\<in>set (trips d). t_id t = tid \<longrightarrow> t_user_id t \<noteq> uid) \<longrightarrow>
      add_location_to_trip E d uid tid data
        = (Reply 404 (err ''Trip not found or access denied''), d))
   \<and> ((\<forall>k\<in>set [''name'', ''latitude'', ''longitude'', ''trip_id'']. map_of kvs k \<noteq> None)
        \<and> map_of kvs ''trip_id'' = Some tv
        \<and> (as_key E tv = None
            \<or> (\<exists>k. as_key E tv = Some k
                  \<and> (\<forall>t\<in>set (trips d). t_id t = k \<longrightarrow> t_user_id t \<noteq> uid))) \<longrightarrow>
      create_location E d uid (JObj kvs)
        = (Reply 404 (err ''Trip not found or access denied''), d))"
proof (intro conjI impI)
  assume "\<forall>t\<in>set (trips d). t_id t = tid \<longrightarrow> t_user_id t \<noteq> uid"
  then have "owned_trip d uid tid = None" by (simp add: owned_trip_None)
  then show "add_location_to_trip E d uid tid data
        = (Reply 404 (err ''Trip not found or access denied''), d)"
    by (simp add: add_location_to_trip_def trip_not_found_def)
next
  assume h: "(\<forall>k\<in>set [''name'', ''latitude'', ''longitude'', ''trip_id'']. map_of kvs k \<noteq> None)
        \<and> map_of kvs ''trip_id'' = Some tv
        \<and> (as_key E tv = None
            \<or> (\<exists>k. as_key E tv = Some k
                  \<and> (\<forall>t\<in>set (trips d). t_id t = k \<longrightarrow> t_user_id t \<noteq> uid)))"
  then have a: "all_in [''name'', ''latitude'', ''longitude'', ''trip_id''] (JObj kvs) = Inr True"
    unfolding all_in_obj by blast
  from h have ne: "kvs \<noteq> []" by auto
  from h have g: "getitem (JObj kvs) ''trip_id'' = Inr tv" by simp
  from h have "(case as_key E tv of None \<Rightarrow> None | Some k \<Rightarrow> owned_trip d uid k) = None"
    by (auto simp: owned_trip_None)
  then show "create_location E d uid (JObj kvs)
        = (Reply 404 (err ''Trip not found or access denied''), d)"
    by (simp add: create_location_def a ne g trip_not_found_def del: all_in.simps getitem.simps)
qed

theorem foreign_trip_is_not_found_witness:
  "add_location_to_trip sample_env kyoto_db 2 1 misplaced_spot
     = (Reply 404 (err ''Trip not found or access denied''), kyoto_db)
   \<and> create_location sample_env kyoto_db 2 misplaced_spot
     = (Reply 404 (err ''Trip not found or access denied''), kyoto_db)
   \<and> fst (create_location sample_env kyoto_db 1 misplaced_spot)
     = Reply 400 (err ''Invalid coordinates'')"
proof -
  have h1: "\<forall>t\<in>set (trips kyoto_db). t_id t = 1 \<longrightarrow> t_user_id t \<noteq> 2"
    by (simp add: kyoto_db_def)
  have h2: "(\<forall>k\<in>set [''name'', ''latitude'', ''longitude'', ''trip_id''].
        map_of [(''name'', JStr ''Tower''), (''latitude'', JInt 200),
                (''longitude'', JInt 0), (''trip_id'', JInt 1)] k \<noteq> None)
      \<and> map_of [(''name'', JStr ''Tower''), (''latitude'', JInt 200),
                (''longitude'', JInt 0), (''trip_id'', JInt 1)] ''trip_id'' = Some (JInt 1)
      \<and> (as_key sample_env (JInt 1) = None
          \<or> (\<exists>k. as_key sample_env (JInt 1) = Some k
                \<and> (\<forall>t\<in>set (trips kyoto_db). t_id t = k \<longrightarrow> t_user_id t \<noteq> 2)))"
    by (simp add: sample_env_def kyoto_db_def)
  have own: "fst (create_location sample_env kyoto_db 1 misplaced_spot)
     = Reply 400 (err ''Invalid coordinates'')"
    by (simp add: create_location_def misplaced_spot_def sample_env_def owned_trip_def
          kyoto_db_def catch_value_error_def store_location_try_def bind_exn_def)
  note main = foreign_trip_is_not_found
  from main [THEN conjunct1, THEN mp, OF h1, of sample_env misplaced_spot]
    main [THEN conjunct2, THEN mp, OF h2] own
  show ?thesis by (simp add: misplaced_spot_def)
qed

text \<open>
  C5, as it is stated, fails for \<open>create_location\<close>: trip 1 is the trip of user 1, and
  user 2, who creates a location under it without a name, is answered 400, not 404.
\<close>

theorem foreign_trip_validation_first:
  "trips kyoto_db = [kyoto_trip] \<and> t_id kyoto_trip = 1 \<and> t_user_id kyoto_trip = 1
   \<and> create_location sample_env kyoto_db 2 nameless_spot
       = (Reply 400 (err ''Missing required location fields''), kyoto_db)"
  by (simp add: kyoto_db_def kyoto_trip_def create_location_def nameless_spot_def)

subsection \<open>Adding several locations at once\<close>

lemma str_nat_2: "str_nat (Suc (Suc 0)) = ''2''"
  by code_simp

lemma bulk_item_tower:
  "bulk_item sample_env 1 item_tower (kyoto_db, [])
     = Inr (kyoto_db\<lparr>locations := [tower_row]\<rparr>, [tower_row])"
  by (simp add: bulk_item_def item_tower_def bind_exn_def new_location_def next_id_def Let_def
        kyoto_db_def tower_row_def)

lemma bulk_item_gate:
  "bulk_item sample_env 1 item_gate (kyoto_db\<lparr>locations := [tower_row]\<rparr>, [tower_row])
     = Inr (kyoto_db\<lparr>locations := [tower_row, gate_row]\<rparr>, [tower_row, gate_row])"
  by (simp add: bulk_item_def item_gate_def bind_exn_def new_location_def next_id_def Let_def
        kyoto_db_def tower_row_def gate_row_def)

lemma bulk_item_skips:
  "bulk_item sample_env 1 item_lat200 st = Inr st"
  "bulk_item sample_env 1 item_lon300 st = Inr st"
  "bulk_item sample_env 1 item_nameless st = Inr st"
  by (simp_all add: bulk_item_def item_lat200_def item_lon300_def item_nameless_def bind_exn_def)

lemma bulk_item_null_latitude:
  "bulk_item sample_env 1 item_null_latitude st = Inl TypeError"
  by (simp add: bulk_item_def item_null_latitude_def bind_exn_def)

text \<open>
  C4 at two requests of the owner of trip 1. Of two valid items and three invalid ones the
  two valid items are stored and reported. But with an item whose latitude is null beside
  a valid item, \<open>float\<close> raises a \<open>TypeError\<close>, which neither \<open>try\<close> of the handler
  catches: the request ends in the exception and nothing is stored, the valid item
  included.
\<close>

theorem bulk_add_null_latitude_raises:
  "bulk_add_locations sample_env kyoto_db 1 1
       (JArr [item_tower, item_lat200, item_nameless, item_gate, item_lon300])
     = (Reply 201 (JObj
          [(''message'', JStr ''Successfully added 2 locations''),
           (''locations'', JArr [location_brief tower_row, location_brief gate_row])]),
        kyoto_db\<lparr>locations := [tower_row, gate_row]\<rparr>)
   \<and> bulk_add_locations sample_env kyoto_db 1 1 (JArr [item_tower, item_null_latitude])
     = (Raised TypeError, kyoto_db)
   \<and> bulk_add_locations sample_env kyoto_db 1 1 (JArr [item_null_latitude])
     = (Raised TypeError, kyoto_db)"
proof -
  have o: "owned_trip kyoto_db 1 1 = Some kyoto_trip"
    by (simp add: owned_trip_def kyoto_db_def kyoto_trip_def)
  have c: "commit_ok sample_env" by (simp add: sample_env_def)
  have l1: "bulk_loop sample_env 1 [item_tower, item_lat200, item_nameless, item_gate, item_lon300]
              (kyoto_db, [])
            = Inr (kyoto_db\<lparr>locations := [tower_row, gate_row]\<rparr>, [tower_row, gate_row])"
    by (simp add: bind_exn_Inr bulk_item_tower bulk_item_gate bulk_item_skips)
  have l2: "bulk_loop sample_env 1 [item_tower, item_null_latitude] (kyoto_db, []) = Inl TypeError"
    by (simp add: bind_exn_Inr bind_exn_Inl bulk_item_tower bulk_item_null_latitude)
  have l3: "bulk_loop sample_env 1 [item_null_latitude] (kyoto_db, []) = Inl TypeError"
    by (simp add: bind_exn_Inl bulk_item_null_latitude)
  show ?thesis
    by (simp add: bulk_add_locations_def bulk_commit_def o c l1 l2 l3 str_nat_2
          del: bulk_loop.simps str_nat.simps)
qed

subsection \<open>The distance\<close>

lemma sin_half_squared: "(sin (x / 2))\<^sup>2 = (1 - cos x) / 2" for x :: real
  using cos_double_sin [of "x / 2"] by simp

lemma cos_half_squared: "(cos (x / 2))\<^sup>2 = (1 + cos x) / 2" for x :: real
  using cos_double_cos [of "x / 2"] by simp

lemma hav_plus_cos_cos:
  "(sin ((r2 - r1) / 2))\<^sup>2 + cos r1 * cos r2 = (cos ((r1 + r2) / 2))\<^sup>2" for r1 r2 :: real
proof -
  have "cos (r2 - r1) = cos r1 * cos r2 + sin r1 * sin r2"
    by (simp add: cos_diff mult.commute)
  moreover have "cos (r1 + r2) = cos r1 * cos r2 - sin r1 * sin r2"
    by (simp add: cos_add)
  ultimately show ?thesis
    by (simp add: sin_half_squared cos_half_squared field_simps)
qed

lemma convex_unit:
  fixes s S K :: real
  assumes "0 \<le> s" "s \<le> 1" "0 \<le> S" "S \<le> 1" "0 \<le> K" "K \<le> 1"
  shows "0 \<le> (1 - s) * S + s * K \<and> (1 - s) * S + s * K \<le> 1"
proof
  from assms show "0 \<le> (1 - s) * S + s * K" by simp
  have "(1 - s) * S \<le> (1 - s) * 1" using assms by (intro mult_left_mono) simp_all
  moreover have "s * K \<le> s * 1" using assms by (intro mult_left_mono) simp_all
  ultimately show "(1 - s) * S + s * K \<le> 1" by simp
qed

lemma haversine_a_range:
  "0 \<le> haversine_a lat1 lon1 lat2 lon2 \<and> haversine_a lat1 lon1 lat2 lon2 \<le> 1"
proof -
  define r1 r2 where "r1 = radians lat1" and "r2 = radians lat2"
  define s where "s = (sin ((radians lon2 - radians lon1) / 2))\<^sup>2"
  define S where "S = (sin ((r2 - r1) / 2))\<^sup>2"
  define K where "K = (cos ((r1 + r2) / 2))\<^sup>2"
  have sq: "0 \<le> s" "0 \<le> S" "0 \<le> K" by (simp_all add: s_def S_def K_def)
  have le: "s \<le> 1" "S \<le> 1" "K \<le> 1"
    unfolding s_def S_def K_def
    by (simp_all add: abs_square_le_1)
  define C where "C = cos r1 * cos r2"
  have "C = K - S"
    using hav_plus_cos_cos [of r2 r1] by (simp add: S_def K_def C_def)
  moreover have "haversine_a lat1 lon1 lat2 lon2 = S + C * s"
    by (simp add: haversine_a_def Let_def r1_def r2_def s_def S_def C_def)
  moreover have "S + (K - S) * s = (1 - s) * S + s * K"
    by (simp add: algebra_simps)
  ultimately have "haversine_a lat1 lon1 lat2 lon2 = (1 - s) * S + s * K"
    by simp
  with convex_unit [OF sq(1) le(1) sq(2) le(2) sq(3) le(3)] show ?thesis by simp
qed

lemma haversine_total:
  "haversine_distance lat1 lon1 lat2 lon2 = Inr (haversine_km lat1 lon1 lat2 lon2)"
proof -
  from haversine_a_range [of lat1 lon1 lat2 lon2]
  have "0 \<le> haversine_a lat1 lon1 lat2 lon2" "sqrt (haversine_a lat1 lon1 lat2 lon2) \<le> 1"
    by (simp_all add: real_sqrt_le_1_iff)
  then show ?thesis by (simp add: haversine_distance_def Let_def)
qed

lemma haversine_a_same: "haversine_a lat lon lat lon = 0"
  by (simp add: haversine_a_def)

lemma haversine_a_sym: "haversine_a lat1 lon1 lat2 lon2 = haversine_a lat2 lon2 lat1 lon1"
proof -
  have "(sin ((x - y) / 2))\<^sup>2 = (sin ((y - x) / 2))\<^sup>2" for x y :: real
    by (simp add: sin_half_squared) (metis cos_minus minus_diff_eq)
  then show ?thesis
    by (simp add: haversine_a_def Let_def mult.commute)
qed

text \<open>
  C8. The distance of a point to itself is 0 and the distance is symmetric, for all
  coordinates; the function always returns (its square root and its arc sine are taken
  within their domains).
\<close>

theorem haversine_zero_and_symmetric:
  "haversine_distance lat lon lat lon = Inr 0
   \<and> haversine_distance lat1 lon1 lat2 lon2 = haversine_distance lat2 lon2 lat1 lon1
   \<and> (\<exists>km. haversine_distance lat1 lon1 lat2 lon2 = Inr km \<and> 0 \<le> km)"
proof (intro conjI)
  show "haversine_distance lat lon lat lon = Inr 0"
    by (simp add: haversine_total haversine_km_def haversine_a_same)
  show "haversine_distance lat1 lon1 lat2 lon2 = haversine_distance lat2 lon2 lat1 lon1"
    by (simp add: haversine_total haversine_km_def haversine_a_sym [of lat1 lon1 lat2 lon2])
  have "0 \<le> arcsin (sqrt (haversine_a lat1 lon1 lat2 lon2))"
    using haversine_a_range [of lat1 lon1 lat2 lon2]
    by (intro arcsin_nonneg) (simp add: real_sqrt_le_1_iff)
  then show "\<exists>km. haversine_distance lat1 lon1 lat2 lon2 = Inr km \<and> 0 \<le> km"
    by (simp add: haversine_total haversine_km_def Let_def)
qed

subsection \<open>The search around a point\<close>

lemma nearby_scan_eq:
  "nearby_scan la lo radius ls
     = Inr (map (\<lambda>l. (l, py_round2 (haversine_km la lo (l_latitude l) (l_longitude l))))
              (filter (\<lambda>l. fle (Fin (haversine_km la lo (l_latitude l) (l_longitude l))) radius) ls))"
  by (induction ls) (simp_all add: haversine_total bind_exn_Inr)

lemma user_locations_eq:
  "user_locations d uid
     = filter (\<lambda>l. \<exists>t\<in>set (trips d). t_id t = l_trip_id l \<and> t_user_id t = uid) (locations d)"
  by (simp add: user_locations_def owned_by_def list_ex_iff cong: filter_cong)

lemma nearby_try_valid:
  assumes "map_of args ''latitude'' = Some sla" "float_str E sla = Some (Fin la)"
    "- 90 \<le> la" "la \<le> 90"
    and "map_of args ''longitude'' = Some slo" "float_str E slo = Some (Fin lo)"
    "- 180 \<le> lo" "lo \<le> 180"
    and "map_of args ''radius'' = None \<and> radius = Fin 10
         \<or> (\<exists>sr. map_of args ''radius'' = Some sr \<and> float_str E sr = Some radius)"
    and "\<not> fle radius (Fin 0)"
  shows "nearby_try E d uid args =
     Inr (Reply 200 (JObj
        [(''center'', JObj [(''latitude'', JNum (Fin la)), (''longitude'', JNum (Fin lo))]),
         (''radius'', JNum radius),
         (''locations'', JArr (map entry_json (sort_key snd
             (map (\<lambda>l. (l, py_round2 (haversine_km la lo (l_latitude l) (l_longitude l))))
               (filter (\<lambda>l. fle (Fin (haversine_km la lo (l_latitude l) (l_longitude l))) radius)
                  (user_locations d uid)))))),
         (''count'', JInt (int (length (sort_key snd
             (map (\<lambda>l. (l, py_round2 (haversine_km la lo (l_latitude l) (l_longitude l))))
               (filter (\<lambda>l. fle (Fin (haversine_km la lo (l_latitude l) (l_longitude l))) radius)
                  (user_locations d uid)))))))]))"
proof -
  have r: "(case map_of args ''radius'' of None \<Rightarrow> Inr (Fin 10)
            | Some s \<Rightarrow> arg_float E (Some s)) = Inr radius"
    using assms(9) by (auto simp: arg_float_def)
  show ?thesis
    unfolding nearby_try_def
    using assms(1-8,10)
    by (simp add: arg_float_def bind_exn_Inr r nearby_scan_eq Let_def)
qed

text \<open>
  C1, as the code has it. For a centre within the bounds and a radius above 0 (the default
  10 when the parameter is absent), \<open>get_nearby_locations\<close> answers 200 with the entries
  \<open>es\<close>: their locations are exactly the locations of the trips of the user whose distance
  to the centre is at most the radius, each entry carries that distance rounded to two
  decimals, and the entries are in ascending order of this rounded distance, those of
  equal rounded distance in the order of retrieval. When no location qualifies the list is
  empty and the answer is still 200.
\<close>

theorem nearby_sorted_by_reported_distance:
  "map_of args ''latitude'' = Some sla \<and> float_str E sla = Some (Fin la)
     \<and> - 90 \<le> la \<and> la \<le> 90
     \<and> map_of args ''longitude'' = Some slo \<and> float_str E slo = Some (Fin lo)
     \<and> - 180 \<le> lo \<and> lo \<le> 180
     \<and> (map_of args ''radius'' = None \<and> radius = Fin 10
         \<or> (\<exists>sr. map_of args ''radius'' = Some sr \<and> float_str E sr = Some radius))
     \<and> fle (Fin 0) radius \<and> \<not> fle radius (Fin 0) \<longrightarrow>
   (\<exists>es. get_nearby_locations E d uid args = Reply 200 (JObj
        [(''center'', JObj [(''latitude'', JNum (Fin la)), (''longitude'', JNum (Fin lo))]),
         (''radius'', JNum radius),
         (''locations'', JArr (map entry_json es)),
         (''count'', JInt (int (length es)))])
      \<and> mset (map fst es)
          = mset (filter (\<lambda>l. (\<exists>t\<in>set (trips d). t_id t = l_trip_id l \<and> t_user_id t = uid)
                            \<and> fle (Fin (haversine_km la lo (l_latitude l) (l_longitude l))) radius)
                    (locations d))
      \<and> (\<forall>e\<in>set es.
            haversine_distance la lo (l_latitude (fst e)) (l_longitude (fst e))
              = Inr (haversine_km la lo (l_latitude (fst e)) (l_longitude (fst e)))
            \<and> snd e = py_round2 (haversine_km la lo (l_latitude (fst e)) (l_longitude (fst e))))
      \<and> sorted (map snd es)
      \<and> (\<forall>k. map fst (filter (\<lambda>e. snd e = k) es)
            = filter (\<lambda>l. (\<exists>t\<in>set (trips d). t_id t = l_trip_id l \<and> t_user_id t = uid)
                 \<and> fle (Fin (haversine_km la lo (l_latitude l) (l_longitude l))) radius
                 \<and> py_round2 (haversine_km la lo (l_latitude l) (l_longitude l)) = k)
                (locations d))
      \<and> ((\<forall>l\<in>set (locations d).
             (\<exists>t\<in>set (trips d). t_id t = l_trip_id l \<and> t_user_id t = uid) \<longrightarrow>
             \<not> fle (Fin (haversine_km la lo (l_latitude l) (l_longitude l))) radius) \<longrightarrow>
          es = []))"
proof
  assume h: "map_of args ''latitude'' = Some sla \<and> float_str E sla = Some (Fin la)
     \<and> - 90 \<le> la \<and> la \<le> 90
     \<and> map_of args ''longitude'' = Some slo \<and> float_str E slo = Some (Fin lo)
     \<and> - 180 \<le> lo \<and> lo \<le> 180
     \<and> (map_of args ''radius'' = None \<and> radius = Fin 10
         \<or> (\<exists>sr. map_of args ''radius'' = Some sr \<and> float_str E sr = Some radius))
     \<and> fle (Fin 0) radius \<and> \<not> fle radius (Fin 0)"
  define dist where "dist l = haversine_km la lo (l_latitude l) (l_longitude l)"
    for l :: location
  define cands where "cands = filter (\<lambda>l. fle (Fin (dist l)) radius) (user_locations d uid)"
  define raw where "raw = map (\<lambda>l. (l, py_round2 (dist l))) cands"
  define es where "es = sort_key snd raw"
  have cands_eq: "cands = filter (\<lambda>l. (\<exists>t\<in>set (trips d). t_id t = l_trip_id l \<and> t_user_id t = uid)
                            \<and> fle (Fin (dist l)) radius) (locations d)"
    by (simp add: cands_def user_locations_eq conj_commute)
  from h have "nearby_try E d uid args = Inr (Reply 200 (JObj
        [(''center'', JObj [(''latitude'', JNum (Fin la)), (''longitude'', JNum (Fin lo))]),
         (''radius'', JNum radius),
         (''locations'', JArr (map entry_json es)),
         (''count'', JInt (int (length es)))]))"
    unfolding es_def raw_def cands_def dist_def
    by (intro nearby_try_valid [of args sla E la slo lo radius d uid]) blast+
  then have reply: "get_nearby_locations E d uid args = Reply 200 (JObj
        [(''center'', JObj [(''latitude'', JNum (Fin la)), (''longitude'', JNum (Fin lo))]),
         (''radius'', JNum radius),
         (''locations'', JArr (map entry_json es)),
         (''count'', JInt (int (length es)))])"
    by (simp add: get_nearby_locations_def)
  have m: "mset (map fst es) = mset cands"
  proof -
    have "mset (map fst es) = image_mset fst (mset es)" by simp
    also have "mset es = mset raw" by (simp add: es_def)
    also have "image_mset fst (mset raw) = mset (map fst raw)" by simp
    also have "map fst raw = cands" by (simp add: raw_def comp_def)
    finally show ?thesis .
  qed
  have entries: "\<forall>e\<in>set es. haversine_distance la lo (l_latitude (fst e)) (l_longitude (fst e))
         = Inr (dist (fst e)) \<and> snd e = py_round2 (dist (fst e))"
    by (auto simp: es_def raw_def dist_def haversine_total)
  have srt: "sorted (map snd es)"
    by (simp add: es_def)
  have stable: "map fst (filter (\<lambda>e. snd e = k) es)
      = filter (\<lambda>l. (\<exists>t\<in>set (trips d). t_id t = l_trip_id l \<and> t_user_id t = uid)
                 \<and> fle (Fin (dist l)) radius \<and> py_round2 (dist l) = k) (locations d)" for k
  proof -
    have "filter (\<lambda>e. snd e = k) es = filter (\<lambda>e. snd e = k) raw"
      unfolding es_def by (rule sort_key_stable)
    also have "map fst \<dots> = filter (\<lambda>l. py_round2 (dist l) = k) cands"
      by (simp add: raw_def filter_map comp_def)
    also have "\<dots> = filter (\<lambda>l. (\<exists>t\<in>set (trips d). t_id t = l_trip_id l \<and> t_user_id t = uid)
                 \<and> fle (Fin (dist l)) radius \<and> py_round2 (dist l) = k) (locations d)"
      by (simp add: cands_eq conj_commute conj_left_commute)
    finally show ?thesis .
  qed
  have none: "es = []"
    if "\<forall>l\<in>set (locations d).
             (\<exists>t\<in>set (trips d). t_id t = l_trip_id l \<and> t_user_id t = uid) \<longrightarrow>
             \<not> fle (Fin (dist l)) radius"
  proof -
    from that have "cands = []" by (auto simp: cands_eq filter_empty_conv)
    then show ?thesis by (simp add: es_def raw_def)
  qed
  show "\<exists>es. get_nearby_locations E d uid args = Reply 200 (JObj
        [(''center'', JObj [(''latitude'', JNum (Fin la)), (''longitude'', JNum (Fin lo))]),
         (''radius'', JNum radius),
         (''locations'', JArr (map entry_json es)),
         (''count'', JInt (int (length es)))])
      \<and> mset (map fst es)
          = mset (filter (\<lambda>l. (\<exists>t\<in>set (trips d). t_id t = l_trip_id l \<and> t_user_id t = uid)
                            \<and> fle (Fin (haversine_km la lo (l_latitude l) (l_longitude l))) radius)
                    (locations d))
      \<and> (\<forall>e\<in>set es.
            haversine_distance la lo (l_latitude (fst e)) (l_longitude (fst e))
              = Inr (haversine_km la lo (l_latitude (fst e)) (l_longitude (fst e)))
            \<and> snd e = py_round2 (haversine_km la lo (l_latitude (fst e)) (l_longitude (fst e))))
      \<and> sorted (map snd es)
      \<and> (\<forall>k. map fst (filter (\<lambda>e. snd e = k) es)
            = filter (\<lambda>l. (\<exists>t\<in>set (trips d). t_id t = l_trip_id l \<and> t_user_id t = uid)
                 \<and> fle (Fin (haversine_km la lo (l_latitude l) (l_longitude l))) radius
                 \<and> py_round2 (haversine_km la lo (l_latitude l) (l_longitude l)) = k)
                (locations d))
      \<and> ((\<forall>l\<in>set (locations d).
             (\<exists>t\<in>set (trips d). t_id t = l_trip_id l \<and> t_user_id t = uid) \<longrightarrow>
             \<not> fle (Fin (haversine_km la lo (l_latitude l) (l_longitude l))) radius) \<longrightarrow>
          es = [])"
    using reply m entries srt stable none
    unfolding cands_eq dist_def
    by (intro exI [of _ es]) blast
qed

lemma radians_0: "radians 0 = 0"
  by (simp add: radians_def)

lemma equator_km:
  assumes "0 \<le> x" "x \<le> 180"
  shows "haversine_km 0 0 0 x = radians x * 6371"
proof -
  have b: "0 \<le> radians x / 2" "radians x / 2 \<le> pi / 2"
    using assms by (simp_all add: radians_def field_simps)
  then have "0 \<le> sin (radians x / 2)"
    by (intro sin_ge_zero) (use pi_ge_zero in linarith)+
  then have s1: "sqrt ((sin (radians x / 2))\<^sup>2) = sin (radians x / 2)"
    by simp
  have s2: "arcsin (sin (radians x / 2)) = radians x / 2"
    using b by (intro arcsin_sin) linarith+
  have a: "haversine_a 0 0 0 x = (sin (radians x / 2))\<^sup>2"
    by (simp add: haversine_a_def Let_def radians_0)
  have "haversine_km 0 0 0 x = 2 * arcsin (sqrt ((sin (radians x / 2))\<^sup>2)) * 6371"
    by (simp add: haversine_km_def Let_def a)
  also have "\<dots> = 2 * (radians x / 2) * 6371"
    by (simp only: s1 s2)
  also have "\<dots> = radians x * 6371" by simp
  finally show ?thesis .
qed

lemma py_round2_small:
  assumes "0 \<le> x" "x < 1 / 200"
  shows "py_round2 x = 0"
proof -
  have f: "\<lfloor>x * 100\<rfloor> = 0"
    using assms by (intro floor_unique) simp_all
  show ?thesis
    using assms by (simp add: py_round2_def Let_def f)
qed

lemma far_km:
  "haversine_km 0 0 0 (1 / 50000) = pi * 6371 / 9000000"
  by (simp add: equator_km radians_def)

lemma near_km:
  "haversine_km 0 0 0 (1 / 100000) = pi * 6371 / 18000000"
  by (simp add: equator_km radians_def)

lemma far_near_facts:
  "haversine_km 0 0 0 (1 / 100000) < haversine_km 0 0 0 (1 / 50000)"
  "py_round2 (haversine_km 0 0 0 (1 / 50000)) = 0"
  "py_round2 (haversine_km 0 0 0 (1 / 100000)) = 0"
  "haversine_km 0 0 0 (1 / 50000) \<le> 10"
  "haversine_km 0 0 0 (1 / 100000) \<le> 10"
proof -
  have p: "0 < pi" "pi < 4" using pi_gt_zero pi_less_4 by simp_all
  have lt: "pi * 6371 / 18000000 < pi * 6371 / 9000000" using p by simp
  have r1: "py_round2 (pi * 6371 / 9000000) = 0"
    using p by (intro py_round2_small) simp_all
  have r2: "py_round2 (pi * 6371 / 18000000) = 0"
    using p by (intro py_round2_small) simp_all
  have le: "pi * 6371 / 9000000 \<le> 10" "pi * 6371 / 18000000 \<le> 10" using p by simp_all
  show "haversine_km 0 0 0 (1 / 100000) < haversine_km 0 0 0 (1 / 50000)"
    by (simp only: far_km near_km lt)
  show "py_round2 (haversine_km 0 0 0 (1 / 50000)) = 0"
    by (simp only: far_km r1)
  show "py_round2 (haversine_km 0 0 0 (1 / 100000)) = 0"
    by (simp only: near_km r2)
  show "haversine_km 0 0 0 (1 / 50000) \<le> 10" by (simp only: far_km le)
  show "haversine_km 0 0 0 (1 / 100000) \<le> 10" by (simp only: near_km le)
qed

lemma sample_float_zero: "float_str sample_env ''0'' = Some (Fin 0)"
  by (simp add: sample_env_def sample_float_def digit_of_def)

lemma spot_fields:
  "l_latitude far_spot = 0" "l_longitude far_spot = 1 / 50000"
  "l_latitude near_spot = 0" "l_longitude near_spot = 1 / 100000"
  by (simp_all add: far_spot_def near_spot_def)

lemma equator_locations: "user_locations equator_db 1 = [far_spot, near_spot]"
  by (simp add: user_locations_def owned_by_def equator_db_def kyoto_db_def far_spot_def
        near_spot_def)

lemma equator_entries:
  "sort_key snd
     (map (\<lambda>l. (l, py_round2 (haversine_km 0 0 (l_latitude l) (l_longitude l))))
        (filter (\<lambda>l. fle (Fin (haversine_km 0 0 (l_latitude l) (l_longitude l))) (Fin 10))
           [far_spot, near_spot]))
   = [(far_spot, 0), (near_spot, 0)]"
  by (simp add: spot_fields far_near_facts)

lemma origin_args_valid:
  "map_of origin_args ''latitude'' = Some ''0''" "map_of origin_args ''longitude'' = Some ''0''"
  "map_of origin_args ''radius'' = None"
  by (simp_all add: origin_args_def)

text \<open>
  C1, as it is stated, fails: the first location is farther from the centre than the
  second, both distances round to 0.0, and the answer lists the locations in the order
  of retrieval, the farther one first.
\<close>

theorem nearby_not_sorted_by_distance:
  "get_nearby_locations sample_env equator_db 1 origin_args
     = Reply 200 (JObj
        [(''center'', JObj [(''latitude'', JNum (Fin 0)), (''longitude'', JNum (Fin 0))]),
         (''radius'', JNum (Fin 10)),
         (''locations'', JArr [entry_json (far_spot, 0), entry_json (near_spot, 0)]),
         (''count'', JInt 2)])
   \<and> haversine_distance 0 0 (l_latitude far_spot) (l_longitude far_spot)
       = Inr (haversine_km 0 0 0 (1 / 50000))
   \<and> haversine_distance 0 0 (l_latitude near_spot) (l_longitude near_spot)
       = Inr (haversine_km 0 0 0 (1 / 100000))
   \<and> haversine_km 0 0 0 (1 / 100000) < haversine_km 0 0 0 (1 / 50000)"
proof -
  have "nearby_try sample_env equator_db 1 origin_args = Inr (Reply 200 (JObj
        [(''center'', JObj [(''latitude'', JNum (Fin 0)), (''longitude'', JNum (Fin 0))]),
         (''radius'', JNum (Fin 10)),
         (''locations'', JArr [entry_json (far_spot, 0), entry_json (near_spot, 0)]),
         (''count'', JInt 2)]))"
  proof -
    have r: "map_of origin_args ''radius'' = None \<and> Fin 10 = Fin 10
         \<or> (\<exists>sr. map_of origin_args ''radius'' = Some sr
               \<and> float_str sample_env sr = Some (Fin 10))"
      by (simp add: origin_args_valid)
    have len: "int (length [(far_spot, 0::real), (near_spot, 0)]) = 2" by simp
    show ?thesis
      using nearby_try_valid [of origin_args "''0''" sample_env 0 "''0''" 0 "Fin 10" equator_db 1,
          OF origin_args_valid(1) sample_float_zero _ _ origin_args_valid(2) sample_float_zero
            _ _ r]
      by (simp only: equator_locations equator_entries len list.map)
         (simp)
  qed
  then show ?thesis
    by (simp add: get_nearby_locations_def haversine_total spot_fields far_near_facts)
qed

theorem nearby_sorted_by_reported_distance_witness:
  "\<exists>es. get_nearby_locations sample_env equator_db 1 origin_args = Reply 200 (JObj
        [(''center'', JObj [(''latitude'', JNum (Fin 0)), (''longitude'', JNum (Fin 0))]),
         (''radius'', JNum (Fin 10)),
         (''locations'', JArr (map entry_json es)),
         (''count'', JInt (int (length es)))])
      \<and> sorted (map snd es)
      \<and> (\<forall>e\<in>set es. snd e
            = py_round2 (haversine_km 0 0 (l_latitude (fst e)) (l_longitude (fst e))))"
proof -
  have h: "map_of origin_args ''latitude'' = Some ''0'' \<and> float_str sample_env ''0'' = Some (Fin 0)
     \<and> - 90 \<le> (0::real) \<and> (0::real) \<le> 90
     \<and> map_of origin_args ''longitude'' = Some ''0'' \<and> float_str sample_env ''0'' = Some (Fin 0)
     \<and> - 180 \<le> (0::real) \<and> (0::real) \<le> 180
     \<and> (map_of origin_args ''radius'' = None \<and> Fin 10 = Fin 10
         \<or> (\<exists>sr. map_of origin_args ''radius'' = Some sr \<and> float_str sample_env sr = Some (Fin 10)))
     \<and> fle (Fin 0) (Fin 10) \<and> \<not> fle (Fin 10) (Fin 0)"
    by (simp add: origin_args_valid sample_float_zero)
  from nearby_sorted_by_reported_distance [where args = origin_args and E = sample_env
      and d = equator_db and uid = 1 and radius = "Fin 10" and la = 0 and lo = 0
      and sla = "''0''" and slo = "''0''", THEN mp, OF h]
  show ?thesis by blast
qed

subsection \<open>Numeric bounds for the scenario around Kyoto\<close>

lemma sin_coeffs:
  "sin_coeff 0 = 0" "sin_coeff (Suc 0) = 1" "sin_coeff 2 = 0" "sin_coeff 3 = - 1 / 6"
  "sin_coeff 4 = 0" "sin_coeff 5 = 1 / 120" "sin_coeff 6 = 0"
  by (simp_all add: sin_coeff_def fact_numeral)

lemma cos_coeffs:
  "cos_coeff 0 = 1" "cos_coeff (Suc 0) = 0" "cos_coeff 2 = - 1 / 2" "cos_coeff 3 = 0"
  "cos_coeff 4 = 1 / 24" "cos_coeff 5 = 0" "cos_coeff 6 = - 1 / 720" "cos_coeff 7 = 0"
  by (simp_all add: cos_coeff_def fact_numeral)

lemma sin_series7:
  "(\<Sum>m<7. sin_coeff m * x ^ m) = x - x ^ 3 / 6 + x ^ 5 / 120" for x :: real
proof -
  have "{..<7::nat} = {0, 1, 2, 3, 4, 5, 6}" by auto
  then show ?thesis by (simp add: sin_coeffs)
qed

lemma sin_bounds7:
  fixes x :: real
  assumes "0 \<le> x"
  shows "x - x ^ 3 / 6 + x ^ 5 / 120 - x ^ 7 / 5040 \<le> sin x"
    and "sin x \<le> x - x ^ 3 / 6 + x ^ 5 / 120 + x ^ 7 / 5040"
proof -
  have "\<bar>sin x - (x - x ^ 3 / 6 + x ^ 5 / 120)\<bar> \<le> inverse (fact 7) * \<bar>x\<bar> ^ 7"
    using Maclaurin_sin_bound [of x 7] by (simp only: sin_series7)
  moreover have "inverse (fact 7) * \<bar>x\<bar> ^ 7 = x ^ 7 / 5040"
    using assms by (simp add: fact_numeral)
  ultimately have b: "\<bar>sin x - (x - x ^ 3 / 6 + x ^ 5 / 120)\<bar> \<le> x ^ 7 / 5040"
    by simp
  from b show "x - x ^ 3 / 6 + x ^ 5 / 120 - x ^ 7 / 5040 \<le> sin x" by linarith
  from b show "sin x \<le> x - x ^ 3 / 6 + x ^ 5 / 120 + x ^ 7 / 5040" by linarith
qed

lemma cos_series8:
  "(\<Sum>m<8. cos_coeff m * x ^ m) = 1 - x ^ 2 / 2 + x ^ 4 / 24 - x ^ 6 / 720" for x :: real
proof -
  have "{..<8::nat} = {0, 1, 2, 3, 4, 5, 6, 7}" by auto
  then show ?thesis by (simp add: cos_coeffs)
qed

lemma cos_bounds8:
  fixes x :: real
  assumes "0 < x"
  shows "1 - x ^ 2 / 2 + x ^ 4 / 24 - x ^ 6 / 720 - x ^ 8 / 40320 \<le> cos x"
    and "cos x \<le> 1 - x ^ 2 / 2 + x ^ 4 / 24 - x ^ 6 / 720 + x ^ 8 / 40320"
proof -
  from Maclaurin_cos_expansion2 [OF assms, of 8] obtain t where
    t: "cos x = (\<Sum>m<8. cos_coeff m * x ^ m) + (cos (t + 1 / 2 * real 8 * pi) / fact 8) * x ^ 8"
    by auto
  define c where "c = cos (t + 1 / 2 * real 8 * pi)"
  have c: "- 1 \<le> c" "c \<le> 1" by (simp_all add: c_def)
  have x8: "0 \<le> x ^ 8 / 40320" using assms by simp
  have e: "cos x = 1 - x ^ 2 / 2 + x ^ 4 / 24 - x ^ 6 / 720 + c * (x ^ 8 / 40320)"
    using t by (simp only: cos_series8 c_def [symmetric]) (simp add: fact_numeral)
  have "- (x ^ 8 / 40320) \<le> c * (x ^ 8 / 40320)"
    using mult_right_mono [OF c(1) x8] by simp
  moreover have "c * (x ^ 8 / 40320) \<le> x ^ 8 / 40320"
    using mult_right_mono [OF c(2) x8] by simp
  ultimately show "1 - x ^ 2 / 2 + x ^ 4 / 24 - x ^ 6 / 720 - x ^ 8 / 40320 \<le> cos x"
    and "cos x \<le> 1 - x ^ 2 / 2 + x ^ 4 / 24 - x ^ 6 / 720 + x ^ 8 / 40320"
    using e by linarith+
qed

lemma pi_bounds: "3141 / 1000 < pi" "pi < 31422 / 10000"
proof -
  have half: "1 \<le> pi / 2" using pi_ge_two by simp
  show "3141 / 1000 < pi"
  proof (rule ccontr)
    assume "\<not> 3141 / 1000 < pi"
    then have le: "pi / 6 \<le> 5235 / 10000" by simp
    have "sin (pi / 6) \<le> sin (5235 / 10000)"
      using le half by (intro sin_monotone_2pi_le) simp_all
    also have "\<dots> \<le> 5235 / 10000 - (5235 / 10000) ^ 3 / 6 + (5235 / 10000) ^ 5 / 120
                     + (5235 / 10000) ^ 7 / 5040"
      by (intro sin_bounds7) simp
    also have "\<dots> < 1 / 2" by (simp add: power_divide)
    finally show False by (simp add: sin_30)
  qed
  show "pi < 31422 / 10000"
  proof (rule ccontr)
    assume "\<not> pi < 31422 / 10000"
    then have le: "5237 / 10000 \<le> pi / 6" by simp
    have "(1::real) / 2 < 5237 / 10000 - (5237 / 10000) ^ 3 / 6 + (5237 / 10000) ^ 5 / 120
                     - (5237 / 10000) ^ 7 / 5040"
      by (simp add: power_divide)
    also have "\<dots> \<le> sin (5237 / 10000)"
      by (intro sin_bounds7) simp
    also have "\<dots> \<le> sin (pi / 6)"
      using le half by (intro sin_monotone_2pi_le) simp_all
    finally show False by (simp add: sin_30)
  qed
qed

lemma cos_near_35:
  fixes r :: real
  assumes "6107 / 10000 \<le> r" "r \<le> 6112 / 10000"
  shows "8189 / 10000 \<le> cos r" "cos r \<le> 8193 / 10000"
proof -
  have p: "6112 / 10000 \<le> pi" using pi_ge_two by simp
  have "(8189::real) / 10000 \<le> 1 - (6112 / 10000) ^ 2 / 2 + (6112 / 10000) ^ 4 / 24
           - (6112 / 10000) ^ 6 / 720 - (6112 / 10000) ^ 8 / 40320"
    by (simp add: power_divide)
  also have "\<dots> \<le> cos (6112 / 10000)"
    by (intro cos_bounds8) simp
  also have "\<dots> \<le> cos r"
    using assms p by (intro cos_monotone_0_pi_le) simp_all
  finally show "8189 / 10000 \<le> cos r" .
  have "cos r \<le> cos (6107 / 10000)"
    using assms p by (intro cos_monotone_0_pi_le) simp_all
  also have "\<dots> \<le> 1 - (6107 / 10000) ^ 2 / 2 + (6107 / 10000) ^ 4 / 24
           - (6107 / 10000) ^ 6 / 720 + (6107 / 10000) ^ 8 / 40320"
    by (intro cos_bounds8) simp
  also have "\<dots> \<le> 8193 / 10000"
    by (simp add: power_divide)
  finally show "cos r \<le> 8193 / 10000" .
qed

lemma kyoto_radians:
  "6107 / 10000 \<le> radians 35" "radians 35 \<le> 6112 / 10000"
  "6107 / 10000 \<le> radians (3501 / 100)" "radians (3501 / 100) \<le> 6112 / 10000"
  using pi_bounds by (simp_all add: radians_def)

lemma kyoto_a:
  "haversine_a (3501 / 100) (13571 / 100) 35 (1357 / 10)
     = (sin (pi / 36000))\<^sup>2 * (1 + cos (radians (3501 / 100)) * cos (radians 35))"
proof -
  have d1: "(radians 35 - radians (3501 / 100)) / 2 = - (pi / 36000)"
    by (simp add: radians_def field_simps)
  have d2: "(radians (1357 / 10) - radians (13571 / 100)) / 2 = - (pi / 36000)"
    by (simp add: radians_def field_simps)
  show ?thesis
    unfolding haversine_a_def Let_def d1 d2
    by (simp add: algebra_simps)
qed

lemma sin_eta:
  "8724 / 100000000 \<le> sin (pi / 36000)" "sin (pi / 36000) \<le> 31422 / 360000000"
proof -
  have "(8724::real) / 100000000 \<le> 3141 / 36000000 - (3141 / 36000000) ^ 3 / 6
           + (3141 / 36000000) ^ 5 / 120 - (3141 / 36000000) ^ 7 / 5040"
    by (simp add: power_divide)
  also have "\<dots> \<le> sin (3141 / 36000000)"
    by (intro sin_bounds7) simp
  also have "\<dots> \<le> sin (pi / 36000)"
    using pi_bounds pi_ge_two by (intro sin_monotone_2pi_le) simp_all
  finally show "8724 / 100000000 \<le> sin (pi / 36000)" .
  have "sin (pi / 36000) \<le> pi / 36000"
    by (intro sin_x_le_x) simp
  also have "\<dots> \<le> 31422 / 360000000"
    using pi_bounds by simp
  finally show "sin (pi / 36000) \<le> 31422 / 360000000" .
qed

lemma kyoto_root:
  "12925 / 10000 \<le> sqrt (1 + cos (radians (3501 / 100)) * cos (radians 35))"
  "sqrt (1 + cos (radians (3501 / 100)) * cos (radians 35)) \<le> 12928 / 10000"
proof -
  note c1 = cos_near_35 [OF kyoto_radians(3,4)]
  note c2 = cos_near_35 [OF kyoto_radians(1,2)]
  have lo: "(8189 / 10000) * (8189 / 10000) \<le> cos (radians (3501 / 100)) * cos (radians 35)"
    using c1(1) c2(1) by (intro mult_mono) simp_all
  have hi: "cos (radians (3501 / 100)) * cos (radians 35) \<le> (8193 / 10000) * (8193 / 10000)"
    using c1 c2 by (intro mult_mono) simp_all
  show "12925 / 10000 \<le> sqrt (1 + cos (radians (3501 / 100)) * cos (radians 35))"
    using lo by (intro real_le_rsqrt) (simp add: power2_eq_square)
  show "sqrt (1 + cos (radians (3501 / 100)) * cos (radians 35)) \<le> 12928 / 10000"
    using hi by (intro real_le_lsqrt) (simp_all add: power2_eq_square)
qed

lemma kyoto_km:
  "1435 / 1000 < haversine_km (3501 / 100) (13571 / 100) 35 (1357 / 10)"
  "haversine_km (3501 / 100) (13571 / 100) 35 (1357 / 10) < 1445 / 1000"
proof -
  define s where "s = sin (pi / 36000)"
  define q where "q = sqrt (1 + cos (radians (3501 / 100)) * cos (radians 35))"
  define y where "y = s * q"
  have s: "8724 / 100000000 \<le> s" "s \<le> 31422 / 360000000"
    using sin_eta by (simp_all add: s_def)
  have q: "12925 / 10000 \<le> q" "q \<le> 12928 / 10000"
    using kyoto_root by (simp_all add: q_def)
  have s0: "0 \<le> s" using s(1) by simp
  have q0: "0 \<le> q" using q(1) by simp
  have root: "sqrt (haversine_a (3501 / 100) (13571 / 100) 35 (1357 / 10)) = y"
    using s0 by (simp add: kyoto_a real_sqrt_mult y_def s_def q_def)
  have ylo: "(8724 / 100000000) * (12925 / 10000) \<le> y"
    unfolding y_def using s(1) q(1) by (intro mult_mono) simp_all
  have yhi: "y \<le> (31422 / 360000000) * (12928 / 10000)"
    unfolding y_def using s q s0 q0 by (intro mult_mono) simp_all
  have y0: "0 \<le> y" using ylo by simp
  have y1: "y \<le> 1" using yhi by simp
  have a0: "0 \<le> arcsin y" using y0 y1 by (intro arcsin_nonneg) simp
  have "y = sin (arcsin y)" using y0 y1 by simp
  also have "\<dots> \<le> arcsin y" using a0 by (rule sin_x_le_x)
  finally have lower: "y \<le> arcsin y" .
  have "y \<le> (31422 / 360000000) * (12928 / 10000)" by (rule yhi)
  also have "\<dots> \<le> 1134 / 10000000 - (1134 / 10000000) ^ 3 / 6
           + (1134 / 10000000) ^ 5 / 120 - (1134 / 10000000) ^ 7 / 5040"
    by (simp add: power_divide)
  also have "\<dots> \<le> sin (1134 / 10000000)"
    by (intro sin_bounds7) simp
  finally have "y \<le> sin (1134 / 10000000)" .
  then have upper: "arcsin y \<le> 1134 / 10000000"
    using y0 y1 pi_ge_two by (subst arcsin_le_iff) simp_all
  have km: "haversine_km (3501 / 100) (13571 / 100) 35 (1357 / 10) = 2 * arcsin y * 6371"
    by (simp only: haversine_km_def Let_def root)
  show "1435 / 1000 < haversine_km (3501 / 100) (13571 / 100) 35 (1357 / 10)"
    using lower ylo by (simp add: km)
  show "haversine_km (3501 / 100) (13571 / 100) 35 (1357 / 10) < 1445 / 1000"
    using upper by (simp add: km)
qed

lemma py_round2_near:
  fixes x :: real and n :: int
  assumes "of_int n - 1 / 2 < x * 100" "x * 100 < of_int n + 1 / 2"
  shows "py_round2 x = of_int n / 100"
proof (cases "x * 100 < of_int n")
  case True
  have f: "\<lfloor>x * 100\<rfloor> = n - 1"
    using assms True by (intro floor_unique) simp_all
  have "1 / 2 < x * 100 - of_int (n - 1)" using assms by simp
  then show ?thesis
    by (simp add: py_round2_def Let_def f)
next
  case False
  have f: "\<lfloor>x * 100\<rfloor> = n"
    using assms False by (intro floor_unique) simp_all
  have "x * 100 - of_int n < 1 / 2" using assms by simp
  then show ?thesis
    by (simp add: py_round2_def Let_def f)
qed

lemma kyoto_reported:
  "py_round2 (haversine_km (3501 / 100) (13571 / 100) 35 (1357 / 10)) = 144 / 100"
  using py_round2_near [of 144 "haversine_km (3501 / 100) (13571 / 100) 35 (1357 / 10)"] kyoto_km
  by simp

subsection \<open>The scenario around Kyoto\<close>

lemma kyoto_args_read:
  "map_of kyoto_args ''latitude'' = Some ''35.01''"
  "map_of kyoto_args ''longitude'' = Some ''135.71''"
  "map_of kyoto_args ''radius'' = Some ''5''"
  "float_str sample_env ''35.01'' = Some (Fin (3501 / 100))"
  "float_str sample_env ''135.71'' = Some (Fin (13571 / 100))"
  "float_str sample_env ''5'' = Some (Fin 5)"
  by (simp_all add: kyoto_args_def sample_env_def sample_float_def digit_of_def)

lemma kyoto_spot_fields:
  "l_latitude kyoto_spot = 35" "l_longitude kyoto_spot = 1357 / 10"
  by (simp_all add: kyoto_spot_def)

lemma kyoto_spot_locations: "user_locations kyoto_spot_db 1 = [kyoto_spot]"
proof -
  have "l_trip_id kyoto_spot = 1" by (simp add: kyoto_spot_def)
  then show ?thesis
    by (simp add: user_locations_def owned_by_def kyoto_spot_db_def kyoto_db_def)
qed

lemma kyoto_entries:
  "sort_key snd
     (map (\<lambda>l. (l, py_round2 (haversine_km (3501 / 100) (13571 / 100) (l_latitude l) (l_longitude l))))
        (filter (\<lambda>l. fle (Fin (haversine_km (3501 / 100) (13571 / 100) (l_latitude l) (l_longitude l)))
                       (Fin 5))
           [kyoto_spot]))
   = [(kyoto_spot, 144 / 100)]"
  using kyoto_km by (simp add: kyoto_spot_fields kyoto_reported)

lemma run_kyoto_nearby:
  "get_nearby_locations sample_env kyoto_spot_db 1 kyoto_args
     = Reply 200 (JObj
        [(''center'', JObj [(''latitude'', JNum (Fin (3501 / 100))),
                            (''longitude'', JNum (Fin (13571 / 100)))]),
         (''radius'', JNum (Fin 5)),
         (''locations'', JArr [entry_json (kyoto_spot, 144 / 100)]),
         (''count'', JInt 1)])"
proof -
  have r: "map_of kyoto_args ''radius'' = None \<and> Fin 5 = Fin 10
         \<or> (\<exists>sr. map_of kyoto_args ''radius'' = Some sr
               \<and> float_str sample_env sr = Some (Fin 5))"
    by (simp add: kyoto_args_read)
  have len: "int (length [(kyoto_spot, 144 / 100 :: real)]) = 1" by simp
  have "nearby_try sample_env kyoto_spot_db 1 kyoto_args = Inr (Reply 200 (JObj
        [(''center'', JObj [(''latitude'', JNum (Fin (3501 / 100))),
                            (''longitude'', JNum (Fin (13571 / 100)))]),
         (''radius'', JNum (Fin 5)),
         (''locations'', JArr [entry_json (kyoto_spot, 144 / 100)]),
         (''count'', JInt 1)]))"
    using nearby_try_valid [of kyoto_args "''35.01''" sample_env "3501 / 100" "''135.71''"
        "13571 / 100" "Fin 5" kyoto_spot_db 1,
        OF kyoto_args_read(1) kyoto_args_read(4) _ _ kyoto_args_read(2) kyoto_args_read(5) _ _ r]
    by (simp only: kyoto_spot_locations kyoto_entries len list.map) simp
  then show ?thesis by (simp add: get_nearby_locations_def)
qed

text \<open>
  C9, as the code has it. The location at (35.0, 135.7) is within 5 km of
  (35.01, 135.71): its distance lies between 1.435 km and 1.445 km, and the answer lists
  it with the distance 1.44.
\<close>

theorem kyoto_spot_is_nearby:
  "get_nearby_locations sample_env kyoto_spot_db 1 kyoto_args
     = Reply 200 (JObj
        [(''center'', JObj [(''latitude'', JNum (Fin (3501 / 100))),
                            (''longitude'', JNum (Fin (13571 / 100)))]),
         (''radius'', JNum (Fin 5)),
         (''locations'', JArr [entry_json (kyoto_spot, 144 / 100)]),
         (''count'', JInt 1)])
   \<and> haversine_distance (3501 / 100) (13571 / 100) (l_latitude kyoto_spot) (l_longitude kyoto_spot)
       = Inr (haversine_km (3501 / 100) (13571 / 100) 35 (1357 / 10))
   \<and> 1435 / 1000 < haversine_km (3501 / 100) (13571 / 100) 35 (1357 / 10)
   \<and> haversine_km (3501 / 100) (13571 / 100) 35 (1357 / 10) < 1445 / 1000
   \<and> py_round2 (haversine_km (3501 / 100) (13571 / 100) 35 (1357 / 10)) = 144 / 100"
  using kyoto_km
  by (simp add: run_kyoto_nearby haversine_total kyoto_spot_fields kyoto_reported)

text \<open>
  C9, as it is stated, gives the distance as about 1.3 km: the distance that is
  reported, 1.44, is more than 0.1 km above it.
\<close>

theorem kyoto_spot_is_not_at_1_3:
  "get_nearby_locations sample_env kyoto_spot_db 1 kyoto_args
     = Reply 200 (JObj
        [(''center'', JObj [(''latitude'', JNum (Fin (3501 / 100))),
                            (''longitude'', JNum (Fin (13571 / 100)))]),
         (''radius'', JNum (Fin 5)),
         (''locations'', JArr [entry_json (kyoto_spot, 144 / 100)]),
         (''count'', JInt 1)])
   \<and> snd (kyoto_spot, 144 / 100 :: real) - 13 / 10 > 1 / 10"
  by (simp add: run_kyoto_nearby)

end
